theory Spec2Isabelle
  imports Complex_Main
begin

section \<open>Go values decoded from JSON\<close>

text \<open>
  The program keeps every project and variable record as the untyped value that
  \<^verbatim>\<open>encoding/json\<close> decodes into an \<^verbatim>\<open>interface{}\<close>: nil, a bool, a float64, a
  string, a slice or a \<^verbatim>\<open>map[string]interface{}\<close>. A decoded float64 is finite, hence
  a rational number. \<open>Unencodable\<close> stands for the Go values that
  \<^verbatim>\<open>json.Marshal\<close> rejects (a channel, a function, NaN); decoding never produces it.
  A map is kept as its list of entries; a nil map is \<open>JNull\<close>. \<open>NilSlice\<close> is the nil
  value of the type \<^verbatim>\<open>[]map[string]interface{}\<close>, which the listings return on a failure:
  it has no elements and encodes as \<^verbatim>\<open>null\<close>, where the empty slice \<open>JArray []\<close> encodes
  as \<^verbatim>\<open>[]\<close>.
\<close>

datatype json =
    JNull
  | JBool bool
  | JNumber rat
  | JString string
  | JArray "json list"
  | JObject "(string \<times> json) list"
  | NilSlice
  | Unencodable

text \<open>\<^verbatim>\<open>m[k]\<close> on a \<^verbatim>\<open>map[string]interface{}\<close>: the zero value nil when the key is absent
  or the map is nil.\<close>

fun at_key :: "json \<Rightarrow> string \<Rightarrow> json" where
  "at_key (JObject kvs) k = (case map_of kvs k of None \<Rightarrow> JNull | Some v \<Rightarrow> v)"
| "at_key _ k = JNull"

text \<open>The type assertions \<^verbatim>\<open>v.(string)\<close> and \<^verbatim>\<open>v.(float64)\<close>; \<open>None\<close> is the failed
  assertion (a panic in the one-result form, \<^verbatim>\<open>ok = false\<close> in the two-result form).\<close>

fun as_string :: "json \<Rightarrow> string option" where
  "as_string (JString s) = Some s"
| "as_string _ = None"

fun as_float64 :: "json \<Rightarrow> rat option" where
  "as_float64 (JNumber x) = Some x"
| "as_float64 _ = None"

text \<open>
  \<^verbatim>\<open>int64(x)\<close> truncates toward zero. When the truncated value is outside the range of
  int64, Go leaves the result to the implementation; the model takes the result on amd64,
  the least int64. \<^verbatim>\<open>int(x)\<close> is the same conversion, \<^verbatim>\<open>int\<close> being 64 bits wide on the
  platforms the program is built for. \<^verbatim>\<open>math.Round\<close> rounds half away from zero and
  returns a float64.
\<close>

definition int64_of_float64 :: "rat \<Rightarrow> int" where
  "int64_of_float64 x =
     (let t = (if 0 \<le> x then \<lfloor>x\<rfloor> else \<lceil>x\<rceil>)
      in if - (2 ^ 63) \<le> t \<and> t < 2 ^ 63 then t else - (2 ^ 63))"

definition math_Round :: "rat \<Rightarrow> rat" where
  "math_Round x = of_int (if 0 \<le> x then \<lfloor>x + 1 / 2\<rfloor> else \<lceil>x - 1 / 2\<rceil>)"

text \<open>\<^verbatim>\<open>json.Marshal\<close> fails exactly on a value with an unencodable part. The request
  body it produces is represented by the document it encodes.\<close>

fun encodable :: "json \<Rightarrow> bool" where
  "encodable Unencodable = False"
| "encodable (JArray xs) = list_all encodable xs"
| "encodable (JObject kvs) = list_all encodable (map snd kvs)"
| "encodable _ = True"

definition json_Marshal :: "json \<Rightarrow> json option" where
  "json_Marshal v = (if encodable v then Some v else None)"

text \<open>\<^verbatim>\<open>json.Unmarshal(body, &xs)\<close> with \<^verbatim>\<open>xs []map[string]interface{}\<close>: \<^verbatim>\<open>null\<close> gives
  the nil slice, an array of objects (or nulls) gives the slice of maps, anything else
  is a type error.\<close>

fun is_map :: "json \<Rightarrow> bool" where
  "is_map (JObject kvs) = True"
| "is_map JNull = True"
| "is_map _ = False"

fun unmarshal_maps :: "json \<Rightarrow> json list option" where
  "unmarshal_maps JNull = Some []"
| "unmarshal_maps (JArray xs) = (if list_all is_map xs then Some xs else None)"
| "unmarshal_maps _ = None"

text \<open>The same decoding with the slice kept as a value, and the elements of such a value
  (what \<^verbatim>\<open>range\<close> visits).\<close>

fun unmarshal_slice :: "json \<Rightarrow> json option" where
  "unmarshal_slice JNull = Some NilSlice"
| "unmarshal_slice (JArray xs) = (if list_all is_map xs then Some (JArray xs) else None)"
| "unmarshal_slice _ = None"

fun elements :: "json \<Rightarrow> json list" where
  "elements (JArray xs) = xs"
| "elements _ = []"

section \<open>Formatting\<close>

text \<open>The verb \<^verbatim>\<open>%d\<close> on a number that is not negative, and \<^verbatim>\<open>strconv.FormatInt(n, 10)\<close>
  (which is also \<^verbatim>\<open>%d\<close> on any integer).\<close>

definition digit :: "nat \<Rightarrow> char" where
  "digit d = ''0123456789'' ! d"

fun decimal :: "nat \<Rightarrow> string" where
  "decimal n = (if 10 \<le> n then decimal (n div 10) @ [digit (n mod 10)] else [digit n])"

declare decimal.simps [simp del]

definition FormatInt :: "int \<Rightarrow> string" where
  "FormatInt i = (if 0 \<le> i then decimal (nat i) else CHR ''-'' # decimal (nat (- i)))"

section \<open>Entity resolver\<close>

datatype panic = InterfaceConversion

text \<open>\<^verbatim>\<open>findProjectIDByExactName\<close>: the loop over the slice is the recursion over the
  list; a failed type assertion panics.\<close>

fun findProjectIDByExactName :: "json list \<Rightarrow> string \<Rightarrow> panic + int" where
  "findProjectIDByExactName [] projectName = Inr 0"
| "findProjectIDByExactName (project # projects) projectName =
     (case as_string (at_key project ''name'') of
        None \<Rightarrow> Inl InterfaceConversion
      | Some name \<Rightarrow>
          if projectName = name then
            (case as_float64 (at_key project ''id'') of
               None \<Rightarrow> Inl InterfaceConversion
             | Some x \<Rightarrow> Inr (int64_of_float64 x))
          else findProjectIDByExactName projects projectName)"

section \<open>Transport layer\<close>

text \<open>Durations are in seconds.\<close>

definition DefaultTimeout :: nat where
  "DefaultTimeout = 30"

definition DefaultMaxIdleConns :: nat where
  "DefaultMaxIdleConns = 100"

definition DefaultIdleConnTimeout :: nat where
  "DefaultIdleConnTimeout = 90"

record HTTPClientConfig =
  Timeout :: nat
  SkipTLSVerification :: bool
  MaxIdleConns :: nat
  IdleConnTimeout :: nat

definition NewDefaultConfig :: HTTPClientConfig where
  "NewDefaultConfig =
     \<lparr>Timeout = DefaultTimeout, SkipTLSVerification = False,
      MaxIdleConns = DefaultMaxIdleConns, IdleConnTimeout = DefaultIdleConnTimeout\<rparr>"

text \<open>An \<^verbatim>\<open>http.Client\<close> with the settings of its transport that the program chooses.\<close>

record http_client =
  InsecureSkipVerify :: bool
  client_Timeout :: nat
  transport_MaxIdleConns :: nat
  transport_IdleConnTimeout :: nat

definition CreateHTTPClient :: "HTTPClientConfig option \<Rightarrow> http_client" where
  "CreateHTTPClient config =
     (let config = (case config of None \<Rightarrow> NewDefaultConfig | Some c \<Rightarrow> c)
      in \<lparr>InsecureSkipVerify = SkipTLSVerification config,
          client_Timeout = Timeout config,
          transport_MaxIdleConns = MaxIdleConns config,
          transport_IdleConnTimeout = IdleConnTimeout config\<rparr>)"

text \<open>\<^verbatim>\<open>&http.Client{Timeout: t}\<close>: Go's default transport, which verifies certificates
  (timeout 0 is no timeout).\<close>

definition http_Client :: "nat \<Rightarrow> http_client" where
  "http_Client t =
     \<lparr>InsecureSkipVerify = False, client_Timeout = t,
      transport_MaxIdleConns = 100, transport_IdleConnTimeout = 90\<rparr>"

record request =
  req_method :: string
  req_url :: string
  req_header :: "(string \<times> string) list"
  req_body :: "json option"

definition header_Set :: "string \<Rightarrow> string \<Rightarrow> request \<Rightarrow> request" where
  "header_Set k v req =
     req\<lparr>req_header := filter (\<lambda>h. fst h \<noteq> k) (req_header req) @ [(k, v)]\<rparr>"

text \<open>What the body of a response turns out to be when it is read and decoded: the read
  fails, the text is not JSON, or it is a document.\<close>

datatype body = Unreadable | Malformed | Document json

datatype response = TransportError | Response nat body

datatype error =
    ErrCreatingRequest
  | ErrFetching
  | ErrRequestFailed
  | ErrStatus nat
  | ErrReading
  | ErrParsing

section \<open>The world outside the program\<close>

datatype scope = Project | Group

datatype listing = GroupProjects | GroupVariables | ProjectVariables

text \<open>The lines the program prints, by format string, with the arguments that the
  model determines.\<close>

datatype message =
    RetryingRequest nat nat
  | ErrorCreatingRequest
  | ErrorMakingRequest
  | APIRequestFailed nat
  | ErrorDecodingResponse
  | FailedAfterAttempts nat
  | ErrorCreatingRequestFor listing string
  | ErrorFetching listing string
  | ErrorReadingResponse listing string
  | ErrorFetchingStatus listing string
  | ErrorParsingJSON listing string
  | ErrorMarshalingPayload scope string
  | ErrorCreatingVariable scope string error
  | SuccessfullyCreatedVariable scope string
  | SourceAndDestinationRequired
  | ErrorLoadingConfig
  | ErrorDataDir
  | SuccessfullySaved string
  | ErrorSavingOutput
  | ErrorSavingSourceVariables
  | MigratingRecursively string string
  | MigratingGroup string string
  | MigratingProject string string
  | InvalidSourceVariablesFormat
  | ErrorFetchingDestinationProjects error
  | ProjectNameNotFound string
  | ProjectNotFoundInDestination string
  | InvalidVariablesFormat string
  | MigratingVariablesFor string int
  | MigrationCompleted

text \<open>A run leaves a trace: the requests handed to a client, the pauses, the lines
  printed and the files written, in order.\<close>

datatype event =
    Sent http_client request
  | Slept nat
  | Printed message
  | Saved string json

type_synonym trace = "event list"

fun sent_of :: "trace \<Rightarrow> (http_client \<times> request) list" where
  "sent_of [] = []"
| "sent_of (Sent c r # tr) = (c, r) # sent_of tr"
| "sent_of (e # tr) = sent_of tr"

fun printed_of :: "trace \<Rightarrow> message list" where
  "printed_of [] = []"
| "printed_of (Printed m # tr) = m # printed_of tr"
| "printed_of (e # tr) = printed_of tr"

definition nsent :: "trace \<Rightarrow> nat" where
  "nsent tr = length (sent_of tr)"

record Config =
  SourceBaseURL :: string
  SourceAccessToken :: string
  DestinationBaseURL :: string
  DestinationAccessToken :: string
  AuthUser :: string
  AuthPassword :: string

text \<open>
  Everything the program does not decide is a parameter: whether \<^verbatim>\<open>http.NewRequest\<close>
  accepts a URL; what the remote side answers to the \<open>n\<close>-th request of the run (any
  network behaviour is such a function, since a run sends its requests one after the
  other); the order in which \<^verbatim>\<open>range\<close> visits the entries of a map; and the outcomes of
  the file operations.
\<close>

record env =
  url_parses :: "string \<Rightarrow> bool"
  respond :: "nat \<Rightarrow> http_client \<Rightarrow> request \<Rightarrow> response"
  range_order :: "(string \<times> json) list \<Rightarrow> (string \<times> json) list"
  loadConfig :: "Config option"
  EnsureDataDir :: bool
  file_writable :: "string \<Rightarrow> bool"

text \<open>The package-level variables that the flags set (\<^verbatim>\<open>groupID\<close> and \<^verbatim>\<open>projectID\<close>
  are \<open>flag_groupID\<close> and \<open>flag_projectID\<close> here, since the functions have
  parameters of the same names).\<close>

record globals =
  isDestination :: bool
  isSource :: bool
  flag_groupID :: string
  flag_projectID :: string
  recursive :: bool
  destinationGroupID :: string
  destinationProjectID :: string
  outputFile :: string

definition http_NewRequest :: "env \<Rightarrow> string \<Rightarrow> string \<Rightarrow> json option \<Rightarrow> request option" where
  "http_NewRequest env method url payload =
     (if url_parses env url
      then Some \<lparr>req_method = method, req_url = url, req_header = [], req_body = payload\<rparr>
      else None)"

definition client_Do :: "env \<Rightarrow> http_client \<Rightarrow> request \<Rightarrow> trace \<Rightarrow> response \<times> trace" where
  "client_Do env client req tr = (respond env (nsent tr) client req, tr @ [Sent client req])"

section \<open>Transfer executor\<close>

definition makeGitLabAPIRequest ::
  "env \<Rightarrow> string \<Rightarrow> string \<Rightarrow> string \<Rightarrow> json \<Rightarrow> trace \<Rightarrow> error option \<times> trace" where
  "makeGitLabAPIRequest env method url token payload tr =
     (case http_NewRequest env method url (Some payload) of
        None \<Rightarrow> (Some ErrCreatingRequest, tr)
      | Some req \<Rightarrow>
          (let req = header_Set ''PRIVATE-TOKEN'' token req;
               req = header_Set ''Content-Type'' ''application/json'' req;
               httpConfig = NewDefaultConfig;
               httpConfig = httpConfig\<lparr>SkipTLSVerification := True\<rparr>;
               client = CreateHTTPClient (Some httpConfig)
           in case client_Do env client req tr of
                (TransportError, tr') \<Rightarrow> (Some ErrRequestFailed, tr')
              | (Response code b, tr') \<Rightarrow>
                  if code \<ge> 400 then (Some (ErrStatus code), tr') else (None, tr')))"

text \<open>The loop of \<^verbatim>\<open>createVariablesForProject\<close> and \<^verbatim>\<open>createVariablesForGroup\<close>, which
  differ in the URL and in the word their messages use.\<close>

fun createVariables_loop ::
  "env \<Rightarrow> scope \<Rightarrow> string \<Rightarrow> string \<Rightarrow> string \<Rightarrow> json list \<Rightarrow> trace \<Rightarrow> trace" where
  "createVariables_loop env sc ident url accessToken [] tr = tr"
| "createVariables_loop env sc ident url accessToken (variable # variables) tr =
     (case json_Marshal variable of
        None \<Rightarrow>
          createVariables_loop env sc ident url accessToken variables
            (tr @ [Printed (ErrorMarshalingPayload sc ident)])
      | Some payload \<Rightarrow>
          (case makeGitLabAPIRequest env ''POST'' url accessToken payload tr of
             (Some err, tr') \<Rightarrow>
               createVariables_loop env sc ident url accessToken variables
                 (tr' @ [Printed (ErrorCreatingVariable sc ident err)])
           | (None, tr') \<Rightarrow>
               createVariables_loop env sc ident url accessToken variables
                 (tr' @ [Printed (SuccessfullyCreatedVariable sc ident)])))"

definition createVariablesForProject ::
  "env \<Rightarrow> Config \<Rightarrow> globals \<Rightarrow> string \<Rightarrow> json list \<Rightarrow> trace \<Rightarrow> trace" where
  "createVariablesForProject env config g projectID variables tr =
     (let baseUrl = (if isSource g then SourceBaseURL config else DestinationBaseURL config);
          accessToken =
            (if isSource g then SourceAccessToken config else DestinationAccessToken config);
          url = baseUrl @ ''/api/v4/projects/'' @ projectID @ ''/variables''
      in createVariables_loop env Project projectID url accessToken variables tr)"

definition createVariablesForGroup ::
  "env \<Rightarrow> Config \<Rightarrow> globals \<Rightarrow> string \<Rightarrow> json list \<Rightarrow> trace \<Rightarrow> trace" where
  "createVariablesForGroup env config g groupID variables tr =
     (let baseUrl = (if isSource g then SourceBaseURL config else DestinationBaseURL config);
          accessToken =
            (if isSource g then SourceAccessToken config else DestinationAccessToken config);
          url = baseUrl @ ''/api/v4/groups/'' @ groupID @ ''/variables''
      in createVariables_loop env Group groupID url accessToken variables tr)"

section \<open>Paginated fetcher\<close>

text \<open>One pass of the loop of \<^verbatim>\<open>fetchAllProjects\<close>, up to the decoded page.\<close>

definition fetchAllProjects_page ::
  "env \<Rightarrow> string \<Rightarrow> string \<Rightarrow> string \<Rightarrow> nat \<Rightarrow> trace \<Rightarrow> (error + json list) \<times> trace" where
  "fetchAllProjects_page env baseUrl destGroup accessToken page tr =
     (let url = baseUrl @ ''/api/v4/groups/'' @ destGroup @ ''/projects?per_page=100&page=''
                @ decimal page
      in case http_NewRequest env ''GET'' url None of
           None \<Rightarrow> (Inl ErrCreatingRequest, tr)
         | Some req \<Rightarrow>
             (let req = header_Set ''PRIVATE-TOKEN'' accessToken req;
                  httpConfig = NewDefaultConfig;
                  httpConfig = httpConfig\<lparr>SkipTLSVerification := True\<rparr>;
                  client = CreateHTTPClient (Some httpConfig)
              in case client_Do env client req tr of
                   (TransportError, tr') \<Rightarrow> (Inl ErrFetching, tr')
                 | (Response code b, tr') \<Rightarrow>
                     if code \<noteq> 200 then (Inl (ErrStatus code), tr')
                     else (case b of
                             Unreadable \<Rightarrow> (Inl ErrReading, tr')
                           | Malformed \<Rightarrow> (Inl ErrParsing, tr')
                           | Document d \<Rightarrow>
                               (case unmarshal_maps d of
                                  None \<Rightarrow> (Inl ErrParsing, tr')
                                | Some projects \<Rightarrow> (Inr projects, tr')))))"

text \<open>One pass of the loop of \<^verbatim>\<open>fetchGroupProjects\<close> (the mirror workflow): a plain
  client, and the body decoded from the stream.\<close>

definition fetchGroupProjects_page ::
  "env \<Rightarrow> string \<Rightarrow> string \<Rightarrow> string \<Rightarrow> nat \<Rightarrow> trace \<Rightarrow> (error + json list) \<times> trace" where
  "fetchGroupProjects_page env baseURL groupID accessToken page tr =
     (let url = baseURL @ ''/api/v4/groups/'' @ groupID @ ''/projects?per_page=100&page=''
                @ decimal page @ ''&include_subgroups=true''
      in case http_NewRequest env ''GET'' url None of
           None \<Rightarrow> (Inl ErrCreatingRequest, tr)
         | Some req \<Rightarrow>
             (let req = header_Set ''PRIVATE-TOKEN'' accessToken req;
                  client = http_Client 0
              in case client_Do env client req tr of
                   (TransportError, tr') \<Rightarrow> (Inl ErrFetching, tr')
                 | (Response code b, tr') \<Rightarrow>
                     if code \<noteq> 200 then (Inl (ErrStatus code), tr')
                     else (case b of
                             Document d \<Rightarrow>
                               (case unmarshal_maps d of
                                  None \<Rightarrow> (Inl ErrParsing, tr')
                                | Some projects \<Rightarrow> (Inr projects, tr'))
                           | _ \<Rightarrow> (Inl ErrParsing, tr'))))"

text \<open>
  The loop \<^verbatim>\<open>for { ... }\<close> shared by the two functions: an error returns at once and
  drops what was collected, an empty page ends the loop, any other page is appended and
  the page number goes up by one. Nothing bounds the number of passes, so the loop is a
  partial function: \<open>None\<close> is the run that never returns. The page number is a Go
  \<^verbatim>\<open>int\<close>, far from its bound after any number of pages that a run can fetch.
\<close>

partial_function (option) page_loop ::
  "(nat \<Rightarrow> trace \<Rightarrow> (error + json list) \<times> trace) \<Rightarrow> nat \<Rightarrow> json list \<Rightarrow> trace
     \<Rightarrow> ((error + json list) \<times> trace) option" where
  "page_loop fetch page allProjects tr =
     (case fetch page tr of
        (Inl err, tr') \<Rightarrow> Some (Inl err, tr')
      | (Inr projects, tr') \<Rightarrow>
          if length projects = 0 then Some (Inr allProjects, tr')
          else page_loop fetch (page + 1) (allProjects @ projects) tr')"

definition fetchAllProjects ::
  "env \<Rightarrow> Config \<Rightarrow> globals \<Rightarrow> trace \<Rightarrow> ((error + json list) \<times> trace) option" where
  "fetchAllProjects env config g tr =
     (let baseUrl = (if isSource g then SourceBaseURL config else DestinationBaseURL config);
          accessToken =
            (if isSource g then SourceAccessToken config else DestinationAccessToken config)
      in page_loop (fetchAllProjects_page env baseUrl (destinationGroupID g) accessToken) 1 [] tr)"

definition fetchGroupProjects ::
  "env \<Rightarrow> Config \<Rightarrow> string \<Rightarrow> bool \<Rightarrow> trace \<Rightarrow> ((error + json list) \<times> trace) option" where
  "fetchGroupProjects env config groupID fromSource tr =
     (let baseURL = (if fromSource then SourceBaseURL config else DestinationBaseURL config);
          accessToken =
            (if fromSource then SourceAccessToken config else DestinationAccessToken config)
      in page_loop (fetchGroupProjects_page env baseURL groupID accessToken) 1 [] tr)"

section \<open>Single-request listings\<close>

text \<open>The body shared by \<^verbatim>\<open>getProjectsForGroup\<close>, \<^verbatim>\<open>getVariablesForGroup\<close> and
  \<^verbatim>\<open>getVariablesForProject\<close>, which differ in the URL and in their messages: one GET,
  and the nil slice on any failure.\<close>

definition get_listing ::
  "env \<Rightarrow> listing \<Rightarrow> string \<Rightarrow> string \<Rightarrow> string \<Rightarrow> trace \<Rightarrow> json \<times> trace" where
  "get_listing env what ident url accessToken tr =
     (case http_NewRequest env ''GET'' url None of
        None \<Rightarrow> (NilSlice, tr @ [Printed (ErrorCreatingRequestFor what ident)])
      | Some req \<Rightarrow>
          (let req = header_Set ''PRIVATE-TOKEN'' accessToken req;
               httpConfig = NewDefaultConfig;
               httpConfig = httpConfig\<lparr>SkipTLSVerification := True\<rparr>;
               client = CreateHTTPClient (Some httpConfig)
           in case client_Do env client req tr of
                (TransportError, tr') \<Rightarrow> (NilSlice, tr' @ [Printed (ErrorFetching what ident)])
              | (Response code b, tr') \<Rightarrow>
                  (case b of
                     Unreadable \<Rightarrow>
                       (NilSlice, tr' @ [Printed (ErrorReadingResponse what ident)])
                   | Malformed \<Rightarrow>
                       if code \<noteq> 200
                       then (NilSlice, tr' @ [Printed (ErrorFetchingStatus what ident)])
                       else (NilSlice, tr' @ [Printed (ErrorParsingJSON what ident)])
                   | Document d \<Rightarrow>
                       if code \<noteq> 200
                       then (NilSlice, tr' @ [Printed (ErrorFetchingStatus what ident)])
                       else (case unmarshal_slice d of
                               None \<Rightarrow>
                                 (NilSlice, tr' @ [Printed (ErrorParsingJSON what ident)])
                             | Some xs \<Rightarrow> (xs, tr')))))"

definition getProjectsForGroup ::
  "env \<Rightarrow> Config \<Rightarrow> globals \<Rightarrow> string \<Rightarrow> trace \<Rightarrow> json \<times> trace" where
  "getProjectsForGroup env config g groupID tr =
     (let url = (if isDestination g
                 then DestinationBaseURL config @ ''/api/v4/groups/'' @ groupID @ ''/projects''
                 else SourceBaseURL config @ ''/api/v4/groups/'' @ groupID @ ''/projects'');
          accessToken =
            (if isDestination g then DestinationAccessToken config else SourceAccessToken config)
      in get_listing env GroupProjects groupID url accessToken tr)"

definition getVariablesForGroup ::
  "env \<Rightarrow> Config \<Rightarrow> globals \<Rightarrow> string \<Rightarrow> trace \<Rightarrow> json \<times> trace" where
  "getVariablesForGroup env config g groupID tr =
     (let url = (if isDestination g
                 then DestinationBaseURL config @ ''/api/v4/groups/'' @ groupID @ ''/variables''
                 else SourceBaseURL config @ ''/api/v4/groups/'' @ groupID @ ''/variables'');
          accessToken =
            (if isDestination g then DestinationAccessToken config else SourceAccessToken config)
      in get_listing env GroupVariables groupID url accessToken tr)"

definition getVariablesForProject ::
  "env \<Rightarrow> Config \<Rightarrow> globals \<Rightarrow> string \<Rightarrow> trace \<Rightarrow> json \<times> trace" where
  "getVariablesForProject env config g projectID tr =
     (let url = (if isDestination g
                 then DestinationBaseURL config @ ''/api/v4/projects/'' @ projectID @ ''/variables''
                 else SourceBaseURL config @ ''/api/v4/projects/'' @ projectID @ ''/variables'');
          accessToken =
            (if isDestination g then DestinationAccessToken config else SourceAccessToken config)
      in get_listing env ProjectVariables projectID url accessToken tr)"

text \<open>\<^verbatim>\<open>m[k] = v\<close> on a Go map.\<close>

fun map_assign :: "(string \<times> json) list \<Rightarrow> string \<Rightarrow> json \<Rightarrow> (string \<times> json) list" where
  "map_assign [] k v = [(k, v)]"
| "map_assign ((k', v') # m) k v =
     (if k' = k then (k, v) # m else (k', v') # map_assign m k v)"

text \<open>The loop of \<^verbatim>\<open>getAllVariablesForGroupProjects\<close> over the listed projects.\<close>

fun getAllVariables_loop ::
  "env \<Rightarrow> Config \<Rightarrow> globals \<Rightarrow> json list \<Rightarrow> (string \<times> json) list \<Rightarrow> trace
     \<Rightarrow> (panic + (string \<times> json) list) \<times> trace" where
  "getAllVariables_loop env config g [] variablesByProject tr = (Inr variablesByProject, tr)"
| "getAllVariables_loop env config g (project # projects) variablesByProject tr =
     (case as_float64 (at_key project ''id'') of
        None \<Rightarrow> (Inl InterfaceConversion, tr)
      | Some x \<Rightarrow>
          (case as_string (at_key project ''name'') of
             None \<Rightarrow> (Inl InterfaceConversion, tr)
           | Some projectName \<Rightarrow>
               (let projectID = int64_of_float64 (math_Round x);
                    (variables, tr') =
                       getVariablesForProject env config g (FormatInt projectID) tr
                in getAllVariables_loop env config g projects
                     (map_assign variablesByProject (FormatInt projectID)
                        (JObject [(''project_name'', JString projectName),
                                  (''variables'', variables)]))
                     tr')))"

definition getAllVariablesForGroupProjects ::
  "env \<Rightarrow> Config \<Rightarrow> globals \<Rightarrow> string \<Rightarrow> trace \<Rightarrow> (panic + (string \<times> json) list) \<times> trace" where
  "getAllVariablesForGroupProjects env config g groupID tr =
     (case getProjectsForGroup env config g groupID tr of
        (projects, tr') \<Rightarrow> getAllVariables_loop env config g (elements projects) [] tr')"

section \<open>Single-page request with retries\<close>

definition defaultPerPage :: nat where
  "defaultPerPage = 100"

definition maxRetries :: nat where
  "maxRetries = 3"

definition retryDelay :: nat where
  "retryDelay = 2"

text \<open>\<^verbatim>\<open>executeGitLabAPIRequest\<close>: the loop \<^verbatim>\<open>for retry := 0; retry < maxRetries; retry++\<close>,
  started at 0. The result nil is \<open>JNull\<close>.\<close>

function executeGitLabAPIRequest_loop ::
  "env \<Rightarrow> string \<Rightarrow> string \<Rightarrow> string \<Rightarrow> nat \<Rightarrow> trace \<Rightarrow> json \<times> trace" where
  "executeGitLabAPIRequest_loop env baseURL token resource retry tr =
     (if retry < maxRetries then
        (let tr = (if retry > 0
                   then tr @ [Printed (RetryingRequest (retry + 1) maxRetries), Slept retryDelay]
                   else tr);
             url = baseURL @ ''/api/v4/'' @ resource @ ''?per_page=''
                   @ decimal defaultPerPage
         in case http_NewRequest env ''GET'' url None of
              None \<Rightarrow>
                executeGitLabAPIRequest_loop env baseURL token resource (retry + 1)
                  (tr @ [Printed ErrorCreatingRequest])
            | Some req \<Rightarrow>
                (case client_Do env (http_Client 30) (header_Set ''PRIVATE-TOKEN'' token req) tr of
                   (TransportError, tr') \<Rightarrow>
                     executeGitLabAPIRequest_loop env baseURL token resource (retry + 1)
                       (tr' @ [Printed ErrorMakingRequest])
                 | (Response code b, tr') \<Rightarrow>
                     if code \<noteq> 200 then
                       (if retry = maxRetries - 1
                        then (JNull, tr' @ [Printed (APIRequestFailed code)])
                        else executeGitLabAPIRequest_loop env baseURL token resource (retry + 1)
                               (tr' @ [Printed (APIRequestFailed code)]))
                     else (case b of
                             Document result \<Rightarrow> (result, tr')
                           | _ \<Rightarrow>
                               executeGitLabAPIRequest_loop env baseURL token resource
                                 (retry + 1) (tr' @ [Printed ErrorDecodingResponse]))))
      else (JNull, tr @ [Printed (FailedAfterAttempts maxRetries)]))"
  by pat_completeness auto
termination
  by (relation "measure (\<lambda>(env, baseURL, token, resource, retry, tr). maxRetries - retry)") auto

declare executeGitLabAPIRequest_loop.simps [simp del]

definition executeGitLabAPIRequest :: "env \<Rightarrow> string \<Rightarrow> string \<Rightarrow> string \<Rightarrow> trace \<Rightarrow> json \<times> trace" where
  "executeGitLabAPIRequest env baseURL token resource tr =
     executeGitLabAPIRequest_loop env baseURL token resource 0 tr"

section \<open>Migration orchestrator\<close>

text \<open>
  \<^verbatim>\<open>filepath.Join(a, b)\<close> for a relative \<open>a\<close> and a non-empty \<open>b\<close>, where the separator
  is the slash: \<^verbatim>\<open>filepath.Clean\<close> of \<open>a/b\<close>. Cleaning a relative path drops the empty
  elements and the elements \<^verbatim>\<open>.\<close>, and drops an element \<^verbatim>\<open>..\<close> together with the element
  before it, unless there is none or it is \<^verbatim>\<open>..\<close> itself; the empty result is \<^verbatim>\<open>.\<close>.
\<close>

fun split_slash :: "string \<Rightarrow> string list" where
  "split_slash [] = [[]]"
| "split_slash (c # cs) =
     (if c = CHR ''/'' then [] # split_slash cs
      else (case split_slash cs of [] \<Rightarrow> [[c]] | seg # segs \<Rightarrow> (c # seg) # segs))"

fun clean_elements :: "string list \<Rightarrow> string list \<Rightarrow> string list" where
  "clean_elements kept [] = rev kept"
| "clean_elements kept (seg # segs) =
     (if seg = [] \<or> seg = ''.'' then clean_elements kept segs
      else if seg = ''..'' then
        (case kept of
           [] \<Rightarrow> clean_elements [seg] segs
         | k # ks \<Rightarrow>
             if k = ''..'' then clean_elements (seg # kept) segs else clean_elements ks segs)
      else clean_elements (seg # kept) segs)"

fun join_slash :: "string list \<Rightarrow> string" where
  "join_slash [] = []"
| "join_slash [seg] = seg"
| "join_slash (seg # segs) = seg @ ''/'' @ join_slash segs"

definition filepath_Clean :: "string \<Rightarrow> string" where
  "filepath_Clean path =
     (let segs = clean_elements [] (split_slash path)
      in if segs = [] then ''.'' else join_slash segs)"

definition filepath_Join :: "string \<Rightarrow> string \<Rightarrow> string" where
  "filepath_Join a b = filepath_Clean (a @ ''/'' @ b)"

text \<open>\<^verbatim>\<open>utils.GenerateOutputFileName\<close>.\<close>

definition GenerateOutputFileName :: "string \<Rightarrow> string \<Rightarrow> string \<Rightarrow> bool \<Rightarrow> bool \<Rightarrow> string" where
  "GenerateOutputFileName command groupID projectID forDestination isRecursive =
     (let prefix = (if forDestination then ''d'' else ''s'');
          identifier =
            (if command = ''groups'' then ''groups''
             else if command = ''projects'' then
               (if groupID \<noteq> [] then ''projects_g-'' @ groupID else ''projects'')
             else if command = ''variables'' then
               (if groupID \<noteq> [] then
                  (if isRecursive then ''variables_g-'' @ groupID @ ''_recursive''
                   else ''variables_g-'' @ groupID)
                else if projectID \<noteq> [] then ''variables_p-'' @ projectID
                else ''variables'')
             else [])
      in filepath_Join ''data'' (prefix @ ''-gitlab_get_'' @ identifier @ ''.json''))"

text \<open>\<^verbatim>\<open>saveOutputToFile\<close>: the file is written when it can be created and the data
  encodes; \<open>False\<close> is the returned error.\<close>

definition saveOutputToFile :: "env \<Rightarrow> json \<Rightarrow> string \<Rightarrow> trace \<Rightarrow> bool \<times> trace" where
  "saveOutputToFile env data filePath tr =
     (if file_writable env filePath \<and> encodable data
      then (True, tr @ [Saved filePath data, Printed (SuccessfullySaved filePath)])
      else (False, tr))"

text \<open>The assertions \<^verbatim>\<open>v.(map[string]map[string]interface{})\<close> and
  \<^verbatim>\<open>v.([]map[string]interface{})\<close> in their two-result form. A value of these Go types is
  kept here as the object, and as the array of maps (or the nil slice), that it encodes
  to.\<close>

fun as_object :: "json \<Rightarrow> (string \<times> json) list option" where
  "as_object (JObject kvs) = Some kvs"
| "as_object _ = None"

fun as_maps :: "json \<Rightarrow> json list option" where
  "as_maps (JArray xs) = (if list_all is_map xs then Some xs else None)"
| "as_maps NilSlice = Some []"
| "as_maps _ = None"

datatype exit = Returned | Crashed panic

text \<open>The loop \<^verbatim>\<open>for sourceProjectID, projectData := range sourceVarsMap\<close> of the
  recursive mode, over the entries in the order in which \<^verbatim>\<open>range\<close> yields them.\<close>

fun migrate_projects ::
  "env \<Rightarrow> Config \<Rightarrow> globals \<Rightarrow> json list \<Rightarrow> (string \<times> json) list \<Rightarrow> trace \<Rightarrow> exit \<times> trace" where
  "migrate_projects env config g destProjects [] tr = (Returned, tr)"
| "migrate_projects env config g destProjects ((sourceProjectID, projectData) # rest) tr =
     (case as_string (at_key projectData ''project_name'') of
        None \<Rightarrow>
          migrate_projects env config g destProjects rest
            (tr @ [Printed (ProjectNameNotFound sourceProjectID)])
      | Some projectName \<Rightarrow>
          (case findProjectIDByExactName destProjects projectName of
             Inl p \<Rightarrow> (Crashed p, tr)
           | Inr destProjectID \<Rightarrow>
               if destProjectID = 0 then
                 migrate_projects env config g destProjects rest
                   (tr @ [Printed (ProjectNotFoundInDestination projectName)])
               else
                 (case as_maps (at_key projectData ''variables'') of
                    None \<Rightarrow>
                      migrate_projects env config g destProjects rest
                        (tr @ [Printed (InvalidVariablesFormat projectName)])
                  | Some vars \<Rightarrow>
                      (let interfaceVars = map (\<lambda>v. v) vars
                       in migrate_projects env config g destProjects rest
                            (createVariablesForProject env config g
                               (FormatInt destProjectID) interfaceVars
                               (tr @ [Printed (MigratingVariablesFor projectName destProjectID)]))))))"

text \<open>"Get source variables": the three modes.\<close>

definition source_variables ::
  "env \<Rightarrow> Config \<Rightarrow> globals \<Rightarrow> trace \<Rightarrow> (panic + json) \<times> trace" where
  "source_variables env config g tr =
     (if flag_groupID g \<noteq> [] then
        (if recursive g then
           (case getAllVariablesForGroupProjects env config g (flag_groupID g) tr of
              (Inl p, tr') \<Rightarrow> (Inl p, tr')
            | (Inr variablesByProject, tr') \<Rightarrow> (Inr (JObject variablesByProject), tr'))
         else
           (case getVariablesForGroup env config g (flag_groupID g) tr of
              (variables, tr') \<Rightarrow> (Inr variables, tr')))
      else
        (case getVariablesForProject env config g (flag_projectID g) tr of
           (variables, tr') \<Rightarrow> (Inr variables, tr')))"

text \<open>"Create variables in destination": the three modes.\<close>

definition create_in_destination ::
  "env \<Rightarrow> Config \<Rightarrow> globals \<Rightarrow> json \<Rightarrow> trace \<Rightarrow> (exit \<times> trace) option" where
  "create_in_destination env config g sourceVars tr =
     (if flag_groupID g \<noteq> [] then
        (if recursive g then
           (case as_object sourceVars of
              None \<Rightarrow>
                Some (Returned,
                  tr @ [Printed (MigratingRecursively (flag_groupID g) (destinationGroupID g)),
                        Printed InvalidSourceVariablesFormat])
            | Some sourceVarsMap \<Rightarrow>
                (case fetchAllProjects env config g
                        (tr @ [Printed (MigratingRecursively (flag_groupID g)
                                          (destinationGroupID g))]) of
                   None \<Rightarrow> None
                 | Some (Inl err, tr') \<Rightarrow>
                     Some (Returned, tr' @ [Printed (ErrorFetchingDestinationProjects err)])
                 | Some (Inr destProjects, tr') \<Rightarrow>
                     (case migrate_projects env config g destProjects
                             (range_order env sourceVarsMap) tr' of
                        (Crashed p, tr'') \<Rightarrow> Some (Crashed p, tr'')
                      | (Returned, tr'') \<Rightarrow>
                          Some (Returned, tr'' @ [Printed MigrationCompleted]))))
         else
           (case as_maps sourceVars of
              None \<Rightarrow>
                Some (Returned,
                  tr @ [Printed (MigratingGroup (flag_groupID g) (destinationGroupID g)),
                        Printed InvalidSourceVariablesFormat])
            | Some vars \<Rightarrow>
                (let interfaceVars = map (\<lambda>v. v) vars
                 in Some (Returned,
                      createVariablesForGroup env config g (destinationGroupID g) interfaceVars
                        (tr @ [Printed (MigratingGroup (flag_groupID g) (destinationGroupID g))])
                      @ [Printed MigrationCompleted]))))
      else
        (case as_maps sourceVars of
           None \<Rightarrow>
             Some (Returned,
               tr @ [Printed (MigratingProject (flag_projectID g) (destinationProjectID g)),
                     Printed InvalidSourceVariablesFormat])
         | Some vars \<Rightarrow>
             (let interfaceVars = map (\<lambda>v. v) vars
              in Some (Returned,
                   createVariablesForProject env config g (destinationProjectID g) interfaceVars
                     (tr @ [Printed (MigratingProject (flag_projectID g)
                                       (destinationProjectID g))])
                   @ [Printed MigrationCompleted]))))"

text \<open>The \<^verbatim>\<open>Run\<close> function of \<^verbatim>\<open>migrateVariablesCmd\<close>.\<close>

definition migrateVariablesCmd_Run :: "env \<Rightarrow> globals \<Rightarrow> trace \<Rightarrow> (exit \<times> trace) option" where
  "migrateVariablesCmd_Run env g tr =
     (if (flag_groupID g = [] \<and> flag_projectID g = [])
         \<or> (destinationGroupID g = [] \<and> destinationProjectID g = [])
      then Some (Returned, tr @ [Printed SourceAndDestinationRequired])
      else
        (case loadConfig env of
           None \<Rightarrow> Some (Returned, tr @ [Printed ErrorLoadingConfig])
         | Some config \<Rightarrow>
             if \<not> EnsureDataDir env then Some (Returned, tr @ [Printed ErrorDataDir])
             else
               (case source_variables env config g tr of
                  (Inl p, tr1) \<Rightarrow> Some (Crashed p, tr1)
                | (Inr sourceVars, tr1) \<Rightarrow>
                    (case saveOutputToFile env sourceVars
                            (GenerateOutputFileName ''variables'' (flag_groupID g)
                               (flag_projectID g) False (recursive g)) tr1 of
                       (False, tr2) \<Rightarrow>
                         Some (Returned, tr2 @ [Printed ErrorSavingSourceVariables])
                     | (True, tr2) \<Rightarrow> create_in_destination env config g sourceVars tr2))))"

section \<open>The command that lists projects\<close>

text \<open>The \<^verbatim>\<open>Run\<close> function of \<^verbatim>\<open>getProjectsCmd\<close>: the projects of a group through
  \<^verbatim>\<open>getProjectsForGroup\<close>, all projects through \<^verbatim>\<open>executeGitLabAPIRequest\<close>.\<close>

definition getProjectsCmd_Run :: "env \<Rightarrow> globals \<Rightarrow> trace \<Rightarrow> trace" where
  "getProjectsCmd_Run env g tr =
     (case loadConfig env of
        None \<Rightarrow> tr @ [Printed ErrorLoadingConfig]
      | Some config \<Rightarrow>
          (case (if flag_groupID g \<noteq> []
                 then getProjectsForGroup env config g (flag_groupID g) tr
                 else executeGitLabAPIRequest env (SourceBaseURL config)
                        (SourceAccessToken config) ''projects'' tr) of
             (projects, tr1) \<Rightarrow>
               if \<not> EnsureDataDir env then tr1 @ [Printed ErrorDataDir]
               else
                 (let file = (if outputFile g = []
                              then GenerateOutputFileName ''projects'' (flag_groupID g) []
                                     (isDestination g) False
                              else outputFile g)
                  in case saveOutputToFile env projects file tr1 of
                       (False, tr2) \<Rightarrow> tr2 @ [Printed ErrorSavingOutput]
                     | (True, tr2) \<Rightarrow> tr2)))"

section \<open>Scripted surroundings for the examples\<close>

text \<open>A remote side that answers the \<open>n\<close>-th request of the run with the \<open>n\<close>-th
  response of a script, and fails to connect after the script has ended.\<close>

definition scripted :: "response list \<Rightarrow> nat \<Rightarrow> http_client \<Rightarrow> request \<Rightarrow> response" where
  "scripted rs n client req = (if n < length rs then rs ! n else TransportError)"

definition any_url :: "string \<Rightarrow> bool" where
  "any_url u = True"

definition any_file :: "string \<Rightarrow> bool" where
  "any_file p = True"

definition as_listed :: "(string \<times> json) list \<Rightarrow> (string \<times> json) list" where
  "as_listed m = m"

definition example_config :: Config where
  "example_config =
     \<lparr>SourceBaseURL = ''https://src.example'', SourceAccessToken = ''s-token'',
      DestinationBaseURL = ''https://dst.example'', DestinationAccessToken = ''d-token'',
      AuthUser = [], AuthPassword = []\<rparr>"

definition lab :: "response list \<Rightarrow> env" where
  "lab rs =
     \<lparr>url_parses = any_url, respond = scripted rs, range_order = as_listed,
      loadConfig = Some example_config, EnsureDataDir = True, file_writable = any_file\<rparr>"

definition ok_page :: "json list \<Rightarrow> response" where
  "ok_page xs = Response 200 (Document (JArray xs))"

section \<open>Vocabulary of the properties\<close>

subsection \<open>The requests and the client that the operations are expected to build\<close>

text \<open>The client of every call site of \<^verbatim>\<open>CreateHTTPClient\<close>, a GET request with the token
  header, a request with a JSON payload, and the URLs, by endpoint: \<open>variables_url\<close> is
  where the variables of a project or group are created, \<open>source_variables_url\<close> where
  they are listed.\<close>

definition skip_verify_client :: http_client where
  "skip_verify_client = CreateHTTPClient (Some (NewDefaultConfig\<lparr>SkipTLSVerification := True\<rparr>))"

definition get_request :: "string \<Rightarrow> string \<Rightarrow> request" where
  "get_request url token =
     \<lparr>req_method = ''GET'', req_url = url, req_header = [(''PRIVATE-TOKEN'', token)],
      req_body = None\<rparr>"

definition api_request :: "string \<Rightarrow> string \<Rightarrow> string \<Rightarrow> json \<Rightarrow> request" where
  "api_request method url token payload =
     \<lparr>req_method = method, req_url = url,
      req_header = [(''PRIVATE-TOKEN'', token), (''Content-Type'', ''application/json'')],
      req_body = Some payload\<rparr>"

definition base_of :: "Config \<Rightarrow> bool \<Rightarrow> string" where
  "base_of config fromSource =
     (if fromSource then SourceBaseURL config else DestinationBaseURL config)"

definition token_of :: "Config \<Rightarrow> bool \<Rightarrow> string" where
  "token_of config fromSource =
     (if fromSource then SourceAccessToken config else DestinationAccessToken config)"

definition variables_url :: "scope \<Rightarrow> Config \<Rightarrow> globals \<Rightarrow> string \<Rightarrow> string" where
  "variables_url sc config g ident =
     base_of config (isSource g)
     @ (case sc of Project \<Rightarrow> ''/api/v4/projects/'' | Group \<Rightarrow> ''/api/v4/groups/'')
     @ ident @ ''/variables''"

definition create_request :: "scope \<Rightarrow> Config \<Rightarrow> globals \<Rightarrow> string \<Rightarrow> json \<Rightarrow> request" where
  "create_request sc config g ident v =
     api_request ''POST'' (variables_url sc config g ident) (token_of config (isSource g)) v"

definition projects_page_url :: "string \<Rightarrow> string \<Rightarrow> nat \<Rightarrow> string" where
  "projects_page_url base grp n =
     base @ ''/api/v4/groups/'' @ grp @ ''/projects?per_page=100&page='' @ decimal n"

definition subgroups_page_url :: "string \<Rightarrow> string \<Rightarrow> nat \<Rightarrow> string" where
  "subgroups_page_url base grp n =
     base @ ''/api/v4/groups/'' @ grp @ ''/projects?per_page=100&page='' @ decimal n
     @ ''&include_subgroups=true''"

definition resource_url :: "string \<Rightarrow> string \<Rightarrow> string" where
  "resource_url baseURL resource = baseURL @ ''/api/v4/'' @ resource @ ''?per_page=100''"

definition group_projects_url :: "Config \<Rightarrow> globals \<Rightarrow> string \<Rightarrow> string" where
  "group_projects_url config g groupID =
     base_of config (\<not> isDestination g) @ ''/api/v4/groups/'' @ groupID @ ''/projects''"

definition project_variables_url :: "Config \<Rightarrow> globals \<Rightarrow> string" where
  "project_variables_url config g =
     base_of config (\<not> isDestination g) @ ''/api/v4/projects/'' @ flag_projectID g
     @ ''/variables''"

definition source_variables_url :: "scope \<Rightarrow> Config \<Rightarrow> globals \<Rightarrow> string \<Rightarrow> string" where
  "source_variables_url sc config g ident =
     base_of config (\<not> isDestination g)
     @ (case sc of Project \<Rightarrow> ''/api/v4/projects/'' | Group \<Rightarrow> ''/api/v4/groups/'')
     @ ident @ ''/variables''"

text \<open>The two executors under one name, by scope.\<close>

definition createVariablesFor ::
  "scope \<Rightarrow> env \<Rightarrow> Config \<Rightarrow> globals \<Rightarrow> string \<Rightarrow> json list \<Rightarrow> trace \<Rightarrow> trace" where
  "createVariablesFor sc =
     (case sc of Project \<Rightarrow> createVariablesForProject | Group \<Rightarrow> createVariablesForGroup)"

subsection \<open>Readings of a trace\<close>

text \<open>The client and method of each request sent, in order; \<open>reads k\<close> and \<open>writes k\<close> are
  \<open>k\<close> GET and \<open>k\<close> POST requests through the client that skips verification, and
  \<open>plain_reads t k\<close> are \<open>k\<close> GET requests through a plain client of timeout \<open>t\<close>;
  \<open>verified_calls\<close> are the requests sent through a client that verifies the certificate;
  \<open>bodies_of\<close> are the payloads of the requests sent, and \<open>field_names\<close> the keys of a
  record.\<close>

definition calls_of :: "trace \<Rightarrow> (http_client \<times> string) list" where
  "calls_of tr = map (\<lambda>s. (fst s, req_method (snd s))) (sent_of tr)"

definition reads :: "nat \<Rightarrow> (http_client \<times> string) list" where
  "reads k = replicate k (skip_verify_client, ''GET'')"

definition writes :: "nat \<Rightarrow> (http_client \<times> string) list" where
  "writes k = replicate k (skip_verify_client, ''POST'')"

definition plain_reads :: "nat \<Rightarrow> nat \<Rightarrow> (http_client \<times> string) list" where
  "plain_reads t k = replicate k (http_Client t, ''GET'')"

definition verified_calls :: "trace \<Rightarrow> (http_client \<times> string) list" where
  "verified_calls tr = filter (\<lambda>c. \<not> InsecureSkipVerify (fst c)) (calls_of tr)"

definition bodies_of :: "trace \<Rightarrow> json option list" where
  "bodies_of tr = map (\<lambda>s. req_body (snd s)) (sent_of tr)"

fun field_names :: "json \<Rightarrow> string set" where
  "field_names (JObject kvs) = fst ` set kvs"
| "field_names v = {}"

text \<open>The loop of the recursive mode reports each resolution when it has made it: the
  warning for a source project that resolves to 0, and the line that announces the
  destination id found for a source project. \<open>plan_before_writes\<close> says that no such report
  comes after a creation request, as it would be if every project were resolved before
  the first write.\<close>

fun resolution_report :: "event \<Rightarrow> bool" where
  "resolution_report (Printed (MigratingVariablesFor name ident)) = True"
| "resolution_report (Printed (ProjectNotFoundInDestination name)) = True"
| "resolution_report e = False"

fun creation_request :: "event \<Rightarrow> bool" where
  "creation_request (Sent client req) = (req_method req = ''POST'')"
| "creation_request e = False"

fun plan_before_writes :: "trace \<Rightarrow> bool" where
  "plan_before_writes [] = True"
| "plan_before_writes (e # tr) =
     (if creation_request e then \<not> list_ex resolution_report tr else plan_before_writes tr)"

subsection \<open>Words of the properties\<close>

text \<open>A 2xx status; an attempt of the retried request that fails (no response, a status
  other than 200, or a body that does not decode), the line printed for it, whether it is
  the status that failed, and what is printed and waited before attempt \<open>retry\<close>; a
  listing made of project records; a source entry that has no destination counterpart.\<close>

definition is_2xx :: "nat \<Rightarrow> bool" where
  "is_2xx code = (200 \<le> code \<and> code < 300)"

fun attempt_fails :: "response \<Rightarrow> bool" where
  "attempt_fails TransportError = True"
| "attempt_fails (Response code (Document d)) = (code \<noteq> 200)"
| "attempt_fails (Response code b) = True"

fun failure_message :: "response \<Rightarrow> message" where
  "failure_message TransportError = ErrorMakingRequest"
| "failure_message (Response code b) =
     (if code \<noteq> 200 then APIRequestFailed code else ErrorDecodingResponse)"

fun status_failure :: "response \<Rightarrow> bool" where
  "status_failure (Response code b) = (code \<noteq> 200)"
| "status_failure TransportError = False"

definition retry_notice :: "nat \<Rightarrow> trace" where
  "retry_notice retry =
     (if retry > 0 then [Printed (RetryingRequest (retry + 1) maxRetries), Slept retryDelay]
      else [])"

definition project_records :: "json list \<Rightarrow> bool" where
  "project_records ps =
     list_all (\<lambda>q. as_string (at_key q ''name'') \<noteq> None
                  \<and> as_float64 (at_key q ''id'') \<noteq> None) ps"

definition unmatched :: "json list \<Rightarrow> json \<Rightarrow> string \<Rightarrow> bool" where
  "unmatched destProjects projectData name =
     (as_string (at_key projectData ''project_name'') = Some name
      \<and> findProjectIDByExactName destProjects name = Inr 0)"

text \<open>In the recursive mode: the key and the name under which the variables of a listed
  project are stored, the entry stored for a listed project and the records answered for
  it, and the bodies of the creation requests that such an entry gives rise to, none when
  the name resolves to 0.\<close>

definition source_key :: "json \<Rightarrow> string" where
  "source_key project =
     (case as_float64 (at_key project ''id'') of
        None \<Rightarrow> []
      | Some x \<Rightarrow> FormatInt (int64_of_float64 (math_Round x)))"

definition source_name :: "json \<Rightarrow> string" where
  "source_name project =
     (case as_string (at_key project ''name'') of None \<Rightarrow> [] | Some name \<Rightarrow> name)"

definition stored_entry :: "json \<times> json list \<Rightarrow> string \<times> json" where
  "stored_entry s =
     (source_key (fst s),
      JObject [(''project_name'', JString (source_name (fst s))),
               (''variables'', JArray (snd s))])"

definition replayed :: "json list \<Rightarrow> json \<times> json list \<Rightarrow> json option list" where
  "replayed destProjects s =
     (if findProjectIDByExactName destProjects (source_name (fst s)) = Inr 0 then []
      else map Some (snd s))"

subsection \<open>Examples\<close>

text \<open>The flags of a recursive run from group 10 to group 20, of a run from project 3
  to project 7, of a run from group 10 to group 20 that is not recursive and of a command
  given none of them; variable and project records; and scripts of answers with the traces
  of the runs against them: five creations of which the third is refused, a listing in
  pages of 100, 100 and 37 projects, a request that succeeds at the third attempt, one that
  is answered 201 at the third attempt and one that never succeeds, a migration of two
  variables between projects, and a recursive migration of the projects A and B.\<close>

definition example_flags :: globals where
  "example_flags =
     \<lparr>isDestination = False, isSource = False, flag_groupID = ''10'', flag_projectID = [],
      recursive = True, destinationGroupID = ''20'', destinationProjectID = [],
      outputFile = []\<rparr>"

definition project_flags :: globals where
  "project_flags =
     \<lparr>isDestination = False, isSource = False, flag_groupID = [], flag_projectID = ''3'',
      recursive = False, destinationGroupID = [], destinationProjectID = ''7'',
      outputFile = []\<rparr>"

definition group_flags :: globals where
  "group_flags =
     \<lparr>isDestination = False, isSource = False, flag_groupID = ''10'', flag_projectID = [],
      recursive = False, destinationGroupID = ''20'', destinationProjectID = [],
      outputFile = []\<rparr>"

definition all_projects_flags :: globals where
  "all_projects_flags =
     \<lparr>isDestination = False, isSource = False, flag_groupID = [], flag_projectID = [],
      recursive = False, destinationGroupID = [], destinationProjectID = [],
      outputFile = []\<rparr>"

definition var_named :: "string \<Rightarrow> json" where
  "var_named k = JObject [(''key'', JString k), (''value'', JString ''secret'')]"

definition five_variables :: "json list" where
  "five_variables = map var_named [''V1'', ''V2'', ''V3'', ''V4'', ''V5'']"

definition third_fails :: "response list" where
  "third_fails =
     [Response 201 Malformed, Response 201 Malformed, Response 422 Malformed,
      Response 201 Malformed, Response 201 Malformed]"

definition a_project :: json where
  "a_project = JObject [(''id'', JNumber 1), (''name'', JString ''p'')]"

definition three_pages :: "json list list" where
  "three_pages = [replicate 100 a_project, replicate 100 a_project, replicate 37 a_project]"

definition four_answers :: "response list" where
  "four_answers = map ok_page (three_pages @ [[]])"

definition third_answered_201 :: "response list" where
  "third_answered_201 =
     [TransportError, Response 500 Malformed, Response 201 (Document (JArray [a_project]))]"

definition third_time_lucky :: "response list" where
  "third_time_lucky =
     [TransportError, Response 500 Malformed, Response 200 (Document (JArray [a_project]))]"

definition three_strikes :: "response list" where
  "three_strikes =
     [TransportError, Response 500 Malformed, Response 200 Malformed, ok_page [a_project]]"

definition project_script :: "response list" where
  "project_script =
     [ok_page [var_named ''X'', var_named ''Y''], Response 201 Malformed, Response 201 Malformed]"

definition project_run :: trace where
  "project_run =
     [Sent skip_verify_client
        (get_request ''https://src.example/api/v4/projects/3/variables'' ''s-token''),
      Saved ''data/s-gitlab_get_variables_p-3.json'' (JArray [var_named ''X'', var_named ''Y'']),
      Printed (SuccessfullySaved ''data/s-gitlab_get_variables_p-3.json''),
      Printed (MigratingProject ''3'' ''7''),
      Sent skip_verify_client
        (api_request ''POST'' ''https://dst.example/api/v4/projects/7/variables'' ''d-token''
           (var_named ''X'')),
      Printed (SuccessfullyCreatedVariable Project ''7''),
      Sent skip_verify_client
        (api_request ''POST'' ''https://dst.example/api/v4/projects/7/variables'' ''d-token''
           (var_named ''Y'')),
      Printed (SuccessfullyCreatedVariable Project ''7''),
      Printed MigrationCompleted]"

definition project_named :: "string \<Rightarrow> rat \<Rightarrow> json" where
  "project_named name ident = JObject [(''id'', JNumber ident), (''name'', JString name)]"

definition source_entry :: "string \<Rightarrow> string \<Rightarrow> json list \<Rightarrow> string \<times> json" where
  "source_entry sourceProjectID name variables =
     (sourceProjectID,
      JObject [(''project_name'', JString name), (''variables'', JArray variables)])"

definition destination_A_C :: "json list" where
  "destination_A_C = [project_named ''A'' 11, project_named ''C'' 13]"

definition recursive_script :: "response list" where
  "recursive_script =
     [ok_page [project_named ''A'' 1, project_named ''B'' 2],
      ok_page [var_named ''X''],
      ok_page [var_named ''Y''],
      ok_page [project_named ''A'' 11, project_named ''B'' 12],
      ok_page [],
      Response 201 Malformed,
      Response 201 Malformed]"

definition recursive_run :: trace where
  "recursive_run =
     [Sent skip_verify_client
        (get_request ''https://src.example/api/v4/groups/10/projects'' ''s-token''),
      Sent skip_verify_client
        (get_request ''https://src.example/api/v4/projects/1/variables'' ''s-token''),
      Sent skip_verify_client
        (get_request ''https://src.example/api/v4/projects/2/variables'' ''s-token''),
      Saved ''data/s-gitlab_get_variables_g-10_recursive.json''
        (JObject [source_entry ''1'' ''A'' [var_named ''X''],
                  source_entry ''2'' ''B'' [var_named ''Y'']]),
      Printed (SuccessfullySaved ''data/s-gitlab_get_variables_g-10_recursive.json''),
      Printed (MigratingRecursively ''10'' ''20''),
      Sent skip_verify_client (get_request
        ''https://dst.example/api/v4/groups/20/projects?per_page=100&page=1'' ''d-token''),
      Sent skip_verify_client (get_request
        ''https://dst.example/api/v4/groups/20/projects?per_page=100&page=2'' ''d-token''),
      Printed (MigratingVariablesFor ''A'' 11),
      Sent skip_verify_client
        (api_request ''POST'' ''https://dst.example/api/v4/projects/11/variables'' ''d-token''
           (var_named ''X'')),
      Printed (SuccessfullyCreatedVariable Project ''11''),
      Printed (MigratingVariablesFor ''B'' 12),
      Sent skip_verify_client
        (api_request ''POST'' ''https://dst.example/api/v4/projects/12/variables'' ''d-token''
           (var_named ''Y'')),
      Printed (SuccessfullyCreatedVariable Project ''12''),
      Printed MigrationCompleted]"

section \<open>The trace\<close>

lemma sent_of_append [simp]: "sent_of (a @ b) = sent_of a @ sent_of b"
  by (induction a rule: sent_of.induct) auto

lemma printed_of_append [simp]: "printed_of (a @ b) = printed_of a @ printed_of b"
  by (induction a rule: printed_of.induct) auto

lemma nsent_append [simp]: "nsent (a @ b) = nsent a + nsent b"
  by (simp add: nsent_def)

lemma nsent_simps [simp]:
  "nsent [] = 0" "nsent (Sent c r # tr) = Suc (nsent tr)" "nsent (Printed m # tr) = nsent tr"
  "nsent (Slept n # tr) = nsent tr" "nsent (Saved p d # tr) = nsent tr"
  by (simp_all add: nsent_def)

lemma makeGitLabAPIRequest_eq:
  "makeGitLabAPIRequest env method url token payload tr =
     (if url_parses env url then
        (case respond env (nsent tr) skip_verify_client (api_request method url token payload) of
           TransportError \<Rightarrow> Some ErrRequestFailed
         | Response code b \<Rightarrow> if 400 \<le> code then Some (ErrStatus code) else None,
         tr @ [Sent skip_verify_client (api_request method url token payload)])
      else (Some ErrCreatingRequest, tr))"
  by (simp add: makeGitLabAPIRequest_def http_NewRequest_def header_Set_def client_Do_def
      skip_verify_client_def api_request_def Let_def split: response.splits)

section \<open>Which requests an operation sends\<close>

text \<open>Every reading operation adds only GET requests through the client that skips
  verification; the lemmas for the writing operations follow the executor's.\<close>

lemma calls_of_append [simp]: "calls_of (a @ b) = calls_of a @ calls_of b"
  by (simp add: calls_of_def)

lemma calls_of_simps [simp]:
  "calls_of [] = []"
  "calls_of (Sent c r # tr) = (c, req_method r) # calls_of tr"
  "calls_of (Printed m # tr) = calls_of tr"
  "calls_of (Slept n # tr) = calls_of tr"
  "calls_of (Saved p d # tr) = calls_of tr"
  by (simp_all add: calls_of_def)

lemma reads_add: "reads j @ reads k = reads (j + k)"
  by (simp add: reads_def replicate_add)

lemma writes_add: "writes j @ writes k = writes (j + k)"
  by (simp add: writes_def replicate_add)

lemma get_listing_eq:
  "get_listing env what ident url tok tr =
     (if url_parses env url then
        (case respond env (nsent tr) skip_verify_client (get_request url tok) of
           TransportError \<Rightarrow>
             (NilSlice, tr @ [Sent skip_verify_client (get_request url tok),
                              Printed (ErrorFetching what ident)])
         | Response code b \<Rightarrow>
             (case b of
                Unreadable \<Rightarrow>
                  (NilSlice, tr @ [Sent skip_verify_client (get_request url tok),
                                   Printed (ErrorReadingResponse what ident)])
              | Malformed \<Rightarrow>
                  (NilSlice, tr @ [Sent skip_verify_client (get_request url tok),
                                   Printed (if code \<noteq> 200 then ErrorFetchingStatus what ident
                                            else ErrorParsingJSON what ident)])
              | Document d \<Rightarrow>
                  if code \<noteq> 200
                  then (NilSlice, tr @ [Sent skip_verify_client (get_request url tok),
                                        Printed (ErrorFetchingStatus what ident)])
                  else (case unmarshal_slice d of
                          None \<Rightarrow>
                            (NilSlice, tr @ [Sent skip_verify_client (get_request url tok),
                                             Printed (ErrorParsingJSON what ident)])
                        | Some xs \<Rightarrow> (xs, tr @ [Sent skip_verify_client (get_request url tok)]))))
      else (NilSlice, tr @ [Printed (ErrorCreatingRequestFor what ident)]))"
  by (simp add: get_listing_def http_NewRequest_def header_Set_def client_Do_def
      skip_verify_client_def get_request_def Let_def
      split: response.splits body.splits option.splits)

lemma get_listing_sent:
  "sent_of (snd (get_listing env what ident url tok tr)) =
     sent_of tr @ (if url_parses env url then [(skip_verify_client, get_request url tok)] else [])"
  by (simp add: get_listing_eq split: response.splits body.splits option.splits)

lemma get_listing_calls:
  "\<exists>k. calls_of (snd (get_listing env what ident url tok tr)) = calls_of tr @ reads k"
proof (cases "url_parses env url")
  case True
  then have "calls_of (snd (get_listing env what ident url tok tr)) = calls_of tr @ reads 1"
    by (simp add: calls_of_def get_listing_sent reads_def get_request_def)
  then show ?thesis ..
next
  case False
  then have "calls_of (snd (get_listing env what ident url tok tr)) = calls_of tr @ reads 0"
    by (simp add: calls_of_def get_listing_sent reads_def)
  then show ?thesis ..
qed


lemma getProjectsForGroup_calls:
  "\<exists>k. calls_of (snd (getProjectsForGroup env config g groupID tr)) = calls_of tr @ reads k"
  unfolding getProjectsForGroup_def Let_def by (rule get_listing_calls)

lemma getVariablesForGroup_calls:
  "\<exists>k. calls_of (snd (getVariablesForGroup env config g groupID tr)) = calls_of tr @ reads k"
  unfolding getVariablesForGroup_def Let_def by (rule get_listing_calls)

lemma getVariablesForProject_calls:
  "\<exists>k. calls_of (snd (getVariablesForProject env config g projectID tr)) = calls_of tr @ reads k"
  unfolding getVariablesForProject_def Let_def by (rule get_listing_calls)

lemma getAllVariables_loop_calls:
  "\<exists>k. calls_of (snd (getAllVariables_loop env config g projects acc tr)) = calls_of tr @ reads k"
proof (induction projects arbitrary: acc tr)
  case Nil
  have "calls_of (snd (getAllVariables_loop env config g [] acc tr)) = calls_of tr @ reads 0"
    by (simp add: reads_def)
  then show ?case ..
next
  case (Cons project projects)
  show ?case
  proof (cases "as_float64 (at_key project ''id'')")
    case None
    then have "calls_of (snd (getAllVariables_loop env config g (project # projects) acc tr)) =
        calls_of tr @ reads 0"
      by (simp add: reads_def)
    then show ?thesis ..
  next
    case (Some x)
    show ?thesis
    proof (cases "as_string (at_key project ''name'')")
      case None
      with Some
      have "calls_of (snd (getAllVariables_loop env config g (project # projects) acc tr)) =
          calls_of tr @ reads 0"
        by (simp add: reads_def)
      then show ?thesis ..
    next
      case (Some projectName)
      obtain variables tr' where
        v: "getVariablesForProject env config g (FormatInt (int64_of_float64 (math_Round x))) tr =
          (variables, tr')"
        by (cases "getVariablesForProject env config g
            (FormatInt (int64_of_float64 (math_Round x))) tr")
      from getVariablesForProject_calls
        [of env config g "FormatInt (int64_of_float64 (math_Round x))" tr] v
      obtain j where j: "calls_of tr' = calls_of tr @ reads j"
        by auto
      from Cons.IH [of _ tr'] obtain k where
        "calls_of (snd (getAllVariables_loop env config g projects
           (map_assign acc (FormatInt (int64_of_float64 (math_Round x)))
              (JObject [(''project_name'', JString projectName), (''variables'', variables)]))
           tr')) = calls_of tr' @ reads k"
        by blast
      with \<open>as_float64 (at_key project ''id'') = Some x\<close> Some v j
      have "calls_of (snd (getAllVariables_loop env config g (project # projects) acc tr)) =
          calls_of tr @ reads (j + k)"
        by (simp add: reads_add)
      then show ?thesis ..
    qed
  qed
qed

lemma getAllVariablesForGroupProjects_calls:
  "\<exists>k. calls_of (snd (getAllVariablesForGroupProjects env config g groupID tr)) =
     calls_of tr @ reads k"
proof -
  obtain projects tr' where p: "getProjectsForGroup env config g groupID tr = (projects, tr')"
    by (cases "getProjectsForGroup env config g groupID tr")
  from getProjectsForGroup_calls [of env config g groupID tr] p
  obtain j where j: "calls_of tr' = calls_of tr @ reads j"
    by auto
  from getAllVariables_loop_calls [of env config g "elements projects" "[]" tr']
  obtain k where "calls_of (snd (getAllVariables_loop env config g (elements projects) [] tr')) =
      calls_of tr' @ reads k"
    by blast
  with p j have "calls_of (snd (getAllVariablesForGroupProjects env config g groupID tr)) =
      calls_of tr @ reads (j + k)"
    by (simp add: getAllVariablesForGroupProjects_def reads_add)
  then show ?thesis ..
qed

lemma source_variables_calls:
  "\<exists>k. calls_of (snd (source_variables env config g tr)) = calls_of tr @ reads k"
proof -
  have a: "snd (source_variables env config g tr) =
      (if flag_groupID g \<noteq> [] then
         (if recursive g then snd (getAllVariablesForGroupProjects env config g (flag_groupID g) tr)
          else snd (getVariablesForGroup env config g (flag_groupID g) tr))
       else snd (getVariablesForProject env config g (flag_projectID g) tr))"
    by (simp add: source_variables_def split: prod.splits sum.splits)
  show ?thesis
    unfolding a
    using getAllVariablesForGroupProjects_calls getVariablesForGroup_calls
      getVariablesForProject_calls
    by simp
qed

lemma saveOutputToFile_calls:
  "calls_of (snd (saveOutputToFile env sourceVars filePath tr)) = calls_of tr"
  by (simp add: saveOutputToFile_def)

lemma fetchAllProjects_page_calls:
  "\<exists>k. calls_of (snd (fetchAllProjects_page env baseUrl grp tok page tr)) = calls_of tr @ reads k"
proof (cases "url_parses env (projects_page_url baseUrl grp page)")
  case True
  then have "calls_of (snd (fetchAllProjects_page env baseUrl grp tok page tr)) =
      calls_of tr @ reads 1"
    by (simp add: fetchAllProjects_page_def projects_page_url_def http_NewRequest_def
        header_Set_def client_Do_def skip_verify_client_def reads_def Let_def
        split: response.splits body.splits option.splits)
  then show ?thesis ..
next
  case False
  then have "calls_of (snd (fetchAllProjects_page env baseUrl grp tok page tr)) =
      calls_of tr @ reads 0"
    by (simp add: fetchAllProjects_page_def projects_page_url_def http_NewRequest_def
        reads_def Let_def)
  then show ?thesis ..
qed

lemma page_loop_calls_aux:
  assumes run: "page_loop fetch page acc tr = Some y"
  shows "(\<forall>page tr. \<exists>k. calls_of (snd (fetch page tr)) = calls_of tr @ reads k) \<longrightarrow>
   (\<exists>k. calls_of (snd y) = calls_of tr @ reads k)"
proof (rule page_loop.raw_induct [where P = "\<lambda>fetch page acc tr y.
    (\<forall>page tr. \<exists>k. calls_of (snd (fetch page tr)) = calls_of tr @ reads k) \<longrightarrow>
    (\<exists>k. calls_of (snd y) = calls_of tr @ reads k)", OF _ run], goal_cases)
  case (1 loop fetch page acc tr y)
  show ?case
  proof
    assume fetch: "\<forall>page tr. \<exists>k. calls_of (snd (fetch page tr)) = calls_of tr @ reads k"
    obtain r tr' where f: "fetch page tr = (r, tr')"
      by (cases "fetch page tr")
    from fetch f obtain j where j: "calls_of tr' = calls_of tr @ reads j"
      by (metis snd_conv)
    show "\<exists>k. calls_of (snd y) = calls_of tr @ reads k"
    proof (cases r)
      case (Inl err)
      with 1(2) f have "y = (Inl err, tr')" by simp
      with j show ?thesis by auto
    next
      case (Inr projects)
      show ?thesis
      proof (cases "length projects = 0")
        case True
        with 1(2) f Inr have "y = (Inr acc, tr')" by simp
        with j show ?thesis by auto
      next
        case False
        with 1(2) f Inr have "loop fetch (page + 1) (acc @ projects) tr' = Some y" by simp
        from mp [OF 1(1) [OF this] fetch]
        obtain k where "calls_of (snd y) = calls_of tr' @ reads k" ..
        with j have "calls_of (snd y) = calls_of tr @ reads (j + k)"
          by (simp add: reads_add)
        then show ?thesis ..
      qed
    qed
  qed
qed

lemma fetchAllProjects_calls:
  "fetchAllProjects env config g tr = Some y \<Longrightarrow>
   \<exists>k. calls_of (snd y) = calls_of tr @ reads k"
  unfolding fetchAllProjects_def Let_def
  using page_loop_calls_aux fetchAllProjects_page_calls by blast


section \<open>Properties of the paginated fetcher\<close>

lemma page_loop_run:
  assumes nonempty: "\<forall>p\<in>set ps. p \<noteq> []"
    and fetch: "\<And>i tr'. i \<le> length ps \<Longrightarrow> nsent tr' = nsent tr + i \<Longrightarrow>
       fetch (page + i) tr' = (Inr ((ps @ [[]]) ! i), tr' @ [Sent c (rq (page + i))])"
  shows "page_loop fetch page acc tr =
     Some (Inr (acc @ concat ps), tr @ map (\<lambda>n. Sent c (rq n)) [page..<page + length ps + 1])"
  using assms
proof (induction ps arbitrary: page acc tr)
  case Nil
  from Nil.prems(2) [of 0 tr] have "fetch page tr = (Inr [], tr @ [Sent c (rq page)])"
    by simp
  then show ?case
    by (subst page_loop.simps) simp
next
  case (Cons p ps)
  from Cons.prems(2) [of 0 tr] have f0: "fetch page tr = (Inr p, tr @ [Sent c (rq page)])"
    by simp
  from Cons.prems(1) have p: "p \<noteq> []" and rest: "\<forall>q\<in>set ps. q \<noteq> []"
    by simp_all
  have step: "\<And>i tr'. i \<le> length ps \<Longrightarrow> nsent tr' = nsent (tr @ [Sent c (rq page)]) + i \<Longrightarrow>
       fetch (Suc page + i) tr' = (Inr ((ps @ [[]]) ! i), tr' @ [Sent c (rq (Suc page + i))])"
  proof -
    fix i tr'
    assume "i \<le> length ps" and "nsent tr' = nsent (tr @ [Sent c (rq page)]) + i"
    then show "fetch (Suc page + i) tr' = (Inr ((ps @ [[]]) ! i), tr' @ [Sent c (rq (Suc page + i))])"
      using Cons.prems(2) [of "Suc i" tr'] by simp
  qed
  have "page_loop fetch page acc tr =
      page_loop fetch (Suc page) (acc @ p) (tr @ [Sent c (rq page)])"
    using f0 p by (subst page_loop.simps) simp
  also have "\<dots> = Some (Inr ((acc @ p) @ concat ps),
      (tr @ [Sent c (rq page)]) @ map (\<lambda>n. Sent c (rq n)) [Suc page..<Suc page + length ps + 1])"
    using Cons.IH [OF rest step] by simp
  finally have run: "page_loop fetch page acc tr = Some (Inr ((acc @ p) @ concat ps),
      (tr @ [Sent c (rq page)]) @ map (\<lambda>n. Sent c (rq n)) [Suc page..<Suc page + length ps + 1])" .
  have "[page..<page + length (p # ps) + 1] = page # [Suc page..<Suc page + length ps + 1]"
    using upt_conv_Cons [of page "Suc page + length ps + 1"] by simp
  with run show ?case by simp
qed


lemma fetchAllProjects_page_ok:
  "url_parses env (projects_page_url base grp n) \<Longrightarrow>
   respond env (nsent tr) skip_verify_client (get_request (projects_page_url base grp n) tok)
     = ok_page xs \<Longrightarrow>
   list_all is_map xs \<Longrightarrow>
   fetchAllProjects_page env base grp tok n tr =
     (Inr xs, tr @ [Sent skip_verify_client (get_request (projects_page_url base grp n) tok)])"
  by (simp add: fetchAllProjects_page_def projects_page_url_def http_NewRequest_def
      header_Set_def client_Do_def skip_verify_client_def get_request_def ok_page_def Let_def)

lemma fetchGroupProjects_page_ok:
  "url_parses env (subgroups_page_url base grp n) \<Longrightarrow>
   respond env (nsent tr) (http_Client 0) (get_request (subgroups_page_url base grp n) tok)
     = ok_page xs \<Longrightarrow>
   list_all is_map xs \<Longrightarrow>
   fetchGroupProjects_page env base grp tok n tr =
     (Inr xs, tr @ [Sent (http_Client 0) (get_request (subgroups_page_url base grp n) tok)])"
  by (simp add: fetchGroupProjects_page_def subgroups_page_url_def http_NewRequest_def
      header_Set_def client_Do_def get_request_def ok_page_def Let_def)

lemma nth_pages_maps:
  "\<forall>p\<in>set ps. list_all is_map p \<Longrightarrow> i \<le> length ps \<Longrightarrow> list_all is_map ((ps @ [[]]) ! i)"
  by (cases "i < length ps") (auto simp add: nth_append)

lemma fetchAllProjects_pages:
  assumes pages: "\<forall>p\<in>set pages. p \<noteq> [] \<and> list_all is_map p"
    and urls: "\<forall>i\<le>length pages. url_parses env
                 (projects_page_url (base_of config (isSource g)) (destinationGroupID g) (1 + i))"
    and answers: "\<forall>i\<le>length pages.
       respond env (nsent tr + i) skip_verify_client
         (get_request (projects_page_url (base_of config (isSource g)) (destinationGroupID g) (1 + i))
            (token_of config (isSource g)))
       = ok_page ((pages @ [[]]) ! i)"
  shows "fetchAllProjects env config g tr =
     Some (Inr (concat pages),
           tr @ map (\<lambda>n. Sent skip_verify_client
                      (get_request (projects_page_url (base_of config (isSource g))
                                      (destinationGroupID g) n) (token_of config (isSource g))))
                  [1..<1 + length pages + 1])"
proof -
  have ne: "\<forall>p\<in>set pages. p \<noteq> []" and mp: "\<forall>p\<in>set pages. list_all is_map p"
    using pages by simp_all
  have "page_loop (fetchAllProjects_page env (base_of config (isSource g)) (destinationGroupID g)
                     (token_of config (isSource g))) 1 [] tr =
     Some (Inr ([] @ concat pages),
           tr @ map (\<lambda>n. Sent skip_verify_client
                      (get_request (projects_page_url (base_of config (isSource g))
                                      (destinationGroupID g) n) (token_of config (isSource g))))
                  [1..<1 + length pages + 1])"
  proof (rule page_loop_run [OF ne])
    fix i tr'
    assume i: "i \<le> length pages" and n: "nsent tr' = nsent tr + i"
    show "fetchAllProjects_page env (base_of config (isSource g)) (destinationGroupID g)
            (token_of config (isSource g)) (1 + i) tr' =
          (Inr ((pages @ [[]]) ! i),
           tr' @ [Sent skip_verify_client
                    (get_request (projects_page_url (base_of config (isSource g))
                                    (destinationGroupID g) (1 + i)) (token_of config (isSource g)))])"
      using urls answers i n nth_pages_maps [OF mp i]
      by (intro fetchAllProjects_page_ok) simp_all
  qed
  then show ?thesis
    by (simp add: fetchAllProjects_def base_of_def token_of_def)
qed

lemma fetchGroupProjects_pages:
  assumes pages: "\<forall>p\<in>set pages. p \<noteq> [] \<and> list_all is_map p"
    and urls: "\<forall>i\<le>length pages. url_parses env
                 (subgroups_page_url (base_of config fromSource) groupID (1 + i))"
    and answers: "\<forall>i\<le>length pages.
       respond env (nsent tr + i) (http_Client 0)
         (get_request (subgroups_page_url (base_of config fromSource) groupID (1 + i))
            (token_of config fromSource))
       = ok_page ((pages @ [[]]) ! i)"
  shows "fetchGroupProjects env config groupID fromSource tr =
     Some (Inr (concat pages),
           tr @ map (\<lambda>n. Sent (http_Client 0)
                      (get_request (subgroups_page_url (base_of config fromSource) groupID n)
                         (token_of config fromSource)))
                  [1..<1 + length pages + 1])"
proof -
  have ne: "\<forall>p\<in>set pages. p \<noteq> []" and mp: "\<forall>p\<in>set pages. list_all is_map p"
    using pages by simp_all
  have "page_loop (fetchGroupProjects_page env (base_of config fromSource) groupID
                     (token_of config fromSource)) 1 [] tr =
     Some (Inr ([] @ concat pages),
           tr @ map (\<lambda>n. Sent (http_Client 0)
                      (get_request (subgroups_page_url (base_of config fromSource) groupID n)
                         (token_of config fromSource)))
                  [1..<1 + length pages + 1])"
  proof (rule page_loop_run [OF ne])
    fix i tr'
    assume i: "i \<le> length pages" and n: "nsent tr' = nsent tr + i"
    show "fetchGroupProjects_page env (base_of config fromSource) groupID
            (token_of config fromSource) (1 + i) tr' =
          (Inr ((pages @ [[]]) ! i),
           tr' @ [Sent (http_Client 0)
                    (get_request (subgroups_page_url (base_of config fromSource) groupID (1 + i))
                       (token_of config fromSource))])"
      using urls answers i n nth_pages_maps [OF mp i]
      by (intro fetchGroupProjects_page_ok) simp_all
  qed
  then show ?thesis
    by (simp add: fetchGroupProjects_def base_of_def token_of_def)
qed

text \<open>
  C1. Let the remote side answer the successive page requests of a run with the pages
  \<open>pages\<close>, all non-empty, and then with an empty page. Then \<^verbatim>\<open>fetchAllProjects\<close> (and
  likewise \<^verbatim>\<open>fetchGroupProjects\<close>, with its own URL and client) returns, and returns
  the records of the pages in order; it has sent exactly the requests for the pages
  \<open>1, 2, \<dots>, length pages + 1\<close> with \<^verbatim>\<open>per_page=100\<close>, in this order, the last one being
  the one answered by the empty page, and nothing after it.
\<close>

theorem paginated_fetch_until_empty:
  "((\<forall>p\<in>set pages. p \<noteq> [] \<and> list_all is_map p) \<longrightarrow>
    (\<forall>i\<le>length pages. url_parses env
        (projects_page_url (base_of config (isSource g)) (destinationGroupID g) (1 + i))) \<longrightarrow>
    (\<forall>i\<le>length pages.
        respond env (nsent tr + i) skip_verify_client
          (get_request (projects_page_url (base_of config (isSource g))
                          (destinationGroupID g) (1 + i)) (token_of config (isSource g)))
        = ok_page ((pages @ [[]]) ! i)) \<longrightarrow>
    fetchAllProjects env config g tr =
      Some (Inr (concat pages),
            tr @ map (\<lambda>n. Sent skip_verify_client
                       (get_request (projects_page_url (base_of config (isSource g))
                                       (destinationGroupID g) n) (token_of config (isSource g))))
                   [1..<1 + length pages + 1]))
   \<and> ((\<forall>p\<in>set pages. p \<noteq> [] \<and> list_all is_map p) \<longrightarrow>
    (\<forall>i\<le>length pages. url_parses env
        (subgroups_page_url (base_of config fromSource) groupID (1 + i))) \<longrightarrow>
    (\<forall>i\<le>length pages.
        respond env (nsent tr + i) (http_Client 0)
          (get_request (subgroups_page_url (base_of config fromSource) groupID (1 + i))
             (token_of config fromSource))
        = ok_page ((pages @ [[]]) ! i)) \<longrightarrow>
    fetchGroupProjects env config groupID fromSource tr =
      Some (Inr (concat pages),
            tr @ map (\<lambda>n. Sent (http_Client 0)
                       (get_request (subgroups_page_url (base_of config fromSource) groupID n)
                          (token_of config fromSource)))
                   [1..<1 + length pages + 1]))"
  using fetchAllProjects_pages [of pages env config g tr]
    fetchGroupProjects_pages [of pages env config fromSource groupID tr]
  by blast

text \<open>Pages of 100, 100, 37 and 0 records: 237 records after four requests.\<close>

theorem paginated_fetch_237_witness:
  "fetchAllProjects (lab four_answers) example_config example_flags [] =
     Some (Inr (replicate 100 a_project @ replicate 100 a_project @ replicate 37 a_project),
       [Sent skip_verify_client (get_request
          ''https://dst.example/api/v4/groups/20/projects?per_page=100&page=1'' ''d-token''),
        Sent skip_verify_client (get_request
          ''https://dst.example/api/v4/groups/20/projects?per_page=100&page=2'' ''d-token''),
        Sent skip_verify_client (get_request
          ''https://dst.example/api/v4/groups/20/projects?per_page=100&page=3'' ''d-token''),
        Sent skip_verify_client (get_request
          ''https://dst.example/api/v4/groups/20/projects?per_page=100&page=4'' ''d-token'')])
   \<and> fetchGroupProjects (lab four_answers) example_config ''10'' True [] =
     Some (Inr (replicate 100 a_project @ replicate 100 a_project @ replicate 37 a_project),
       [Sent (http_Client 0) (get_request
          ''https://src.example/api/v4/groups/10/projects?per_page=100&page=1&include_subgroups=true''
          ''s-token''),
        Sent (http_Client 0) (get_request
          ''https://src.example/api/v4/groups/10/projects?per_page=100&page=2&include_subgroups=true''
          ''s-token''),
        Sent (http_Client 0) (get_request
          ''https://src.example/api/v4/groups/10/projects?per_page=100&page=3&include_subgroups=true''
          ''s-token''),
        Sent (http_Client 0) (get_request
          ''https://src.example/api/v4/groups/10/projects?per_page=100&page=4&include_subgroups=true''
          ''s-token'')])
   \<and> length (replicate 100 a_project @ replicate 100 a_project @ replicate 37 a_project) = 237"
proof -
  have pages: "\<forall>p\<in>set three_pages. p \<noteq> [] \<and> list_all is_map p"
    by (simp add: three_pages_def a_project_def list_all_iff)
  have urls: "\<forall>i\<le>length three_pages. url_parses (lab four_answers)
        (projects_page_url (base_of example_config (isSource example_flags))
           (destinationGroupID example_flags) (1 + i))"
    by (simp add: lab_def any_url_def)
  have urls': "\<forall>i\<le>length three_pages. url_parses (lab four_answers)
        (subgroups_page_url (base_of example_config True) ''10'' (1 + i))"
    by (simp add: lab_def any_url_def)
  have len: "length four_answers = Suc (length three_pages)"
    by (simp add: four_answers_def)
  have nth: "i \<le> length three_pages \<Longrightarrow> four_answers ! i = ok_page ((three_pages @ [[]]) ! i)"
    for i
    unfolding four_answers_def by (rule nth_map) simp
  have answers: "\<forall>i\<le>length three_pages.
        respond (lab four_answers) (nsent [] + i) skip_verify_client
          (get_request (projects_page_url (base_of example_config (isSource example_flags))
                          (destinationGroupID example_flags) (1 + i))
             (token_of example_config (isSource example_flags)))
        = ok_page ((three_pages @ [[]]) ! i)"
    by (simp add: lab_def scripted_def len nth less_Suc_eq_le)
  have answers': "\<forall>i\<le>length three_pages.
        respond (lab four_answers) (nsent [] + i) (http_Client 0)
          (get_request (subgroups_page_url (base_of example_config True) ''10'' (1 + i))
             (token_of example_config True))
        = ok_page ((three_pages @ [[]]) ! i)"
    by (simp add: lab_def scripted_def len nth less_Suc_eq_le)
  have nums: "[1..<1 + length three_pages + 1] = [1, 2, 3, 4]"
    by (simp add: three_pages_def upt_rec)
  from paginated_fetch_until_empty [of three_pages "lab four_answers" example_config
      example_flags "[]" True "''10''"] pages urls answers urls' answers'
  have "fetchAllProjects (lab four_answers) example_config example_flags [] =
      Some (Inr (concat three_pages),
            [] @ map (\<lambda>n. Sent skip_verify_client
                       (get_request (projects_page_url (base_of example_config (isSource example_flags))
                                       (destinationGroupID example_flags) n)
                          (token_of example_config (isSource example_flags))))
                   [1..<1 + length three_pages + 1])"
    and "fetchGroupProjects (lab four_answers) example_config ''10'' True [] =
      Some (Inr (concat three_pages),
            [] @ map (\<lambda>n. Sent (http_Client 0)
                       (get_request (subgroups_page_url (base_of example_config True) ''10'' n)
                          (token_of example_config True)))
                   [1..<1 + length three_pages + 1])"
    by blast+
  then show ?thesis
    unfolding nums
    by (simp add: three_pages_def projects_page_url_def subgroups_page_url_def base_of_def
        token_of_def example_config_def example_flags_def decimal.simps digit_def)
qed

section \<open>Properties of the retried request\<close>

lemma decimal_100: "decimal 100 = ''100''"
  by (simp add: decimal.simps digit_def)

lemma executeGitLabAPIRequest_loop_end:
  "executeGitLabAPIRequest_loop env baseURL token resource maxRetries tr =
     (JNull, tr @ [Printed (FailedAfterAttempts maxRetries)])"
  by (subst executeGitLabAPIRequest_loop.simps) simp

lemma executeGitLabAPIRequest_loop_unfold:
  "executeGitLabAPIRequest_loop env baseURL token resource retry tr =
     (if retry < maxRetries then
        (if url_parses env (resource_url baseURL resource) then
           (case respond env (nsent (tr @ retry_notice retry)) (http_Client 30)
                   (get_request (resource_url baseURL resource) token) of
              TransportError \<Rightarrow>
                executeGitLabAPIRequest_loop env baseURL token resource (retry + 1)
                  (tr @ retry_notice retry
                   @ [Sent (http_Client 30) (get_request (resource_url baseURL resource) token),
                      Printed ErrorMakingRequest])
            | Response code b \<Rightarrow>
                if code \<noteq> 200 then
                  (if retry = maxRetries - 1
                   then (JNull, tr @ retry_notice retry
                     @ [Sent (http_Client 30) (get_request (resource_url baseURL resource) token),
                        Printed (APIRequestFailed code)])
                   else executeGitLabAPIRequest_loop env baseURL token resource (retry + 1)
                     (tr @ retry_notice retry
                      @ [Sent (http_Client 30) (get_request (resource_url baseURL resource) token),
                         Printed (APIRequestFailed code)]))
                else (case b of
                        Document result \<Rightarrow>
                          (result, tr @ retry_notice retry
                            @ [Sent (http_Client 30)
                                 (get_request (resource_url baseURL resource) token)])
                      | _ \<Rightarrow>
                          executeGitLabAPIRequest_loop env baseURL token resource (retry + 1)
                            (tr @ retry_notice retry
                             @ [Sent (http_Client 30)
                                  (get_request (resource_url baseURL resource) token),
                                Printed ErrorDecodingResponse])))
         else executeGitLabAPIRequest_loop env baseURL token resource (retry + 1)
                (tr @ retry_notice retry @ [Printed ErrorCreatingRequest]))
      else (JNull, tr @ [Printed (FailedAfterAttempts maxRetries)]))"
  by (subst executeGitLabAPIRequest_loop.simps)
    (simp add: resource_url_def defaultPerPage_def decimal_100 http_NewRequest_def
      client_Do_def header_Set_def get_request_def retry_notice_def Let_def
      split: response.splits body.splits)

lemma executeGitLabAPIRequest_loop_fail:
  assumes "url_parses env (resource_url baseURL resource)" and "retry < maxRetries"
    and "respond env (nsent (tr @ retry_notice retry)) (http_Client 30)
           (get_request (resource_url baseURL resource) token) = r"
    and "attempt_fails r"
  shows "executeGitLabAPIRequest_loop env baseURL token resource retry tr =
     (if status_failure r \<and> retry = maxRetries - 1
      then (JNull, tr @ retry_notice retry
              @ [Sent (http_Client 30) (get_request (resource_url baseURL resource) token),
                 Printed (failure_message r)])
      else executeGitLabAPIRequest_loop env baseURL token resource (retry + 1)
             (tr @ retry_notice retry
              @ [Sent (http_Client 30) (get_request (resource_url baseURL resource) token),
                 Printed (failure_message r)]))"
proof (cases r)
  case TransportError
  with assms show ?thesis by (subst executeGitLabAPIRequest_loop_unfold) simp
next
  case (Response code b)
  with assms show ?thesis by (subst executeGitLabAPIRequest_loop_unfold) (cases b; simp)
qed

lemma executeGitLabAPIRequest_loop_ok:
  assumes "url_parses env (resource_url baseURL resource)" and "retry < maxRetries"
    and "respond env (nsent (tr @ retry_notice retry)) (http_Client 30)
           (get_request (resource_url baseURL resource) token) = Response 200 (Document d)"
  shows "executeGitLabAPIRequest_loop env baseURL token resource retry tr =
     (d, tr @ retry_notice retry
         @ [Sent (http_Client 30) (get_request (resource_url baseURL resource) token)])"
  using assms by (subst executeGitLabAPIRequest_loop_unfold) simp


lemma retry_notice_simps:
  "retry_notice 0 = []"
  "retry_notice (Suc n) = [Printed (RetryingRequest (Suc n + 1) maxRetries), Slept retryDelay]"
  by (simp_all add: retry_notice_def)

lemma two_failures:
  assumes url: "url_parses env (resource_url baseURL resource)"
    and r1: "respond env (nsent tr) (http_Client 30)
               (get_request (resource_url baseURL resource) token) = r1"
    and f1: "attempt_fails r1"
    and r2: "respond env (nsent tr + 1) (http_Client 30)
               (get_request (resource_url baseURL resource) token) = r2"
    and f2: "attempt_fails r2"
  shows "executeGitLabAPIRequest env baseURL token resource tr =
     executeGitLabAPIRequest_loop env baseURL token resource 2
       (tr @ [Sent (http_Client 30) (get_request (resource_url baseURL resource) token),
              Printed (failure_message r1),
              Printed (RetryingRequest 2 maxRetries), Slept retryDelay,
              Sent (http_Client 30) (get_request (resource_url baseURL resource) token),
              Printed (failure_message r2)])"
proof -
  have "executeGitLabAPIRequest env baseURL token resource tr =
      executeGitLabAPIRequest_loop env baseURL token resource 1
        (tr @ [Sent (http_Client 30) (get_request (resource_url baseURL resource) token),
               Printed (failure_message r1)])"
    unfolding executeGitLabAPIRequest_def
    using executeGitLabAPIRequest_loop_fail [OF url, of 0 tr token r1] r1 f1
    by (simp add: retry_notice_simps maxRetries_def)
  also have "\<dots> = executeGitLabAPIRequest_loop env baseURL token resource 2
       (tr @ [Sent (http_Client 30) (get_request (resource_url baseURL resource) token),
              Printed (failure_message r1),
              Printed (RetryingRequest 2 maxRetries), Slept retryDelay,
              Sent (http_Client 30) (get_request (resource_url baseURL resource) token),
              Printed (failure_message r2)])"
    using executeGitLabAPIRequest_loop_fail [OF url, of 1 "tr @ [Sent (http_Client 30)
        (get_request (resource_url baseURL resource) token), Printed (failure_message r1)]"
        token r2] r2 f2
    by (simp add: retry_notice_def maxRetries_def numeral_2_eq_2)
  finally show ?thesis .
qed

text \<open>
  C2 (as amended). \<open>maxRetries\<close> is 3 and \<open>retryDelay\<close> is 2 seconds. An attempt fails
  when it gets no response, a status other than 200 (every non-2xx status, and every 2xx
  status but 200 as well) or a body that does not decode. When the first two attempts
  fail and the third is answered 200 with the document \<open>d\<close>, the result is \<open>d\<close>; when
  the third fails too, the result is nil. In both runs exactly three
  requests are sent, the second and the third each right after a pause of \<open>retryDelay\<close>,
  and nothing is sent after the third.
\<close>

theorem executeGitLabAPIRequest_retry_budget:
  "maxRetries = 3 \<and> retryDelay = 2 \<and>
   (url_parses env (resource_url baseURL resource) \<longrightarrow>
    respond env (nsent tr) (http_Client 30)
      (get_request (resource_url baseURL resource) token) = r1 \<longrightarrow>
    respond env (nsent tr + 1) (http_Client 30)
      (get_request (resource_url baseURL resource) token) = r2 \<longrightarrow>
    respond env (nsent tr + 2) (http_Client 30)
      (get_request (resource_url baseURL resource) token) = r3 \<longrightarrow>
    attempt_fails r1 \<longrightarrow> attempt_fails r2 \<longrightarrow>
      (r3 = Response 200 (Document d) \<longrightarrow>
         executeGitLabAPIRequest env baseURL token resource tr =
           (d, tr @ [Sent (http_Client 30) (get_request (resource_url baseURL resource) token),
                     Printed (failure_message r1),
                     Printed (RetryingRequest 2 maxRetries), Slept retryDelay,
                     Sent (http_Client 30) (get_request (resource_url baseURL resource) token),
                     Printed (failure_message r2),
                     Printed (RetryingRequest 3 maxRetries), Slept retryDelay,
                     Sent (http_Client 30) (get_request (resource_url baseURL resource) token)]))
      \<and> (attempt_fails r3 \<longrightarrow>
         executeGitLabAPIRequest env baseURL token resource tr =
           (JNull,
            tr @ [Sent (http_Client 30) (get_request (resource_url baseURL resource) token),
                  Printed (failure_message r1),
                  Printed (RetryingRequest 2 maxRetries), Slept retryDelay,
                  Sent (http_Client 30) (get_request (resource_url baseURL resource) token),
                  Printed (failure_message r2),
                  Printed (RetryingRequest 3 maxRetries), Slept retryDelay,
                  Sent (http_Client 30) (get_request (resource_url baseURL resource) token),
                  Printed (failure_message r3)]
               @ (if status_failure r3 then []
                  else [Printed (FailedAfterAttempts maxRetries)]))))"
proof (intro conjI impI)
  show "maxRetries = 3" by (simp add: maxRetries_def)
  show "retryDelay = 2" by (simp add: retryDelay_def)
next
  assume url: "url_parses env (resource_url baseURL resource)"
    and r1: "respond env (nsent tr) (http_Client 30)
      (get_request (resource_url baseURL resource) token) = r1"
    and r2: "respond env (nsent tr + 1) (http_Client 30)
      (get_request (resource_url baseURL resource) token) = r2"
    and r3: "respond env (nsent tr + 2) (http_Client 30)
      (get_request (resource_url baseURL resource) token) = r3"
    and f1: "attempt_fails r1" and f2: "attempt_fails r2"
    and ok: "r3 = Response 200 (Document d)"
  show "executeGitLabAPIRequest env baseURL token resource tr =
           (d, tr @ [Sent (http_Client 30) (get_request (resource_url baseURL resource) token),
                     Printed (failure_message r1),
                     Printed (RetryingRequest 2 maxRetries), Slept retryDelay,
                     Sent (http_Client 30) (get_request (resource_url baseURL resource) token),
                     Printed (failure_message r2),
                     Printed (RetryingRequest 3 maxRetries), Slept retryDelay,
                     Sent (http_Client 30) (get_request (resource_url baseURL resource) token)])"
    unfolding two_failures [OF url r1 f1 r2 f2]
    using r3 ok
    by (subst executeGitLabAPIRequest_loop_ok [OF url, where d = d]) (simp_all add: retry_notice_def maxRetries_def)
next
  assume url: "url_parses env (resource_url baseURL resource)"
    and r1: "respond env (nsent tr) (http_Client 30)
      (get_request (resource_url baseURL resource) token) = r1"
    and r2: "respond env (nsent tr + 1) (http_Client 30)
      (get_request (resource_url baseURL resource) token) = r2"
    and r3: "respond env (nsent tr + 2) (http_Client 30)
      (get_request (resource_url baseURL resource) token) = r3"
    and f1: "attempt_fails r1" and f2: "attempt_fails r2" and f3: "attempt_fails r3"
  show "executeGitLabAPIRequest env baseURL token resource tr =
           (JNull,
            tr @ [Sent (http_Client 30) (get_request (resource_url baseURL resource) token),
                  Printed (failure_message r1),
                  Printed (RetryingRequest 2 maxRetries), Slept retryDelay,
                  Sent (http_Client 30) (get_request (resource_url baseURL resource) token),
                  Printed (failure_message r2),
                  Printed (RetryingRequest 3 maxRetries), Slept retryDelay,
                  Sent (http_Client 30) (get_request (resource_url baseURL resource) token),
                  Printed (failure_message r3)]
               @ (if status_failure r3 then []
                  else [Printed (FailedAfterAttempts maxRetries)]))"
    unfolding two_failures [OF url r1 f1 r2 f2]
    using r3 f3 executeGitLabAPIRequest_loop_end [of env baseURL token resource]
    by (subst executeGitLabAPIRequest_loop_fail [OF url, where r = r3]) (simp_all add: retry_notice_def maxRetries_def)
qed


theorem executeGitLabAPIRequest_retry_witness:
  "executeGitLabAPIRequest (lab third_time_lucky) ''https://src.example'' ''s-token''
     ''projects'' [] =
     (JArray [a_project],
      [Sent (http_Client 30)
         (get_request ''https://src.example/api/v4/projects?per_page=100'' ''s-token''),
       Printed ErrorMakingRequest,
       Printed (RetryingRequest 2 3), Slept 2,
       Sent (http_Client 30)
         (get_request ''https://src.example/api/v4/projects?per_page=100'' ''s-token''),
       Printed (APIRequestFailed 500),
       Printed (RetryingRequest 3 3), Slept 2,
       Sent (http_Client 30)
         (get_request ''https://src.example/api/v4/projects?per_page=100'' ''s-token'')])
   \<and> executeGitLabAPIRequest (lab three_strikes) ''https://src.example'' ''s-token''
     ''projects'' [] =
     (JNull,
      [Sent (http_Client 30)
         (get_request ''https://src.example/api/v4/projects?per_page=100'' ''s-token''),
       Printed ErrorMakingRequest,
       Printed (RetryingRequest 2 3), Slept 2,
       Sent (http_Client 30)
         (get_request ''https://src.example/api/v4/projects?per_page=100'' ''s-token''),
       Printed (APIRequestFailed 500),
       Printed (RetryingRequest 3 3), Slept 2,
       Sent (http_Client 30)
         (get_request ''https://src.example/api/v4/projects?per_page=100'' ''s-token''),
       Printed ErrorDecodingResponse,
       Printed (FailedAfterAttempts 3)])"
proof -
  have 1: "executeGitLabAPIRequest (lab third_time_lucky) ''https://src.example'' ''s-token''
     ''projects'' [] =
     (JArray [a_project],
      [Sent (http_Client 30)
         (get_request ''https://src.example/api/v4/projects?per_page=100'' ''s-token''),
       Printed ErrorMakingRequest,
       Printed (RetryingRequest 2 3), Slept 2,
       Sent (http_Client 30)
         (get_request ''https://src.example/api/v4/projects?per_page=100'' ''s-token''),
       Printed (APIRequestFailed 500),
       Printed (RetryingRequest 3 3), Slept 2,
       Sent (http_Client 30)
         (get_request ''https://src.example/api/v4/projects?per_page=100'' ''s-token'')])"
    using executeGitLabAPIRequest_retry_budget [where env = "lab third_time_lucky"
        and baseURL = "''https://src.example''" and resource = "''projects''"
        and token = "''s-token''" and tr = "[]" and ?r1.0 = TransportError
        and ?r2.0 = "Response 500 Malformed"
        and ?r3.0 = "Response 200 (Document (JArray [a_project]))"
        and d = "JArray [a_project]"]
    by (simp add: lab_def any_url_def scripted_def third_time_lucky_def resource_url_def)
  have 2: "executeGitLabAPIRequest (lab three_strikes) ''https://src.example'' ''s-token''
     ''projects'' [] =
     (JNull,
      [Sent (http_Client 30)
         (get_request ''https://src.example/api/v4/projects?per_page=100'' ''s-token''),
       Printed ErrorMakingRequest,
       Printed (RetryingRequest 2 3), Slept 2,
       Sent (http_Client 30)
         (get_request ''https://src.example/api/v4/projects?per_page=100'' ''s-token''),
       Printed (APIRequestFailed 500),
       Printed (RetryingRequest 3 3), Slept 2,
       Sent (http_Client 30)
         (get_request ''https://src.example/api/v4/projects?per_page=100'' ''s-token''),
       Printed ErrorDecodingResponse,
       Printed (FailedAfterAttempts 3)])"
    using executeGitLabAPIRequest_retry_budget [where env = "lab three_strikes"
        and baseURL = "''https://src.example''" and resource = "''projects''"
        and token = "''s-token''" and tr = "[]" and ?r1.0 = TransportError
        and ?r2.0 = "Response 500 Malformed"
        and ?r3.0 = "Response 200 Malformed"]
    by (simp add: lab_def any_url_def scripted_def three_strikes_def resource_url_def)
  from 1 2 show ?thesis by simp
qed

text \<open>
  A third attempt that is answered with the 2xx status 201 and a body that decodes: it
  succeeds in the terms of C2, and the result is nil.
\<close>

theorem executeGitLabAPIRequest_201_counterexample:
  "is_2xx 201
   \<and> executeGitLabAPIRequest (lab third_answered_201) ''https://src.example'' ''s-token''
     ''projects'' [] =
     (JNull,
      [Sent (http_Client 30)
         (get_request ''https://src.example/api/v4/projects?per_page=100'' ''s-token''),
       Printed ErrorMakingRequest,
       Printed (RetryingRequest 2 3), Slept 2,
       Sent (http_Client 30)
         (get_request ''https://src.example/api/v4/projects?per_page=100'' ''s-token''),
       Printed (APIRequestFailed 500),
       Printed (RetryingRequest 3 3), Slept 2,
       Sent (http_Client 30)
         (get_request ''https://src.example/api/v4/projects?per_page=100'' ''s-token''),
       Printed (APIRequestFailed 201)])"
proof -
  have url: "url_parses (lab third_answered_201) (resource_url ''https://src.example'' ''projects'')"
    by (simp add: lab_def any_url_def)
  have "executeGitLabAPIRequest (lab third_answered_201) ''https://src.example'' ''s-token''
      ''projects'' [] =
      executeGitLabAPIRequest_loop (lab third_answered_201) ''https://src.example'' ''s-token''
        ''projects'' 2
        ([] @ [Sent (http_Client 30)
                 (get_request (resource_url ''https://src.example'' ''projects'') ''s-token''),
               Printed (failure_message TransportError),
               Printed (RetryingRequest 2 maxRetries), Slept retryDelay,
               Sent (http_Client 30)
                 (get_request (resource_url ''https://src.example'' ''projects'') ''s-token''),
               Printed (failure_message (Response 500 Malformed))])"
    by (rule two_failures [OF url]) (simp_all add: lab_def scripted_def third_answered_201_def)
  also have "\<dots> =
     (JNull,
      [Sent (http_Client 30)
         (get_request ''https://src.example/api/v4/projects?per_page=100'' ''s-token''),
       Printed ErrorMakingRequest,
       Printed (RetryingRequest 2 3), Slept 2,
       Sent (http_Client 30)
         (get_request ''https://src.example/api/v4/projects?per_page=100'' ''s-token''),
       Printed (APIRequestFailed 500),
       Printed (RetryingRequest 3 3), Slept 2,
       Sent (http_Client 30)
         (get_request ''https://src.example/api/v4/projects?per_page=100'' ''s-token''),
       Printed (APIRequestFailed 201)])"
    by (subst executeGitLabAPIRequest_loop_unfold)
      (simp add: lab_def any_url_def scripted_def third_answered_201_def retry_notice_def
        maxRetries_def retryDelay_def resource_url_def)
  finally show ?thesis
    by (simp add: is_2xx_def)
qed

section \<open>Properties of the entity resolver\<close>

lemma int64_of_float64_of_int:
  "- (2 ^ 63) \<le> n \<Longrightarrow> n < 2 ^ 63 \<Longrightarrow> int64_of_float64 (of_int n) = n"
  by (simp add: int64_of_float64_def)

lemma findProjectIDByExactName_no_match:
  "\<forall>q\<in>set projects. \<exists>nm. at_key q ''name'' = JString nm \<and> nm \<noteq> sourceName
   \<Longrightarrow> findProjectIDByExactName projects sourceName = Inr 0"
  by (induction projects) auto

lemma findProjectIDByExactName_skip:
  "\<forall>q\<in>set pre. \<exists>nm. at_key q ''name'' = JString nm \<and> nm \<noteq> sourceName
   \<Longrightarrow> findProjectIDByExactName (pre @ rest) sourceName = findProjectIDByExactName rest sourceName"
  by (induction pre) auto

lemma as_string_None: "(\<forall>nm. v \<noteq> JString nm) \<Longrightarrow> as_string v = None"
  by (cases v) simp_all

lemma as_float64_None: "(\<forall>x. v \<noteq> JNumber x) \<Longrightarrow> as_float64 v = None"
  by (cases v) simp_all

text \<open>
  C3 (as amended). Resolution walks the destination collection in order, and its result is
  decided by the first record whose name is not a string different from the source name.
  When the records before it carry string names different from the source name:
  if that record carries exactly the source name and a numeric id \<open>x\<close>, the result is
  \<open>x\<close> converted to a 64-bit integer, whatever follows, which is the id itself when the id
  is a whole number in the range of int64; if that record carries exactly the source name
  and an id that is not a number, or a name that is not a string, the run panics.
  When every record carries a string name different from the source name, the result is
  the sentinel 0. Names are compared as byte strings: no case folding, no trimming.
\<close>

theorem findProjectIDByExactName_first_exact:
  "((\<forall>q\<in>set pre. \<exists>nm. at_key q ''name'' = JString nm \<and> nm \<noteq> sourceName) \<longrightarrow>
      at_key p ''name'' = JString sourceName \<longrightarrow>
      at_key p ''id'' = JNumber x \<longrightarrow>
      findProjectIDByExactName (pre @ p # post) sourceName = Inr (int64_of_float64 x))
   \<and> (- (2 ^ 63) \<le> n \<longrightarrow> n < 2 ^ 63 \<longrightarrow> int64_of_float64 (of_int n) = n)
   \<and> ((\<forall>q\<in>set pre. \<exists>nm. at_key q ''name'' = JString nm \<and> nm \<noteq> sourceName) \<longrightarrow>
      (at_key p ''name'' = JString sourceName \<and> (\<forall>y. at_key p ''id'' \<noteq> JNumber y)
       \<or> (\<forall>nm. at_key p ''name'' \<noteq> JString nm)) \<longrightarrow>
      findProjectIDByExactName (pre @ p # post) sourceName = Inl InterfaceConversion)
   \<and> ((\<forall>q\<in>set projects. \<exists>nm. at_key q ''name'' = JString nm \<and> nm \<noteq> sourceName) \<longrightarrow>
      findProjectIDByExactName projects sourceName = Inr 0)"
proof (intro conjI impI)
  assume "\<forall>q\<in>set pre. \<exists>nm. at_key q ''name'' = JString nm \<and> nm \<noteq> sourceName"
    and "at_key p ''name'' = JString sourceName" and "at_key p ''id'' = JNumber x"
  then show "findProjectIDByExactName (pre @ p # post) sourceName = Inr (int64_of_float64 x)"
    by (simp add: findProjectIDByExactName_skip)
next
  assume "- (2 ^ 63) \<le> n" and "n < 2 ^ 63"
  then show "int64_of_float64 (of_int n) = n"
    by (rule int64_of_float64_of_int)
next
  assume pre: "\<forall>q\<in>set pre. \<exists>nm. at_key q ''name'' = JString nm \<and> nm \<noteq> sourceName"
    and bad: "at_key p ''name'' = JString sourceName \<and> (\<forall>y. at_key p ''id'' \<noteq> JNumber y)
       \<or> (\<forall>nm. at_key p ''name'' \<noteq> JString nm)"
  from bad show "findProjectIDByExactName (pre @ p # post) sourceName = Inl InterfaceConversion"
  proof
    assume "at_key p ''name'' = JString sourceName \<and> (\<forall>y. at_key p ''id'' \<noteq> JNumber y)"
    then show ?thesis
      using pre by (simp add: findProjectIDByExactName_skip as_float64_None)
  next
    assume "\<forall>nm. at_key p ''name'' \<noteq> JString nm"
    then show ?thesis
      using pre by (simp add: findProjectIDByExactName_skip as_string_None)
  qed
next
  assume "\<forall>q\<in>set projects. \<exists>nm. at_key q ''name'' = JString nm \<and> nm \<noteq> sourceName"
  then show "findProjectIDByExactName projects sourceName = Inr 0"
    by (rule findProjectIDByExactName_no_match)
qed

theorem findProjectIDByExactName_api_witness:
  "findProjectIDByExactName
     [JObject [(''id'', JNumber 7), (''name'', JString ''api'')],
      JObject [(''id'', JNumber 9), (''name'', JString ''api-v2'')]] ''api'' = Inr 7
   \<and> findProjectIDByExactName
     [JObject [(''id'', JNumber 9), (''name'', JString ''api-v2'')],
      JObject [(''id'', JNumber 7), (''name'', JString ''api'')]] ''api'' = Inr 7
   \<and> findProjectIDByExactName
     [JObject [(''id'', JNumber 7), (''name'', JString ''api'')],
      JObject [(''id'', JNumber 9), (''name'', JString ''api-v2'')]] ''API'' = Inr 0
   \<and> findProjectIDByExactName
     [JObject [(''id'', JNumber 7), (''name'', JString ''api'')],
      JObject [(''id'', JNumber 9), (''name'', JString ''api-v2'')]] ''api '' = Inr 0
   \<and> findProjectIDByExactName
     [JObject [(''id'', JNumber 9), (''name'', JString ''api-v2'')],
      JObject [(''id'', JString ''7''), (''name'', JString ''api'')]] ''api''
     = Inl InterfaceConversion
   \<and> findProjectIDByExactName
     [JObject [(''id'', JNumber 9), (''name'', JString ''api-v2'')],
      JObject [(''id'', JNumber 7)]] ''api''
     = Inl InterfaceConversion"
proof -
  let ?a = "JObject [(''id'', JNumber 7), (''name'', JString ''api'')]"
  let ?b = "JObject [(''id'', JNumber 9), (''name'', JString ''api-v2'')]"
  let ?c = "JObject [(''id'', JString ''7''), (''name'', JString ''api'')]"
  let ?d = "JObject [(''id'', JNumber 7)]"
  have seven: "int64_of_float64 7 = 7"
    using findProjectIDByExactName_first_exact [where n = 7] by simp
  have 1: "findProjectIDByExactName ([] @ ?a # [?b]) ''api'' = Inr 7"
    using findProjectIDByExactName_first_exact
      [where pre = "[]" and sourceName = "''api''" and p = ?a and x = 7 and post = "[?b]"]
      seven by simp
  have 2: "findProjectIDByExactName ([?b] @ ?a # []) ''api'' = Inr 7"
    using findProjectIDByExactName_first_exact
      [where pre = "[?b]" and sourceName = "''api''" and p = ?a and x = 7 and post = "[]"]
      seven by simp
  have 3: "findProjectIDByExactName [?a, ?b] ''API'' = Inr 0"
    using findProjectIDByExactName_first_exact
      [where projects = "[?a, ?b]" and sourceName = "''API''"] by simp
  have 4: "findProjectIDByExactName [?a, ?b] ''api '' = Inr 0"
    using findProjectIDByExactName_first_exact
      [where projects = "[?a, ?b]" and sourceName = "''api ''"] by simp
  have 5: "findProjectIDByExactName ([?b] @ ?c # []) ''api'' = Inl InterfaceConversion"
    using findProjectIDByExactName_first_exact
      [where pre = "[?b]" and sourceName = "''api''" and p = ?c and post = "[]"] by simp
  have 6: "findProjectIDByExactName ([?b] @ ?d # []) ''api'' = Inl InterfaceConversion"
    using findProjectIDByExactName_first_exact
      [where pre = "[?b]" and sourceName = "''api''" and p = ?d and post = "[]"] by simp
  from 1 2 3 4 5 6 show ?thesis by simp
qed

text \<open>
  Two collections on which the result is not the one C3 states for every collection.
  In the first no record's name equals the source name, and the run panics on the record
  without a name instead of returning 0. In the second the only record is named exactly
  like the source and carries the id \<open>10\<^sup>1\<^sup>9\<close>, and the result is the least int64.
\<close>

theorem findProjectIDByExactName_not_every_collection_counterexample:
  "findProjectIDByExactName
     [JObject [(''id'', JNumber 9), (''name'', JString ''api-v2'')],
      JObject [(''id'', JNumber 5)]] ''api'' = Inl InterfaceConversion
   \<and> findProjectIDByExactName
     [JObject [(''id'', JNumber 10000000000000000000), (''name'', JString ''api'')]] ''api''
     = Inr (- 9223372036854775808)"
  by (simp add: int64_of_float64_def)

section \<open>Properties of the transfer executor\<close>

lemma createVariablesFor_loop:
  "createVariablesFor sc env config g ident vars tr =
     createVariables_loop env sc ident (variables_url sc config g ident) (token_of config (isSource g))
       vars tr"
  by (cases sc)
    (simp_all add: createVariablesFor_def createVariablesForProject_def
      createVariablesForGroup_def variables_url_def base_of_def token_of_def)

lemma createVariables_loop_append:
  "createVariables_loop env sc ident url tok (xs @ ys) tr =
     createVariables_loop env sc ident url tok ys (createVariables_loop env sc ident url tok xs tr)"
  by (induction xs arbitrary: tr) (auto split: option.splits prod.splits)

lemma createVariables_loop_sent:
  "url_parses env url \<Longrightarrow>
   sent_of (createVariables_loop env sc ident url tok vars tr) =
     sent_of tr @ map (\<lambda>v. (skip_verify_client, api_request ''POST'' url tok v))
                    (filter encodable vars)"
  by (induction vars arbitrary: tr)
    (auto simp add: json_Marshal_def makeGitLabAPIRequest_eq split: response.splits)

lemma createVariables_loop_sent_bad_url:
  "\<not> url_parses env url \<Longrightarrow>
   sent_of (createVariables_loop env sc ident url tok vars tr) = sent_of tr"
  by (induction vars arbitrary: tr)
    (auto simp add: json_Marshal_def makeGitLabAPIRequest_eq split: response.splits)

lemma createVariables_loop_printed:
  "length (printed_of (createVariables_loop env sc ident url tok vars tr)) =
     length (printed_of tr) + length vars"
  by (induction vars arbitrary: tr)
    (auto simp add: json_Marshal_def makeGitLabAPIRequest_eq split: response.splits)

lemma createVariables_loop_single:
  "\<exists>m. printed_of (createVariables_loop env sc ident url tok [v] tr) = printed_of tr @ [m]
     \<and> (m = SuccessfullyCreatedVariable sc ident
          \<longleftrightarrow> encodable v \<and> fst (makeGitLabAPIRequest env ''POST'' url tok v tr) = None)"
  by (auto simp add: json_Marshal_def makeGitLabAPIRequest_eq split: response.splits)

text \<open>
  C5. For the project and the group executor alike: the records after a record are
  processed whatever happened to it (the run over \<open>vs1 @ v # vs2\<close> is the run over
  \<open>vs2\<close> started where the runs over \<open>vs1\<close> and \<open>v\<close> ended); every record gets exactly
  one report, which says "created" exactly when the record encoded and its request
  returned no error; and the requests sent are one POST per encodable record, in order,
  each carrying that record alone (none at all when the URL cannot be built): nothing
  else is sent, so nothing is undone.
\<close>

theorem createVariables_continue:
  "createVariablesFor sc env config g ident (vs1 @ v # vs2) tr =
     createVariablesFor sc env config g ident vs2
       (createVariablesFor sc env config g ident [v]
          (createVariablesFor sc env config g ident vs1 tr))
   \<and> (\<exists>m. printed_of (createVariablesFor sc env config g ident [v] tr) = printed_of tr @ [m]
         \<and> (m = SuccessfullyCreatedVariable sc ident
              \<longleftrightarrow> encodable v
                  \<and> fst (makeGitLabAPIRequest env ''POST'' (variables_url sc config g ident)
                           (token_of config (isSource g)) v tr) = None))
   \<and> length (printed_of (createVariablesFor sc env config g ident vars tr)) =
       length (printed_of tr) + length vars
   \<and> sent_of (createVariablesFor sc env config g ident vars tr) =
       sent_of tr @
       (if url_parses env (variables_url sc config g ident)
        then map (\<lambda>v. (skip_verify_client, create_request sc config g ident v))
               (filter encodable vars)
        else [])"
proof -
  have "createVariablesFor sc env config g ident (vs1 @ v # vs2) tr =
     createVariablesFor sc env config g ident vs2
       (createVariablesFor sc env config g ident [v]
          (createVariablesFor sc env config g ident vs1 tr))"
    using createVariables_loop_append [of env sc ident _ _ vs1 "v # vs2" tr]
      createVariables_loop_append [of env sc ident _ _ "[v]" vs2]
    by (simp add: createVariablesFor_loop)
  moreover have "\<exists>m. printed_of (createVariablesFor sc env config g ident [v] tr) = printed_of tr @ [m]
         \<and> (m = SuccessfullyCreatedVariable sc ident
              \<longleftrightarrow> encodable v
                  \<and> fst (makeGitLabAPIRequest env ''POST'' (variables_url sc config g ident)
                           (token_of config (isSource g)) v tr) = None)"
    unfolding createVariablesFor_loop by (rule createVariables_loop_single)
  moreover have "length (printed_of (createVariablesFor sc env config g ident vars tr)) =
       length (printed_of tr) + length vars"
    unfolding createVariablesFor_loop by (rule createVariables_loop_printed)
  moreover have "sent_of (createVariablesFor sc env config g ident vars tr) =
       sent_of tr @
       (if url_parses env (variables_url sc config g ident)
        then map (\<lambda>v. (skip_verify_client, create_request sc config g ident v))
               (filter encodable vars)
        else [])"
    by (simp add: createVariablesFor_loop createVariables_loop_sent
        createVariables_loop_sent_bad_url create_request_def)
  ultimately show ?thesis by blast
qed

theorem createVariables_third_fails_witness:
  "map (req_body \<circ> snd)
     (sent_of (createVariablesFor Project (lab third_fails) example_config example_flags ''7''
                 five_variables [])) = map Some five_variables
   \<and> printed_of (createVariablesFor Project (lab third_fails) example_config example_flags ''7''
                 five_variables []) =
       [SuccessfullyCreatedVariable Project ''7'', SuccessfullyCreatedVariable Project ''7'',
        ErrorCreatingVariable Project ''7'' (ErrStatus 422),
        SuccessfullyCreatedVariable Project ''7'', SuccessfullyCreatedVariable Project ''7'']"
proof -
  have p: "url_parses (lab third_fails) (variables_url Project example_config example_flags ''7'')"
    by (simp add: lab_def any_url_def)
  have e: "filter encodable five_variables = five_variables"
    by (simp add: five_variables_def var_named_def)
  have "sent_of (createVariablesFor Project (lab third_fails) example_config example_flags ''7''
                 five_variables []) =
      map (\<lambda>v. (skip_verify_client, create_request Project example_config example_flags ''7'' v))
        five_variables"
    using createVariables_continue [where sc = Project and env = "lab third_fails"
        and config = example_config and g = example_flags and ident = "''7''"
        and vars = five_variables and tr = "[]"] p e
    by simp
  then have 1: "map (req_body \<circ> snd)
     (sent_of (createVariablesFor Project (lab third_fails) example_config example_flags ''7''
                 five_variables [])) = map Some five_variables"
    by (simp add: create_request_def api_request_def comp_def)
  have 2: "printed_of (createVariablesFor Project (lab third_fails) example_config example_flags ''7''
                 five_variables []) =
       [SuccessfullyCreatedVariable Project ''7'', SuccessfullyCreatedVariable Project ''7'',
        ErrorCreatingVariable Project ''7'' (ErrStatus 422),
        SuccessfullyCreatedVariable Project ''7'', SuccessfullyCreatedVariable Project ''7'']"
    by (simp add: createVariablesFor_loop five_variables_def var_named_def third_fails_def
        json_Marshal_def makeGitLabAPIRequest_eq lab_def any_url_def scripted_def)
  from 1 2 show ?thesis by simp
qed

section \<open>Reads come before writes\<close>

lemma createVariables_loop_calls:
  "\<exists>m. calls_of (createVariables_loop env sc ident url tok vars tr) = calls_of tr @ writes m"
proof (cases "url_parses env url")
  case True
  then have "calls_of (createVariables_loop env sc ident url tok vars tr) =
      calls_of tr @ writes (length (filter encodable vars))"
    by (simp add: calls_of_def createVariables_loop_sent writes_def api_request_def comp_def
        map_replicate_const)
  then show ?thesis ..
next
  case False
  then have "calls_of (createVariables_loop env sc ident url tok vars tr) = calls_of tr @ writes 0"
    by (simp add: calls_of_def createVariables_loop_sent_bad_url writes_def)
  then show ?thesis ..
qed

lemma createVariablesFor_calls:
  "\<exists>m. calls_of (createVariablesFor sc env config g ident vars tr) = calls_of tr @ writes m"
  unfolding createVariablesFor_loop by (rule createVariables_loop_calls)

lemma createVariablesForProject_calls:
  "\<exists>m. calls_of (createVariablesForProject env config g ident vars tr) = calls_of tr @ writes m"
  using createVariablesFor_calls [of Project] by (simp add: createVariablesFor_def)

lemma createVariablesForGroup_calls:
  "\<exists>m. calls_of (createVariablesForGroup env config g ident vars tr) = calls_of tr @ writes m"
  using createVariablesFor_calls [of Group] by (simp add: createVariablesFor_def)

lemma migrate_projects_calls:
  "\<exists>m. calls_of (snd (migrate_projects env config g destProjects entries tr)) =
     calls_of tr @ writes m"
proof (induction entries arbitrary: tr)
  case Nil
  have "calls_of (snd (migrate_projects env config g destProjects [] tr)) = calls_of tr @ writes 0"
    by (simp add: writes_def)
  then show ?case ..
next
  case (Cons entry rest)
  obtain sid pdata where entry: "entry = (sid, pdata)"
    by (cases entry)
  have skip: "\<exists>m. calls_of (snd (migrate_projects env config g destProjects rest
      (tr @ [Printed msg]))) = calls_of tr @ writes m" for msg
    using Cons.IH [of "tr @ [Printed msg]"] by simp
  have stop: "\<exists>m. calls_of tr = calls_of tr @ writes m"
    by (rule exI [of _ 0]) (simp add: writes_def)
  have go: "\<exists>m. calls_of (snd (migrate_projects env config g destProjects rest
      (createVariablesForProject env config g ident vars (tr @ [Printed msg])))) =
      calls_of tr @ writes m" for ident vars msg
  proof -
    obtain j where j: "calls_of (createVariablesForProject env config g ident vars
        (tr @ [Printed msg])) = calls_of tr @ writes j"
      using createVariablesForProject_calls [of env config g ident vars "tr @ [Printed msg]"]
      by auto
    obtain k where "calls_of (snd (migrate_projects env config g destProjects rest
        (createVariablesForProject env config g ident vars (tr @ [Printed msg])))) =
        calls_of (createVariablesForProject env config g ident vars (tr @ [Printed msg]))
        @ writes k"
      using Cons.IH by blast
    with j have "calls_of (snd (migrate_projects env config g destProjects rest
        (createVariablesForProject env config g ident vars (tr @ [Printed msg])))) =
        calls_of tr @ writes (j + k)"
      by (simp add: writes_add)
    then show ?thesis ..
  qed
  show ?case
    unfolding entry
    using skip stop go
    by (simp split: option.splits sum.splits)
qed


lemma reads_writes_0: "calls_of tr = calls_of tr @ reads 0 @ writes 0"
  by (simp add: reads_def writes_def)

lemma create_in_destination_calls:
  assumes "create_in_destination env config g sourceVars tr = Some y"
  shows "\<exists>k m. calls_of (snd y) = calls_of tr @ reads k @ writes m"
proof (cases "flag_groupID g \<noteq> [] \<and> recursive g")
  case True
  show ?thesis
  proof (cases "as_object sourceVars")
    case None
    with True assms have "calls_of (snd y) = calls_of tr @ reads 0 @ writes 0"
      by (auto simp add: create_in_destination_def reads_def writes_def)
    then show ?thesis by blast
  next
    case (Some sourceVarsMap)
    let ?tr = "tr @ [Printed (MigratingRecursively (flag_groupID g) (destinationGroupID g))]"
    from True Some assms obtain r tr' where
      f: "fetchAllProjects env config g ?tr = Some (r, tr')"
      by (cases "fetchAllProjects env config g ?tr")
        (auto simp add: create_in_destination_def)
    from fetchAllProjects_calls [OF f] obtain k where k: "calls_of tr' = calls_of tr @ reads k"
      by auto
    show ?thesis
    proof (cases r)
      case (Inl err)
      with True Some assms f k have "calls_of (snd y) = calls_of tr @ reads k @ writes 0"
        by (auto simp add: create_in_destination_def writes_def)
      then show ?thesis by blast
    next
      case (Inr destProjects)
      obtain e tr'' where mp: "migrate_projects env config g destProjects
          (range_order env sourceVarsMap) tr' = (e, tr'')"
        by (cases "migrate_projects env config g destProjects (range_order env sourceVarsMap) tr'")
      obtain m where m: "calls_of tr'' = calls_of tr' @ writes m"
        using migrate_projects_calls [of env config g destProjects
            "range_order env sourceVarsMap" tr'] mp
        by auto
      with True Some assms f k Inr mp
      have "calls_of (snd y) = calls_of tr @ reads k @ writes m"
        by (cases e) (auto simp add: create_in_destination_def)
      then show ?thesis by blast
    qed
  qed
next
  case False
  show ?thesis
  proof (cases "as_maps sourceVars")
    case None
    with False assms have "calls_of (snd y) = calls_of tr @ reads 0 @ writes 0"
      by (auto simp add: create_in_destination_def reads_def writes_def split: if_splits)
    then show ?thesis by blast
  next
    case (Some vars)
    obtain m where m: "calls_of (createVariablesForGroup env config g (destinationGroupID g) vars
        (tr @ [Printed (MigratingGroup (flag_groupID g) (destinationGroupID g))])) =
        calls_of tr @ writes m"
      using createVariablesForGroup_calls [of env config g "destinationGroupID g" vars
          "tr @ [Printed (MigratingGroup (flag_groupID g) (destinationGroupID g))]"]
      by auto
    obtain n where n: "calls_of (createVariablesForProject env config g (destinationProjectID g)
        vars (tr @ [Printed (MigratingProject (flag_projectID g) (destinationProjectID g))])) =
        calls_of tr @ writes n"
      using createVariablesForProject_calls [of env config g "destinationProjectID g" vars
          "tr @ [Printed (MigratingProject (flag_projectID g) (destinationProjectID g))]"]
      by auto
    from False Some assms m n
    have "calls_of (snd y) = calls_of tr @ reads 0 @ writes m
        \<or> calls_of (snd y) = calls_of tr @ reads 0 @ writes n"
      by (auto simp add: create_in_destination_def reads_def split: if_splits)
    then show ?thesis by blast
  qed
qed

lemma migrateVariablesCmd_Run_calls:
  assumes "migrateVariablesCmd_Run env g tr = Some y"
  shows "\<exists>k m. calls_of (snd y) = calls_of tr @ reads k @ writes m"
proof (cases "((flag_groupID g = [] \<and> flag_projectID g = [])
         \<or> (destinationGroupID g = [] \<and> destinationProjectID g = []))
         \<or> loadConfig env = None \<or> \<not> EnsureDataDir env")
  case True
  with assms have "calls_of (snd y) = calls_of tr @ reads 0 @ writes 0"
    by (auto simp add: migrateVariablesCmd_Run_def reads_def writes_def
        split: if_splits option.splits)
  then show ?thesis by blast
next
  case False
  then obtain config where config: "loadConfig env = Some config"
    by auto
  obtain r tr1 where sv: "source_variables env config g tr = (r, tr1)"
    by (cases "source_variables env config g tr")
  from source_variables_calls [of env config g tr] sv
  obtain j where j: "calls_of tr1 = calls_of tr @ reads j"
    by auto
  show ?thesis
  proof (cases r)
    case (Inl p)
    with False config sv assms j have "calls_of (snd y) = calls_of tr @ reads j @ writes 0"
      by (auto simp add: migrateVariablesCmd_Run_def writes_def)
    then show ?thesis by blast
  next
    case (Inr sourceVars)
    let ?file = "GenerateOutputFileName ''variables'' (flag_groupID g) (flag_projectID g) False
        (recursive g)"
    obtain saved tr2 where so: "saveOutputToFile env sourceVars ?file tr1 = (saved, tr2)"
      by (cases "saveOutputToFile env sourceVars ?file tr1")
    from saveOutputToFile_calls [of env sourceVars ?file tr1] so j
    have tr2: "calls_of tr2 = calls_of tr @ reads j"
      by simp
    show ?thesis
    proof (cases saved)
      case False
      with \<open>\<not> (((flag_groupID g = [] \<and> flag_projectID g = [])
         \<or> (destinationGroupID g = [] \<and> destinationProjectID g = []))
         \<or> loadConfig env = None \<or> \<not> EnsureDataDir env)\<close> config sv Inr so assms tr2
      have "calls_of (snd y) = calls_of tr @ reads j @ writes 0"
        by (auto simp add: migrateVariablesCmd_Run_def writes_def)
      then show ?thesis by blast
    next
      case True
      with \<open>\<not> (((flag_groupID g = [] \<and> flag_projectID g = [])
         \<or> (destinationGroupID g = [] \<and> destinationProjectID g = []))
         \<or> loadConfig env = None \<or> \<not> EnsureDataDir env)\<close> config sv Inr so assms
      have "create_in_destination env config g sourceVars tr2 = Some y"
        by (auto simp add: migrateVariablesCmd_Run_def)
      from create_in_destination_calls [OF this] obtain k m where
        "calls_of (snd y) = calls_of tr2 @ reads k @ writes m"
        by blast
      with tr2 have "calls_of (snd y) = calls_of tr @ reads (j + k) @ writes m"
        by (simp add: reads_add [symmetric])
      then show ?thesis by blast
    qed
  qed
qed

section \<open>Properties of a single creation request\<close>

text \<open>
  C9 (as amended). A creation request returns no error exactly when the request can be
  built, the transport delivers a response and its status is below 400; the request is
  handed to the client once, never again.
\<close>

theorem makeGitLabAPIRequest_error_iff:
  "(fst (makeGitLabAPIRequest env method url token payload tr) = None
      \<longleftrightarrow> url_parses env url
          \<and> (\<exists>code b. respond env (nsent tr) skip_verify_client
                          (api_request method url token payload) = Response code b
                       \<and> code < 400))
   \<and> snd (makeGitLabAPIRequest env method url token payload tr) =
       (if url_parses env url
        then tr @ [Sent skip_verify_client (api_request method url token payload)]
        else tr)"
  by (auto simp add: makeGitLabAPIRequest_eq split: response.splits)

theorem makeGitLabAPIRequest_status_witness:
  "fst (makeGitLabAPIRequest (lab [Response 201 Malformed]) ''POST''
         ''https://dst.example/api/v4/projects/7/variables'' ''d-token'' (var_named ''X'') [])
     = None
   \<and> fst (makeGitLabAPIRequest (lab [Response 422 Malformed, Response 201 Malformed]) ''POST''
         ''https://dst.example/api/v4/projects/7/variables'' ''d-token'' (var_named ''X'') [])
     \<noteq> None
   \<and> snd (makeGitLabAPIRequest (lab [Response 422 Malformed, Response 201 Malformed]) ''POST''
         ''https://dst.example/api/v4/projects/7/variables'' ''d-token'' (var_named ''X'') [])
     = [Sent skip_verify_client
          (api_request ''POST'' ''https://dst.example/api/v4/projects/7/variables'' ''d-token''
             (var_named ''X''))]"
proof -
  have 1: "fst (makeGitLabAPIRequest (lab [Response 201 Malformed]) ''POST''
         ''https://dst.example/api/v4/projects/7/variables'' ''d-token'' (var_named ''X'') [])
     = None"
    using makeGitLabAPIRequest_error_iff [of "lab [Response 201 Malformed]" "''POST''"
        "''https://dst.example/api/v4/projects/7/variables''" "''d-token''" "var_named ''X''" "[]"]
    by (simp add: lab_def any_url_def scripted_def)
  have 2: "fst (makeGitLabAPIRequest (lab [Response 422 Malformed, Response 201 Malformed])
         ''POST'' ''https://dst.example/api/v4/projects/7/variables'' ''d-token''
         (var_named ''X'') []) \<noteq> None
     \<and> snd (makeGitLabAPIRequest (lab [Response 422 Malformed, Response 201 Malformed]) ''POST''
         ''https://dst.example/api/v4/projects/7/variables'' ''d-token'' (var_named ''X'') [])
     = [Sent skip_verify_client
          (api_request ''POST'' ''https://dst.example/api/v4/projects/7/variables'' ''d-token''
             (var_named ''X''))]"
    using makeGitLabAPIRequest_error_iff [of "lab [Response 422 Malformed, Response 201 Malformed]"
        "''POST''" "''https://dst.example/api/v4/projects/7/variables''" "''d-token''"
        "var_named ''X''" "[]"]
    by (simp add: lab_def any_url_def scripted_def)
  from 1 2 show ?thesis by simp
qed

text \<open>The claim as it stands fails at a status between 300 and 399: the status 304 is not
  a 2xx status, and the request returns no error.\<close>

theorem makeGitLabAPIRequest_304_counterexample:
  "\<not> is_2xx 304
   \<and> fst (makeGitLabAPIRequest (lab [Response 304 Malformed]) ''POST''
           ''https://dst.example/api/v4/projects/7/variables'' ''d-token''
           (JObject [(''key'', JString ''X'')]) []) = None"
  by (simp add: is_2xx_def makeGitLabAPIRequest_eq lab_def scripted_def any_url_def)

section \<open>Properties of the recursive migration loop\<close>

lemma findProjectIDByExactName_total:
  "project_records destProjects \<Longrightarrow> \<exists>i. findProjectIDByExactName destProjects name = Inr i"
  by (induction destProjects) (auto simp add: project_records_def)

lemma migrate_projects_returns:
  "project_records destProjects \<Longrightarrow>
   fst (migrate_projects env config g destProjects entries tr) = Returned"
proof (induction entries arbitrary: tr)
  case Nil
  then show ?case by simp
next
  case (Cons entry rest)
  obtain sid pdata where entry: "entry = (sid, pdata)"
    by (cases entry)
  from Cons.prems findProjectIDByExactName_total
  have total: "findProjectIDByExactName destProjects name \<noteq> Inl p" for name p
    by (metis Inl_Inr_False)
  show ?case
    unfolding entry
    using Cons.IH [OF Cons.prems] total
    by (auto split: option.splits sum.splits)
qed

lemma migrate_projects_append:
  "migrate_projects env config g destProjects (es1 @ es2) tr =
     (case migrate_projects env config g destProjects es1 tr of
        (Crashed p, t) \<Rightarrow> (Crashed p, t)
      | (Returned, t) \<Rightarrow> migrate_projects env config g destProjects es2 t)"
proof (induction es1 arbitrary: tr)
  case Nil
  then show ?case by simp
next
  case (Cons entry rest)
  obtain sid pdata where entry: "entry = (sid, pdata)"
    by (cases entry)
  show ?case
    unfolding entry
    using Cons.IH
    by (simp split: option.splits sum.splits)
qed

lemma migrate_projects_unmatched:
  "unmatched destProjects projectData name \<Longrightarrow>
   migrate_projects env config g destProjects ((sourceProjectID, projectData) # rest) tr =
     migrate_projects env config g destProjects rest
       (tr @ [Printed (ProjectNotFoundInDestination name)])"
  by (simp add: unmatched_def)

text \<open>
  C4. In the loop of the recursive mode, a source project whose name resolves to 0 adds
  one warning to the trace and nothing else, in particular no request, and the loop goes
  on with the projects after it. When the destination listing consists of project records
  (a string name and a numeric id each), the loop never stops early; so wherever the
  unmatched project stands, the projects before it are processed, then the warning is
  printed, then the projects after it are processed.
\<close>

theorem unmatched_project_is_skipped:
  "(unmatched destProjects projectData name \<longrightarrow>
      migrate_projects env config g destProjects ((sourceProjectID, projectData) # rest) tr =
        migrate_projects env config g destProjects rest
          (tr @ [Printed (ProjectNotFoundInDestination name)]))
   \<and> (project_records destProjects \<longrightarrow>
      fst (migrate_projects env config g destProjects entries tr) = Returned)
   \<and> (project_records destProjects \<longrightarrow> unmatched destProjects projectData name \<longrightarrow>
      migrate_projects env config g destProjects
          (before @ (sourceProjectID, projectData) # rest) tr =
        migrate_projects env config g destProjects rest
          (snd (migrate_projects env config g destProjects before tr)
           @ [Printed (ProjectNotFoundInDestination name)]))"
proof (intro conjI impI)
  assume "unmatched destProjects projectData name"
  then show "migrate_projects env config g destProjects ((sourceProjectID, projectData) # rest) tr =
        migrate_projects env config g destProjects rest
          (tr @ [Printed (ProjectNotFoundInDestination name)])"
    by (rule migrate_projects_unmatched)
next
  assume "project_records destProjects"
  then show "fst (migrate_projects env config g destProjects entries tr) = Returned"
    by (rule migrate_projects_returns)
next
  assume wf: "project_records destProjects" and un: "unmatched destProjects projectData name"
  obtain e t where b: "migrate_projects env config g destProjects before tr = (e, t)"
    by (cases "migrate_projects env config g destProjects before tr")
  with migrate_projects_returns [OF wf, of env config g before tr] have e: "e = Returned"
    by simp
  show "migrate_projects env config g destProjects
          (before @ (sourceProjectID, projectData) # rest) tr =
        migrate_projects env config g destProjects rest
          (snd (migrate_projects env config g destProjects before tr)
           @ [Printed (ProjectNotFoundInDestination name)])"
    using b e migrate_projects_unmatched [OF un]
    by (simp add: migrate_projects_append)
qed

text \<open>Destination projects A and C, source projects A and B, in both orders of visit.\<close>

theorem unmatched_project_witness:
  "migrate_projects (lab [Response 201 Malformed]) example_config example_flags destination_A_C
     [source_entry ''2'' ''B'' [var_named ''Y''], source_entry ''1'' ''A'' [var_named ''X'']] [] =
     (Returned,
      [Printed (ProjectNotFoundInDestination ''B''),
       Printed (MigratingVariablesFor ''A'' 11),
       Sent skip_verify_client
         (api_request ''POST'' ''https://dst.example/api/v4/projects/11/variables'' ''d-token''
            (var_named ''X'')),
       Printed (SuccessfullyCreatedVariable Project ''11'')])
   \<and> migrate_projects (lab [Response 201 Malformed]) example_config example_flags
     destination_A_C
     [source_entry ''1'' ''A'' [var_named ''X''], source_entry ''2'' ''B'' [var_named ''Y'']] [] =
     (Returned,
      [Printed (MigratingVariablesFor ''A'' 11),
       Sent skip_verify_client
         (api_request ''POST'' ''https://dst.example/api/v4/projects/11/variables'' ''d-token''
            (var_named ''X'')),
       Printed (SuccessfullyCreatedVariable Project ''11''),
       Printed (ProjectNotFoundInDestination ''B'')])"
proof -
  have wf: "project_records destination_A_C"
    by (simp add: project_records_def destination_A_C_def project_named_def)
  have un: "unmatched destination_A_C (snd (source_entry ''2'' ''B'' [var_named ''Y''])) ''B''"
    by (simp add: unmatched_def destination_A_C_def project_named_def source_entry_def)
  have a: "migrate_projects (lab [Response 201 Malformed]) example_config example_flags
      destination_A_C [source_entry ''1'' ''A'' [var_named ''X'']] tr =
      (Returned,
       tr @ [Printed (MigratingVariablesFor ''A'' 11),
        Sent skip_verify_client
         (api_request ''POST'' ''https://dst.example/api/v4/projects/11/variables'' ''d-token''
            (var_named ''X'')),
        Printed (SuccessfullyCreatedVariable Project ''11'')])"
    if "nsent tr = 0" for tr
    using that
    by (simp add: source_entry_def destination_A_C_def project_named_def var_named_def
        int64_of_float64_def FormatInt_def decimal.simps digit_def
        createVariablesForProject_def example_config_def example_flags_def json_Marshal_def
        makeGitLabAPIRequest_eq lab_def any_url_def scripted_def)
  have 1: "migrate_projects (lab [Response 201 Malformed]) example_config example_flags
      destination_A_C
      ([] @ (''2'', snd (source_entry ''2'' ''B'' [var_named ''Y'']))
          # [source_entry ''1'' ''A'' [var_named ''X'']]) [] =
      migrate_projects (lab [Response 201 Malformed]) example_config example_flags
        destination_A_C [source_entry ''1'' ''A'' [var_named ''X'']]
        (snd (migrate_projects (lab [Response 201 Malformed]) example_config example_flags
                destination_A_C [] [])
         @ [Printed (ProjectNotFoundInDestination ''B'')])"
    using unmatched_project_is_skipped [where destProjects = destination_A_C
        and projectData = "snd (source_entry ''2'' ''B'' [var_named ''Y''])" and name = "''B''"
        and before = "[]" and tr = "[]"] wf un
    by blast
  have 2: "migrate_projects (lab [Response 201 Malformed]) example_config example_flags
      destination_A_C
      ([source_entry ''1'' ''A'' [var_named ''X'']]
         @ (''2'', snd (source_entry ''2'' ''B'' [var_named ''Y''])) # []) [] =
      migrate_projects (lab [Response 201 Malformed]) example_config example_flags
        destination_A_C []
        (snd (migrate_projects (lab [Response 201 Malformed]) example_config example_flags
                destination_A_C [source_entry ''1'' ''A'' [var_named ''X'']] [])
         @ [Printed (ProjectNotFoundInDestination ''B'')])"
    using unmatched_project_is_skipped [where destProjects = destination_A_C
        and projectData = "snd (source_entry ''2'' ''B'' [var_named ''Y''])" and name = "''B''"
        and before = "[source_entry ''1'' ''A'' [var_named ''X'']]" and tr = "[]"] wf un
    by blast
  have e: "(''2'', snd (source_entry ''2'' ''B'' [var_named ''Y''])) =
      source_entry ''2'' ''B'' [var_named ''Y'']"
    by (simp add: source_entry_def)
  from 1 2 show ?thesis
    unfolding e by (simp add: a)
qed

section \<open>Worked runs\<close>

lemma project_file_name:
  "GenerateOutputFileName ''variables'' [] ''3'' False False =
     ''data/s-gitlab_get_variables_p-3.json''"
  by (simp add: GenerateOutputFileName_def filepath_Join_def filepath_Clean_def)

lemma recursive_file_name:
  "GenerateOutputFileName ''variables'' ''10'' [] False True =
     ''data/s-gitlab_get_variables_g-10_recursive.json''"
  by (simp add: GenerateOutputFileName_def filepath_Join_def filepath_Clean_def)


lemma project_run_eval:
  "migrateVariablesCmd_Run (lab project_script) project_flags [] = Some (Returned, project_run)"
  by (simp add: migrateVariablesCmd_Run_def project_flags_def lab_def source_variables_def
      getVariablesForProject_def get_listing_eq any_url_def scripted_def project_script_def
      ok_page_def var_named_def example_config_def saveOutputToFile_def any_file_def
      project_file_name create_in_destination_def createVariablesForProject_def
      json_Marshal_def makeGitLabAPIRequest_eq project_run_def)

lemma empty_listing_eval:
  "fetchAllProjects (lab [ok_page []]) example_config example_flags [] =
     Some (Inr [],
       [Sent skip_verify_client (get_request
          ''https://dst.example/api/v4/groups/20/projects?per_page=100&page=1'' ''d-token'')])"
  unfolding fetchAllProjects_def Let_def
  by (subst page_loop.simps)
    (simp add: fetchAllProjects_page_def http_NewRequest_def lab_def any_url_def scripted_def
      client_Do_def header_Set_def ok_page_def skip_verify_client_def get_request_def
      example_config_def example_flags_def decimal.simps digit_def)

lemma math_Round_of_int: "math_Round (of_int n) = of_int n"
proof -
  have "\<lfloor>of_int n + (1 / 2 :: rat)\<rfloor> = n" and "\<lceil>of_int n - (1 / 2 :: rat)\<rceil> = n"
    by linarith+
  then show ?thesis by (simp add: math_Round_def)
qed

lemma math_Round_numeral [simp]:
  "math_Round 1 = 1" "math_Round (numeral k) = numeral k"
  using math_Round_of_int [of 1] math_Round_of_int [of "numeral k"] by simp_all

lemma int64_of_float64_numeral:
  "int64_of_float64 1 = 1"
  "(numeral k :: int) < 2 ^ 63 \<Longrightarrow> int64_of_float64 (numeral k) = numeral k"
  by (simp_all add: int64_of_float64_def)

lemma recursive_source_eval:
  "source_variables (lab recursive_script) example_config example_flags [] =
     (Inr (JObject [source_entry ''1'' ''A'' [var_named ''X''],
                    source_entry ''2'' ''B'' [var_named ''Y'']]),
      take 3 recursive_run)"
  by (simp add: source_variables_def example_flags_def getAllVariablesForGroupProjects_def
      getProjectsForGroup_def getVariablesForProject_def get_listing_eq lab_def any_url_def
      scripted_def recursive_script_def ok_page_def project_named_def var_named_def
      example_config_def FormatInt_def decimal.simps digit_def source_entry_def Let_def
      recursive_run_def int64_of_float64_numeral)


lemma recursive_destination_eval:
  "fetchAllProjects (lab recursive_script) example_config example_flags (take 6 recursive_run) =
     Some (Inr [project_named ''A'' 11, project_named ''B'' 12], take 8 recursive_run)"
proof -
  let ?pages = "[[project_named ''A'' 11, project_named ''B'' 12]]"
  have pages: "\<forall>p\<in>set ?pages. p \<noteq> [] \<and> list_all is_map p"
    by (simp add: project_named_def)
  have urls: "\<forall>i\<le>length ?pages. url_parses (lab recursive_script)
        (projects_page_url (base_of example_config (isSource example_flags))
           (destinationGroupID example_flags) (1 + i))"
    by (simp add: lab_def any_url_def)
  have n: "nsent (take 6 recursive_run) = 3"
    by (simp add: recursive_run_def)
  have answers: "\<forall>i\<le>length ?pages.
        respond (lab recursive_script) (nsent (take 6 recursive_run) + i) skip_verify_client
          (get_request (projects_page_url (base_of example_config (isSource example_flags))
                          (destinationGroupID example_flags) (1 + i))
             (token_of example_config (isSource example_flags)))
        = ok_page ((?pages @ [[]]) ! i)"
    unfolding n
    by (simp add: lab_def scripted_def recursive_script_def le_Suc_eq)
  show ?thesis
    using fetchAllProjects_pages [OF pages urls answers]
    by (simp add: recursive_run_def projects_page_url_def base_of_def token_of_def
        example_config_def example_flags_def decimal.simps digit_def upt_rec)
qed

lemma recursive_loop_eval:
  "migrate_projects (lab recursive_script) example_config example_flags
     [project_named ''A'' 11, project_named ''B'' 12]
     [source_entry ''1'' ''A'' [var_named ''X''], source_entry ''2'' ''B'' [var_named ''Y'']]
     (take 8 recursive_run) = (Returned, take 14 recursive_run)"
  by (simp add: recursive_run_def source_entry_def project_named_def var_named_def
      int64_of_float64_numeral FormatInt_def decimal.simps digit_def
      createVariablesForProject_def example_config_def example_flags_def json_Marshal_def
      makeGitLabAPIRequest_eq lab_def any_url_def scripted_def recursive_script_def)

lemma recursive_run_eval:
  "migrateVariablesCmd_Run (lab recursive_script) example_flags [] =
     Some (Returned, recursive_run)"
proof -
  have flags: "flag_groupID example_flags = ''10''" "recursive example_flags"
    "destinationGroupID example_flags = ''20''" "flag_projectID example_flags = []"
    by (simp_all add: example_flags_def)
  have env: "loadConfig (lab recursive_script) = Some example_config"
    "EnsureDataDir (lab recursive_script)"
    "file_writable (lab recursive_script) p" "range_order (lab recursive_script) m = m" for p m
    by (simp_all add: lab_def any_file_def as_listed_def)
  have save: "saveOutputToFile (lab recursive_script)
      (JObject [source_entry ''1'' ''A'' [var_named ''X''],
                source_entry ''2'' ''B'' [var_named ''Y'']])
      (GenerateOutputFileName ''variables'' ''10'' [] False True) (take 3 recursive_run) =
      (True, take 5 recursive_run)"
    by (simp add: saveOutputToFile_def env recursive_file_name recursive_run_def
        source_entry_def var_named_def)
  have six: "take 5 recursive_run @ [Printed (MigratingRecursively ''10'' ''20'')] =
      take 6 recursive_run"
    by (simp add: recursive_run_def)
  have all: "take 14 recursive_run @ [Printed MigrationCompleted] = recursive_run"
    by (simp add: recursive_run_def)
  show ?thesis
    by (simp add: migrateVariablesCmd_Run_def flags env recursive_source_eval save
        create_in_destination_def six recursive_destination_eval recursive_loop_eval all)
qed


section \<open>Properties of the order of reads and writes\<close>

text \<open>
  C7 (as amended). In every mode of the variables migration, and so in the recursive one,
  the requests of a run are first its reads (the source listing, each source project's
  variables, the pages of the destination listing) and then its creation requests: no
  read follows a write. Inside the loop over the source projects, a project that resolves
  to a destination id has its variables written at once, and the projects after it are
  resolved only then: no plan is built ahead of the writes.
\<close>

theorem reads_precede_writes:
  "(migrateVariablesCmd_Run env g tr = Some y \<longrightarrow>
      (\<exists>k m. calls_of (snd y) = calls_of tr @ reads k @ writes m))
   \<and> (as_string (at_key projectData ''project_name'') = Some name \<longrightarrow>
      findProjectIDByExactName destProjects name = Inr destProjectID \<longrightarrow>
      destProjectID \<noteq> 0 \<longrightarrow>
      as_maps (at_key projectData ''variables'') = Some vars \<longrightarrow>
      migrate_projects env config g destProjects ((sourceProjectID, projectData) # rest) tr =
        migrate_projects env config g destProjects rest
          (createVariablesForProject env config g (FormatInt destProjectID) vars
             (tr @ [Printed (MigratingVariablesFor name destProjectID)])))"
proof (intro conjI impI)
  assume "migrateVariablesCmd_Run env g tr = Some y"
  then show "\<exists>k m. calls_of (snd y) = calls_of tr @ reads k @ writes m"
    by (rule migrateVariablesCmd_Run_calls)
next
  assume "as_string (at_key projectData ''project_name'') = Some name"
    and "findProjectIDByExactName destProjects name = Inr destProjectID"
    and "destProjectID \<noteq> 0"
    and "as_maps (at_key projectData ''variables'') = Some vars"
  then show "migrate_projects env config g destProjects ((sourceProjectID, projectData) # rest) tr =
        migrate_projects env config g destProjects rest
          (createVariablesForProject env config g (FormatInt destProjectID) vars
             (tr @ [Printed (MigratingVariablesFor name destProjectID)]))"
    by simp
qed

theorem reads_precede_writes_witness:
  "migrateVariablesCmd_Run (lab recursive_script) example_flags [] = Some (Returned, recursive_run)
   \<and> (\<exists>k m. calls_of recursive_run = reads k @ writes m)
   \<and> calls_of recursive_run = reads 5 @ writes 2
   \<and> migrate_projects (lab recursive_script) example_config example_flags
       [project_named ''A'' 11, project_named ''B'' 12]
       [source_entry ''1'' ''A'' [var_named ''X'']] [] =
     (Returned,
      createVariablesForProject (lab recursive_script) example_config example_flags ''11''
        [var_named ''X''] [Printed (MigratingVariablesFor ''A'' 11)])"
proof -
  have "migrate_projects (lab recursive_script) example_config example_flags
       [project_named ''A'' 11, project_named ''B'' 12]
       [source_entry ''1'' ''A'' [var_named ''X'']] [] =
     (Returned,
      createVariablesForProject (lab recursive_script) example_config example_flags ''11''
        [var_named ''X''] [Printed (MigratingVariablesFor ''A'' 11)])"
    using reads_precede_writes [where projectData = "snd (source_entry ''1'' ''A'' [var_named ''X''])"
        and name = "''A''" and destProjects = "[project_named ''A'' 11, project_named ''B'' 12]"
        and destProjectID = 11 and vars = "[var_named ''X'']" and sourceProjectID = "''1''"
        and rest = "[]" and tr = "[]" and env = "lab recursive_script"
        and config = example_config and g = example_flags]
    by (simp add: source_entry_def project_named_def var_named_def int64_of_float64_def
        FormatInt_def decimal.simps digit_def)
  moreover
  have "\<exists>k m. calls_of recursive_run = reads k @ writes m"
    using reads_precede_writes [where env = "lab recursive_script" and g = example_flags
        and tr = "[]" and y = "(Returned, recursive_run)"] recursive_run_eval
    by simp
  moreover have "calls_of recursive_run = reads 5 @ writes 2"
    by (simp add: recursive_run_def reads_def writes_def get_request_def api_request_def
        numeral_eq_Suc)
  ultimately show ?thesis
    using recursive_run_eval by simp
qed

text \<open>The claim as it stands fails on a run with two matched projects: the report of the
  second project's resolution comes after the creation request of the first.\<close>

theorem plan_before_writes_counterexample:
  "migrateVariablesCmd_Run (lab recursive_script) example_flags [] = Some (Returned, recursive_run)
   \<and> \<not> plan_before_writes recursive_run"
  using recursive_run_eval
  by (simp add: recursive_run_def get_request_def api_request_def)


section \<open>Properties of the replayed records\<close>

lemma createVariables_loop_returns_sent:
  "url_parses env url \<Longrightarrow> list_all encodable vars \<Longrightarrow>
   sent_of (createVariables_loop env sc ident url tok vars tr) =
     sent_of tr @ map (\<lambda>v. (skip_verify_client, api_request ''POST'' url tok v)) vars"
  by (simp add: createVariables_loop_sent list_all_iff)

lemma bodies_of_append [simp]: "bodies_of (a @ b) = bodies_of a @ bodies_of b"
  by (simp add: bodies_of_def)

lemma project_mode_run:
  assumes g: "flag_groupID g = []" "flag_projectID g \<noteq> []" "destinationProjectID g \<noteq> []"
    and env: "loadConfig env = Some config" "EnsureDataDir env"
      "file_writable env
         (GenerateOutputFileName ''variables'' [] (flag_projectID g) False (recursive g))"
    and urls: "url_parses env (project_variables_url config g)"
      "url_parses env (variables_url Project config g (destinationProjectID g))"
    and answer: "respond env (nsent tr) skip_verify_client
      (get_request (project_variables_url config g) (token_of config (\<not> isDestination g)))
      = ok_page records"
    and records: "list_all is_map records" "list_all encodable records"
  shows "\<exists>tr'. migrateVariablesCmd_Run env g tr = Some (Returned, tr')
      \<and> sent_of tr' =
          sent_of tr
          @ (skip_verify_client,
             get_request (project_variables_url config g)
               (token_of config (\<not> isDestination g)))
          # map (\<lambda>v. (skip_verify_client,
                      create_request Project config g (destinationProjectID g) v)) records"
proof -
  let ?get = "Sent skip_verify_client
      (get_request (project_variables_url config g) (token_of config (\<not> isDestination g)))"
  let ?file = "GenerateOutputFileName ''variables'' [] (flag_projectID g) False (recursive g)"
  let ?tr2 = "tr @ [?get, Saved ?file (JArray records), Printed (SuccessfullySaved ?file),
      Printed (MigratingProject (flag_projectID g) (destinationProjectID g))]"
  let ?tr' = "createVariablesForProject env config g (destinationProjectID g) records ?tr2
      @ [Printed MigrationCompleted]"
  have u: "(if isDestination g
            then DestinationBaseURL config @ ''/api/v4/projects/'' @ flag_projectID g
                 @ ''/variables''
            else SourceBaseURL config @ ''/api/v4/projects/'' @ flag_projectID g
                 @ ''/variables'') = project_variables_url config g"
    by (simp add: project_variables_url_def base_of_def)
  have t: "(if isDestination g then DestinationAccessToken config else SourceAccessToken config) =
      token_of config (\<not> isDestination g)"
    by (simp add: token_of_def)
  have source: "source_variables env config g tr = (Inr (JArray records), tr @ [?get])"
    using urls(1) answer records(1)
    by (simp add: source_variables_def g getVariablesForProject_def Let_def u t get_listing_eq
        ok_page_def)
  have enc: "encodable (JArray records)"
    using records(2) by simp
  have save: "saveOutputToFile env (JArray records) ?file (tr @ [?get]) =
      (True, tr @ [?get, Saved ?file (JArray records), Printed (SuccessfullySaved ?file)])"
    using env(3) enc by (simp add: saveOutputToFile_def)
  have run: "migrateVariablesCmd_Run env g tr = Some (Returned, ?tr')"
    using records(1)
    by (simp add: migrateVariablesCmd_Run_def g env source save create_in_destination_def)
  have sent: "sent_of ?tr' =
      sent_of tr
      @ (skip_verify_client,
         get_request (project_variables_url config g) (token_of config (\<not> isDestination g)))
      # map (\<lambda>v. (skip_verify_client,
                  create_request Project config g (destinationProjectID g) v)) records"
    using createVariables_loop_returns_sent [OF urls(2) records(2)]
      createVariablesFor_loop [of Project env config g "destinationProjectID g" records ?tr2]
    by (simp add: createVariablesFor_def create_request_def)
  from run sent show ?thesis by blast
qed

lemma recursive_entry_bodies:
  assumes "findProjectIDByExactName destProjects name = Inr destProjectID"
    and "destProjectID \<noteq> 0"
    and "url_parses env (variables_url Project config g (FormatInt destProjectID))"
    and "list_all is_map vars" and "list_all encodable vars"
  shows "bodies_of (snd (migrate_projects env config g destProjects
           [(sourceProjectID,
             JObject [(''project_name'', JString name), (''variables'', JArray vars)])] tr)) =
     bodies_of tr @ map Some vars"
  using assms createVariables_loop_returns_sent [OF assms(3) assms(5)]
    createVariablesFor_loop [of Project env config g "FormatInt destProjectID" vars
      "tr @ [Printed (MigratingVariablesFor name destProjectID)]"]
  by (simp add: createVariablesFor_def bodies_of_def api_request_def comp_def)

lemma map_assign_fresh: "k \<notin> fst ` set m \<Longrightarrow> map_assign m k v = m @ [(k, v)]"
  by (induction m) auto

lemma source_listing_ok:
  assumes "url_parses env (source_variables_url sc config g ident)"
    and "respond env (nsent tr) skip_verify_client
      (get_request (source_variables_url sc config g ident)
         (token_of config (\<not> isDestination g))) = ok_page xs"
    and "list_all is_map xs"
  shows "(case sc of Project \<Rightarrow> getVariablesForProject | Group \<Rightarrow> getVariablesForGroup)
           env config g ident tr =
     (JArray xs, tr @ [Sent skip_verify_client
        (get_request (source_variables_url sc config g ident)
           (token_of config (\<not> isDestination g)))])"
proof -
  have t: "(if isDestination g then DestinationAccessToken config else SourceAccessToken config) =
      token_of config (\<not> isDestination g)"
    by (simp add: token_of_def)
  show ?thesis
  proof (cases sc)
    case Project
    have u: "(if isDestination g
            then DestinationBaseURL config @ ''/api/v4/projects/'' @ ident @ ''/variables''
            else SourceBaseURL config @ ''/api/v4/projects/'' @ ident @ ''/variables'') =
        source_variables_url Project config g ident"
      by (simp add: source_variables_url_def base_of_def)
    from assms show ?thesis
      unfolding Project
      by (simp add: getVariablesForProject_def Let_def u t get_listing_eq ok_page_def)
  next
    case Group
    have u: "(if isDestination g
            then DestinationBaseURL config @ ''/api/v4/groups/'' @ ident @ ''/variables''
            else SourceBaseURL config @ ''/api/v4/groups/'' @ ident @ ''/variables'') =
        source_variables_url Group config g ident"
      by (simp add: source_variables_url_def base_of_def)
    from assms show ?thesis
      unfolding Group
      by (simp add: getVariablesForGroup_def Let_def u t get_listing_eq ok_page_def)
  qed
qed

lemma getProjectsForGroup_ok:
  assumes "url_parses env (group_projects_url config g groupID)"
    and "respond env (nsent tr) skip_verify_client
      (get_request (group_projects_url config g groupID)
         (token_of config (\<not> isDestination g))) = ok_page xs"
    and "list_all is_map xs"
  shows "getProjectsForGroup env config g groupID tr =
     (JArray xs, tr @ [Sent skip_verify_client
        (get_request (group_projects_url config g groupID)
           (token_of config (\<not> isDestination g)))])"
proof -
  have u: "(if isDestination g
            then DestinationBaseURL config @ ''/api/v4/groups/'' @ groupID @ ''/projects''
            else SourceBaseURL config @ ''/api/v4/groups/'' @ groupID @ ''/projects'') =
      group_projects_url config g groupID"
    by (simp add: group_projects_url_def base_of_def)
  have t: "(if isDestination g then DestinationAccessToken config else SourceAccessToken config) =
      token_of config (\<not> isDestination g)"
    by (simp add: token_of_def)
  from assms show ?thesis
    by (simp add: getProjectsForGroup_def Let_def u t get_listing_eq ok_page_def)
qed

lemma getAllVariables_loop_run:
  assumes "project_records (map fst srcs)"
    and "distinct (map fst acc @ map (\<lambda>s. source_key (fst s)) srcs)"
    and "\<forall>k<length srcs.
       url_parses env (source_variables_url Project config g (source_key (fst (srcs ! k))))
       \<and> respond env (nsent tr + k) skip_verify_client
           (get_request (source_variables_url Project config g (source_key (fst (srcs ! k))))
              (token_of config (\<not> isDestination g))) = ok_page (snd (srcs ! k))
       \<and> list_all is_map (snd (srcs ! k))"
  shows "getAllVariables_loop env config g (map fst srcs) acc tr =
     (Inr (acc @ map stored_entry srcs),
      tr @ map (\<lambda>s. Sent skip_verify_client
                 (get_request (source_variables_url Project config g (source_key (fst s)))
                    (token_of config (\<not> isDestination g)))) srcs)"
  using assms
proof (induction srcs arbitrary: acc tr)
  case Nil
  then show ?case by simp
next
  case (Cons s srcs)
  obtain project vars where s: "s = (project, vars)"
    by (cases s)
  from Cons.prems(1) obtain x name where x: "at_key project ''id'' = JNumber x"
    and name: "at_key project ''name'' = JString name"
    unfolding s project_records_def
    by (cases "at_key project ''id''"; cases "at_key project ''name''") simp_all
  let ?key = "FormatInt (int64_of_float64 (math_Round x))"
  let ?get = "Sent skip_verify_client
      (get_request (source_variables_url Project config g ?key)
         (token_of config (\<not> isDestination g)))"
  have key: "source_key project = ?key" and nm: "source_name project = name"
    by (simp_all add: source_key_def source_name_def x name)
  from Cons.prems(3) [rule_format, of 0]
  have fetch: "getVariablesForProject env config g ?key tr = (JArray vars, tr @ [?get])"
    using source_listing_ok [where sc = Project and env = env and config = config and g = g
        and ident = ?key and tr = tr and xs = vars]
    by (simp add: s key)
  from Cons.prems(2) have fresh: "?key \<notin> fst ` set acc"
    by (auto simp add: s key)
  have entry: "stored_entry s =
      (?key, JObject [(''project_name'', JString name), (''variables'', JArray vars)])"
    by (simp add: stored_entry_def s key nm)
  have d: "distinct (map fst (acc @ [stored_entry s]) @ map (\<lambda>s. source_key (fst s)) srcs)"
    using Cons.prems(2) by (auto simp add: stored_entry_def s key)
  have rest: "\<forall>k<length srcs.
       url_parses env (source_variables_url Project config g (source_key (fst (srcs ! k))))
       \<and> respond env (nsent (tr @ [?get]) + k) skip_verify_client
           (get_request (source_variables_url Project config g (source_key (fst (srcs ! k))))
              (token_of config (\<not> isDestination g))) = ok_page (snd (srcs ! k))
       \<and> list_all is_map (snd (srcs ! k))"
  proof (intro allI impI)
    fix k assume "k < length srcs"
    with Cons.prems(3) [rule_format, of "Suc k"]
    show "url_parses env (source_variables_url Project config g (source_key (fst (srcs ! k))))
       \<and> respond env (nsent (tr @ [?get]) + k) skip_verify_client
           (get_request (source_variables_url Project config g (source_key (fst (srcs ! k))))
              (token_of config (\<not> isDestination g))) = ok_page (snd (srcs ! k))
       \<and> list_all is_map (snd (srcs ! k))"
      by simp
  qed
  from Cons.prems(1) have recs: "project_records (map fst srcs)"
    by (simp add: project_records_def)
  have "getAllVariables_loop env config g (map fst (s # srcs)) acc tr =
      getAllVariables_loop env config g (map fst srcs) (acc @ [stored_entry s]) (tr @ [?get])"
    using fetch by (simp add: s x name Let_def map_assign_fresh [OF fresh] entry [unfolded s])
  also have "\<dots> = (Inr ((acc @ [stored_entry s]) @ map stored_entry srcs),
      (tr @ [?get]) @ map (\<lambda>s. Sent skip_verify_client
                 (get_request (source_variables_url Project config g (source_key (fst s)))
                    (token_of config (\<not> isDestination g)))) srcs)"
    by (rule Cons.IH [OF recs d rest])
  finally show ?case
    by (simp add: s key)
qed


lemma sent_of_map_Sent: "sent_of (map (\<lambda>x. Sent c (rq x)) xs) = map (\<lambda>x. (c, rq x)) xs"
  by (induction xs) simp_all

lemma bodies_of_gets:
  "bodies_of (map (\<lambda>x. Sent c (get_request (url x) tok)) xs) = replicate (length xs) None"
  by (simp add: bodies_of_def sent_of_map_Sent comp_def get_request_def map_replicate_const)

lemma bodies_of_simps [simp]:
  "bodies_of [] = []"
  "bodies_of (Sent c rq # tr) = req_body rq # bodies_of tr"
  "bodies_of (Printed m # tr) = bodies_of tr"
  "bodies_of (Slept n # tr) = bodies_of tr"
  "bodies_of (Saved f d # tr) = bodies_of tr"
  by (simp_all add: bodies_of_def)

lemma project_records_maps: "project_records ps \<Longrightarrow> list_all is_map ps"
proof (induction ps)
  case Nil
  then show ?case by simp
next
  case (Cons p ps)
  then have "as_string (at_key p ''name'') \<noteq> None" and "project_records ps"
    by (simp_all add: project_records_def)
  then show ?case
    using Cons.IH by (cases p) simp_all
qed

lemma migrate_projects_bodies:
  assumes dest: "project_records destProjects"
    and urls: "\<forall>d. url_parses env (variables_url Project config g (FormatInt d))"
    and vars: "\<forall>s\<in>set visited. list_all is_map (snd s) \<and> list_all encodable (snd s)"
  shows "bodies_of (snd (migrate_projects env config g destProjects
                          (map stored_entry visited) tr)) =
     bodies_of tr @ concat (map (replayed destProjects) visited)"
  using vars
proof (induction visited arbitrary: tr)
  case Nil
  then show ?case by simp
next
  case (Cons s rest)
  let ?entry = "(source_key (fst s),
      JObject [(''project_name'', JString (source_name (fst s))),
               (''variables'', JArray (snd s))])"
  from Cons.prems have s: "list_all is_map (snd s)" "list_all encodable (snd s)"
    and rest: "\<forall>s\<in>set rest. list_all is_map (snd s) \<and> list_all encodable (snd s)"
    by simp_all
  from findProjectIDByExactName_total [OF dest]
  obtain d where d: "findProjectIDByExactName destProjects (source_name (fst s)) = Inr d"
    by blast
  obtain t where one: "migrate_projects env config g destProjects [?entry] tr = (Returned, t)"
    using migrate_projects_returns [OF dest, of env config g "[?entry]" tr]
    by (cases "migrate_projects env config g destProjects [?entry] tr") simp
  have t: "bodies_of t = bodies_of tr @ replayed destProjects s"
  proof (cases "d = 0")
    case True
    with d one show ?thesis
      by (auto simp add: replayed_def)
  next
    case False
    from recursive_entry_bodies [OF d False urls [rule_format] s,
        of "source_key (fst s)" tr] one d False
    show ?thesis
      by (simp add: replayed_def)
  qed
  have "migrate_projects env config g destProjects (map stored_entry (s # rest)) tr =
      migrate_projects env config g destProjects (map stored_entry rest) t"
    using migrate_projects_append [of env config g destProjects "[?entry]"
        "map stored_entry rest" tr] one
    by (simp add: stored_entry_def)
  then show ?case
    using Cons.IH [OF rest, of t] t by simp
qed

lemma stored_entries_encodable:
  "\<forall>s\<in>set srcs. list_all encodable (snd s) \<Longrightarrow>
   encodable (JObject (map stored_entry srcs))"
  by (induction srcs) (simp_all add: stored_entry_def)

lemma recursive_mode_run:
  assumes g: "flag_groupID g \<noteq> []" "recursive g" "destinationGroupID g \<noteq> []"
    and env: "loadConfig env = Some config" "EnsureDataDir env"
      "file_writable env
         (GenerateOutputFileName ''variables'' (flag_groupID g) (flag_projectID g) False True)"
    and listing: "url_parses env (group_projects_url config g (flag_groupID g))"
      "respond env (nsent tr) skip_verify_client
         (get_request (group_projects_url config g (flag_groupID g))
            (token_of config (\<not> isDestination g))) = ok_page (map fst srcs)"
      "project_records (map fst srcs)"
      "distinct (map (\<lambda>s. source_key (fst s)) srcs)"
    and fetch: "\<forall>k<length srcs.
       url_parses env (source_variables_url Project config g (source_key (fst (srcs ! k))))
       \<and> respond env (nsent tr + 1 + k) skip_verify_client
           (get_request (source_variables_url Project config g (source_key (fst (srcs ! k))))
              (token_of config (\<not> isDestination g))) = ok_page (snd (srcs ! k))"
    and records: "\<forall>s\<in>set srcs. list_all is_map (snd s) \<and> list_all encodable (snd s)"
    and pages: "\<forall>p\<in>set pages. p \<noteq> [] \<and> list_all is_map p" "project_records (concat pages)"
    and dest_urls: "\<forall>i\<le>length pages. url_parses env
         (projects_page_url (base_of config (isSource g)) (destinationGroupID g) (1 + i))"
    and answers: "\<forall>i\<le>length pages.
       respond env (nsent tr + 1 + length srcs + i) skip_verify_client
         (get_request (projects_page_url (base_of config (isSource g)) (destinationGroupID g)
                         (1 + i))
            (token_of config (isSource g)))
       = ok_page ((pages @ [[]]) ! i)"
    and order: "range_order env (map stored_entry srcs) = map stored_entry visited"
      "set visited \<subseteq> set srcs"
    and create_urls: "\<forall>d. url_parses env (variables_url Project config g (FormatInt d))"
  shows "\<exists>tr'. migrateVariablesCmd_Run env g tr = Some (Returned, tr')
      \<and> bodies_of tr' =
          bodies_of tr @ replicate (length srcs + length pages + 2) None
          @ concat (map (replayed (concat pages)) visited)"
proof -
  let ?tok = "token_of config (\<not> isDestination g)"
  let ?list = "Sent skip_verify_client
      (get_request (group_projects_url config g (flag_groupID g)) ?tok)"
  let ?gets = "map (\<lambda>s. Sent skip_verify_client
      (get_request (source_variables_url Project config g (source_key (fst s))) ?tok)) srcs"
  let ?file = "GenerateOutputFileName ''variables'' (flag_groupID g) (flag_projectID g) False True"
  let ?stored = "JObject (map stored_entry srcs)"
  let ?tr1 = "tr @ ?list # ?gets"
  let ?tr2 = "?tr1 @ [Saved ?file ?stored, Printed (SuccessfullySaved ?file),
      Printed (MigratingRecursively (flag_groupID g) (destinationGroupID g))]"
  let ?pages = "map (\<lambda>n. Sent skip_verify_client
      (get_request (projects_page_url (base_of config (isSource g)) (destinationGroupID g) n)
         (token_of config (isSource g)))) [1..<1 + length pages + 1]"
  let ?tr3 = "?tr2 @ ?pages"
  have projects: "getProjectsForGroup env config g (flag_groupID g) tr =
      (JArray (map fst srcs), tr @ [?list])"
    using getProjectsForGroup_ok [OF listing(1,2) project_records_maps [OF listing(3)]] .
  have loop: "getAllVariables_loop env config g (map fst srcs) [] (tr @ [?list]) =
      (Inr ([] @ map stored_entry srcs), (tr @ [?list]) @ ?gets)"
  proof (rule getAllVariables_loop_run [OF listing(3)])
    show "distinct (map fst [] @ map (\<lambda>s. source_key (fst s)) srcs)"
      using listing(4) by simp
    show "\<forall>k<length srcs.
       url_parses env (source_variables_url Project config g (source_key (fst (srcs ! k))))
       \<and> respond env (nsent (tr @ [?list]) + k) skip_verify_client
           (get_request (source_variables_url Project config g (source_key (fst (srcs ! k))))
              ?tok) = ok_page (snd (srcs ! k))
       \<and> list_all is_map (snd (srcs ! k))"
      using fetch records by (simp add: add.commute add.left_commute)
  qed
  have source: "source_variables env config g tr = (Inr ?stored, ?tr1)"
    using projects loop
    by (simp add: source_variables_def g getAllVariablesForGroupProjects_def)
  have enc: "encodable ?stored"
    using records by (intro stored_entries_encodable) simp
  have save: "saveOutputToFile env ?stored ?file ?tr1 =
      (True, ?tr1 @ [Saved ?file ?stored, Printed (SuccessfullySaved ?file)])"
    using env(3) enc by (simp add: saveOutputToFile_def)
  have n2: "nsent ?tr2 = nsent tr + 1 + length srcs"
    by (simp add: nsent_def sent_of_map_Sent)
  have dest: "fetchAllProjects env config g ?tr2 = Some (Inr (concat pages), ?tr3)"
  proof (rule fetchAllProjects_pages [OF pages(1) dest_urls])
    show "\<forall>i\<le>length pages.
       respond env (nsent ?tr2 + i) skip_verify_client
         (get_request (projects_page_url (base_of config (isSource g)) (destinationGroupID g)
                         (1 + i))
            (token_of config (isSource g)))
       = ok_page ((pages @ [[]]) ! i)"
      unfolding n2 using answers .
  qed
  obtain t where loop2: "migrate_projects env config g (concat pages)
      (map stored_entry visited) ?tr3 = (Returned, t)"
    using migrate_projects_returns [OF pages(2), of env config g "map stored_entry visited" ?tr3]
    by (cases "migrate_projects env config g (concat pages) (map stored_entry visited) ?tr3")
      simp
  have vis: "\<forall>s\<in>set visited. list_all is_map (snd s) \<and> list_all encodable (snd s)"
    using records order(2) by blast
  have b1: "bodies_of ?gets = replicate (length srcs) None"
    by (rule bodies_of_gets)
  have b2: "bodies_of ?pages = replicate (length pages + 1) None"
  proof -
    have "bodies_of ?pages = replicate (length [1..<1 + length pages + 1]) None"
      by (rule bodies_of_gets)
    also have "length [1..<1 + length pages + 1] = length pages + 1"
      by (simp del: upt_Suc)
    finally show ?thesis .
  qed
  have "bodies_of ?tr3 =
      bodies_of tr @ None # replicate (length srcs) None @ replicate (length pages + 1) None"
    unfolding bodies_of_append bodies_of_simps b1 b2 by (simp add: get_request_def)
  also have "None # replicate (length srcs) None @ replicate (length pages + 1) None =
      replicate (length srcs + length pages + 2) (None :: json option)"
    by (simp add: replicate_add [symmetric] del: replicate_add replicate_Suc
        add: replicate_Suc [symmetric])
  finally have b3: "bodies_of ?tr3 =
      bodies_of tr @ replicate (length srcs + length pages + 2) None" .
  have bt: "bodies_of t = bodies_of ?tr3 @ concat (map (replayed (concat pages)) visited)"
    using migrate_projects_bodies [OF pages(2) create_urls vis, of ?tr3] loop2 by simp
  have run: "migrateVariablesCmd_Run env g tr = Some (Returned, t @ [Printed MigrationCompleted])"
    using g(1,3) dest loop2
    by (simp add: migrateVariablesCmd_Run_def env source g(2) save create_in_destination_def
        order(1))
  have "bodies_of (t @ [Printed MigrationCompleted]) = bodies_of t"
    by simp
  also have "\<dots> = bodies_of ?tr3 @ concat (map (replayed (concat pages)) visited)"
    by (rule bt)
  also have "\<dots> = (bodies_of tr @ replicate (length srcs + length pages + 2) None)
      @ concat (map (replayed (concat pages)) visited)"
    by (simp only: b3)
  finally have "bodies_of (t @ [Printed MigrationCompleted]) =
      bodies_of tr @ replicate (length srcs + length pages + 2) None
      @ concat (map (replayed (concat pages)) visited)"
    by (simp only: append_assoc)
  with run show ?thesis by blast
qed


lemma group_mode_run:
  assumes g: "flag_groupID g \<noteq> []" "\<not> recursive g" "destinationGroupID g \<noteq> []"
    and env: "loadConfig env = Some config" "EnsureDataDir env"
      "file_writable env
         (GenerateOutputFileName ''variables'' (flag_groupID g) (flag_projectID g) False False)"
    and urls: "url_parses env (source_variables_url Group config g (flag_groupID g))"
      "url_parses env (variables_url Group config g (destinationGroupID g))"
    and answer: "respond env (nsent tr) skip_verify_client
      (get_request (source_variables_url Group config g (flag_groupID g))
         (token_of config (\<not> isDestination g))) = ok_page records"
    and records: "list_all is_map records" "list_all encodable records"
  shows "\<exists>tr'. migrateVariablesCmd_Run env g tr = Some (Returned, tr')
      \<and> bodies_of tr' = bodies_of tr @ None # map Some records"
proof -
  let ?get = "Sent skip_verify_client
      (get_request (source_variables_url Group config g (flag_groupID g))
         (token_of config (\<not> isDestination g)))"
  let ?file = "GenerateOutputFileName ''variables'' (flag_groupID g) (flag_projectID g) False False"
  let ?tr2 = "tr @ [?get, Saved ?file (JArray records), Printed (SuccessfullySaved ?file),
      Printed (MigratingGroup (flag_groupID g) (destinationGroupID g))]"
  let ?tr' = "createVariablesForGroup env config g (destinationGroupID g) records ?tr2
      @ [Printed MigrationCompleted]"
  have listing: "getVariablesForGroup env config g (flag_groupID g) tr =
      (JArray records, tr @ [?get])"
    using source_listing_ok [where sc = Group, OF urls(1) answer records(1)] by simp
  have source: "source_variables env config g tr = (Inr (JArray records), tr @ [?get])"
    using listing by (simp add: source_variables_def g)
  have enc: "encodable (JArray records)"
    using records(2) by simp
  have save: "saveOutputToFile env (JArray records) ?file (tr @ [?get]) =
      (True, tr @ [?get, Saved ?file (JArray records), Printed (SuccessfullySaved ?file)])"
    using env(3) enc by (simp add: saveOutputToFile_def)
  have run: "migrateVariablesCmd_Run env g tr = Some (Returned, ?tr')"
    using records(1) g(1,3)
    by (simp add: migrateVariablesCmd_Run_def g(2) env source save create_in_destination_def)
  have "sent_of ?tr' =
      sent_of tr
      @ (skip_verify_client,
         get_request (source_variables_url Group config g (flag_groupID g))
           (token_of config (\<not> isDestination g)))
      # map (\<lambda>v. (skip_verify_client,
                  create_request Group config g (destinationGroupID g) v)) records"
    using createVariables_loop_returns_sent [OF urls(2) records(2)]
      createVariablesFor_loop [of Group env config g "destinationGroupID g" records ?tr2]
    by (simp add: createVariablesFor_def create_request_def)
  then have "bodies_of ?tr' = bodies_of tr @ None # map Some records"
    unfolding bodies_of_def
    by (simp add: get_request_def create_request_def api_request_def comp_def)
  with run show ?thesis by blast
qed

text \<open>
  C6. In each of the three modes of the variables migration, when the source answers the
  listing requests with variable records, the bodies of the creation requests of the run
  are these records themselves, in order, so with the same field names (and values), and
  nothing else is sent with a body.

  From one project to another, and from one group to another: the source answers the one
  listing request with \<open>records\<close>, and the run sends one creation request per record.

  From the projects of a group to the projects of another, by name: the source answers
  the listing of the group with the project records \<open>map fst srcs\<close>, whose keys are
  distinct, and the request for the variables of the \<open>k\<close>-th project with the records
  \<open>snd (srcs ! k)\<close>; each answer is stored under the key of its project, the destination
  is listed in the pages \<open>pages\<close>, and the loop visits the stored entries in the order
  \<open>visited\<close>. The run sends, for each visited project in turn that has a project of its
  name in the destination, one creation request per record of that project.

  A request body is represented by the document it encodes, and a response body by the
  document it decodes to: what \<^verbatim>\<open>encoding/json\<close> does to the bytes is not part of the
  model.
\<close>

theorem variable_records_replayed_verbatim:
  "(flag_groupID g = [] \<longrightarrow> flag_projectID g \<noteq> [] \<longrightarrow> destinationProjectID g \<noteq> [] \<longrightarrow>
    loadConfig env = Some config \<longrightarrow> EnsureDataDir env \<longrightarrow>
    file_writable env
      (GenerateOutputFileName ''variables'' [] (flag_projectID g) False (recursive g)) \<longrightarrow>
    url_parses env (project_variables_url config g) \<longrightarrow>
    url_parses env (variables_url Project config g (destinationProjectID g)) \<longrightarrow>
    respond env (nsent tr) skip_verify_client
      (get_request (project_variables_url config g) (token_of config (\<not> isDestination g)))
      = ok_page records \<longrightarrow>
    list_all is_map records \<longrightarrow> list_all encodable records \<longrightarrow>
    (\<exists>tr'. migrateVariablesCmd_Run env g tr = Some (Returned, tr')
       \<and> bodies_of tr' = bodies_of tr @ None # map Some records
       \<and> map (map_option field_names) (bodies_of tr') =
           map (map_option field_names) (bodies_of tr)
           @ None # map (\<lambda>v. Some (field_names v)) records))
   \<and> (flag_groupID g \<noteq> [] \<longrightarrow> \<not> recursive g \<longrightarrow> destinationGroupID g \<noteq> [] \<longrightarrow>
    loadConfig env = Some config \<longrightarrow> EnsureDataDir env \<longrightarrow>
    file_writable env
      (GenerateOutputFileName ''variables'' (flag_groupID g) (flag_projectID g) False False) \<longrightarrow>
    url_parses env (source_variables_url Group config g (flag_groupID g)) \<longrightarrow>
    url_parses env (variables_url Group config g (destinationGroupID g)) \<longrightarrow>
    respond env (nsent tr) skip_verify_client
      (get_request (source_variables_url Group config g (flag_groupID g))
         (token_of config (\<not> isDestination g)))
      = ok_page records \<longrightarrow>
    list_all is_map records \<longrightarrow> list_all encodable records \<longrightarrow>
    (\<exists>tr'. migrateVariablesCmd_Run env g tr = Some (Returned, tr')
       \<and> bodies_of tr' = bodies_of tr @ None # map Some records
       \<and> map (map_option field_names) (bodies_of tr') =
           map (map_option field_names) (bodies_of tr)
           @ None # map (\<lambda>v. Some (field_names v)) records))
   \<and> (flag_groupID g \<noteq> [] \<longrightarrow> recursive g \<longrightarrow> destinationGroupID g \<noteq> [] \<longrightarrow>
    loadConfig env = Some config \<longrightarrow> EnsureDataDir env \<longrightarrow>
    file_writable env
      (GenerateOutputFileName ''variables'' (flag_groupID g) (flag_projectID g) False True) \<longrightarrow>
    url_parses env (group_projects_url config g (flag_groupID g)) \<longrightarrow>
    respond env (nsent tr) skip_verify_client
      (get_request (group_projects_url config g (flag_groupID g))
         (token_of config (\<not> isDestination g)))
      = ok_page (map fst srcs) \<longrightarrow>
    project_records (map fst srcs) \<longrightarrow>
    distinct (map (\<lambda>s. source_key (fst s)) srcs) \<longrightarrow>
    (\<forall>k<length srcs.
       url_parses env (source_variables_url Project config g (source_key (fst (srcs ! k))))
       \<and> respond env (nsent tr + 1 + k) skip_verify_client
           (get_request (source_variables_url Project config g (source_key (fst (srcs ! k))))
              (token_of config (\<not> isDestination g))) = ok_page (snd (srcs ! k))) \<longrightarrow>
    (\<forall>s\<in>set srcs. list_all is_map (snd s) \<and> list_all encodable (snd s)) \<longrightarrow>
    (\<forall>p\<in>set pages. p \<noteq> [] \<and> list_all is_map p) \<longrightarrow>
    project_records (concat pages) \<longrightarrow>
    (\<forall>i\<le>length pages. url_parses env
       (projects_page_url (base_of config (isSource g)) (destinationGroupID g) (1 + i))) \<longrightarrow>
    (\<forall>i\<le>length pages.
       respond env (nsent tr + 1 + length srcs + i) skip_verify_client
         (get_request (projects_page_url (base_of config (isSource g)) (destinationGroupID g)
                         (1 + i))
            (token_of config (isSource g)))
       = ok_page ((pages @ [[]]) ! i)) \<longrightarrow>
    range_order env (map stored_entry srcs) = map stored_entry visited \<longrightarrow>
    set visited \<subseteq> set srcs \<longrightarrow>
    (\<forall>d. url_parses env (variables_url Project config g (FormatInt d))) \<longrightarrow>
    (\<exists>tr'. migrateVariablesCmd_Run env g tr = Some (Returned, tr')
       \<and> bodies_of tr' =
           bodies_of tr @ replicate (length srcs + length pages + 2) None
           @ concat (map (replayed (concat pages)) visited)))"
proof (intro conjI impI)
  assume g: "flag_groupID g = []" "flag_projectID g \<noteq> []" "destinationProjectID g \<noteq> []"
    and env: "loadConfig env = Some config" "EnsureDataDir env"
      "file_writable env
         (GenerateOutputFileName ''variables'' [] (flag_projectID g) False (recursive g))"
    and urls: "url_parses env (project_variables_url config g)"
      "url_parses env (variables_url Project config g (destinationProjectID g))"
    and answer: "respond env (nsent tr) skip_verify_client
      (get_request (project_variables_url config g) (token_of config (\<not> isDestination g)))
      = ok_page records"
    and records: "list_all is_map records" "list_all encodable records"
  from project_mode_run [OF g env urls answer records]
  obtain tr' where run: "migrateVariablesCmd_Run env g tr = Some (Returned, tr')"
    and sent: "sent_of tr' =
          sent_of tr
          @ (skip_verify_client,
             get_request (project_variables_url config g)
               (token_of config (\<not> isDestination g)))
          # map (\<lambda>v. (skip_verify_client,
                      create_request Project config g (destinationProjectID g) v)) records"
    by blast
  have bodies: "bodies_of tr' = bodies_of tr @ None # map Some records"
    unfolding bodies_of_def sent
    by (simp add: get_request_def create_request_def api_request_def comp_def)
  have "map (map_option field_names) (bodies_of tr') =
           map (map_option field_names) (bodies_of tr)
           @ None # map (\<lambda>v. Some (field_names v)) records"
    unfolding bodies by (simp add: comp_def)
  with run bodies
  show "\<exists>tr'. migrateVariablesCmd_Run env g tr = Some (Returned, tr')
       \<and> bodies_of tr' = bodies_of tr @ None # map Some records
       \<and> map (map_option field_names) (bodies_of tr') =
           map (map_option field_names) (bodies_of tr)
           @ None # map (\<lambda>v. Some (field_names v)) records"
    by blast
next
  assume g: "flag_groupID g \<noteq> []" "\<not> recursive g" "destinationGroupID g \<noteq> []"
    and env: "loadConfig env = Some config" "EnsureDataDir env"
      "file_writable env
         (GenerateOutputFileName ''variables'' (flag_groupID g) (flag_projectID g) False False)"
    and urls: "url_parses env (source_variables_url Group config g (flag_groupID g))"
      "url_parses env (variables_url Group config g (destinationGroupID g))"
    and answer: "respond env (nsent tr) skip_verify_client
      (get_request (source_variables_url Group config g (flag_groupID g))
         (token_of config (\<not> isDestination g))) = ok_page records"
    and records: "list_all is_map records" "list_all encodable records"
  from group_mode_run [OF g env urls answer records]
  obtain tr' where run: "migrateVariablesCmd_Run env g tr = Some (Returned, tr')"
    and bodies: "bodies_of tr' = bodies_of tr @ None # map Some records"
    by blast
  have "map (map_option field_names) (bodies_of tr') =
           map (map_option field_names) (bodies_of tr)
           @ None # map (\<lambda>v. Some (field_names v)) records"
    unfolding bodies by (simp add: comp_def)
  with run bodies
  show "\<exists>tr'. migrateVariablesCmd_Run env g tr = Some (Returned, tr')
       \<and> bodies_of tr' = bodies_of tr @ None # map Some records
       \<and> map (map_option field_names) (bodies_of tr') =
           map (map_option field_names) (bodies_of tr)
           @ None # map (\<lambda>v. Some (field_names v)) records"
    by blast
next
  assume "flag_groupID g \<noteq> []" "recursive g" "destinationGroupID g \<noteq> []"
    "loadConfig env = Some config" "EnsureDataDir env"
    "file_writable env
       (GenerateOutputFileName ''variables'' (flag_groupID g) (flag_projectID g) False True)"
    "url_parses env (group_projects_url config g (flag_groupID g))"
    "respond env (nsent tr) skip_verify_client
      (get_request (group_projects_url config g (flag_groupID g))
         (token_of config (\<not> isDestination g)))
      = ok_page (map fst srcs)"
    "project_records (map fst srcs)"
    "distinct (map (\<lambda>s. source_key (fst s)) srcs)"
    "\<forall>k<length srcs.
       url_parses env (source_variables_url Project config g (source_key (fst (srcs ! k))))
       \<and> respond env (nsent tr + 1 + k) skip_verify_client
           (get_request (source_variables_url Project config g (source_key (fst (srcs ! k))))
              (token_of config (\<not> isDestination g))) = ok_page (snd (srcs ! k))"
    "\<forall>s\<in>set srcs. list_all is_map (snd s) \<and> list_all encodable (snd s)"
    "\<forall>p\<in>set pages. p \<noteq> [] \<and> list_all is_map p"
    "project_records (concat pages)"
    "\<forall>i\<le>length pages. url_parses env
       (projects_page_url (base_of config (isSource g)) (destinationGroupID g) (1 + i))"
    "\<forall>i\<le>length pages.
       respond env (nsent tr + 1 + length srcs + i) skip_verify_client
         (get_request (projects_page_url (base_of config (isSource g)) (destinationGroupID g)
                         (1 + i))
            (token_of config (isSource g)))
       = ok_page ((pages @ [[]]) ! i)"
    "range_order env (map stored_entry srcs) = map stored_entry visited"
    "set visited \<subseteq> set srcs"
    "\<forall>d. url_parses env (variables_url Project config g (FormatInt d))"
  then show "\<exists>tr'. migrateVariablesCmd_Run env g tr = Some (Returned, tr')
       \<and> bodies_of tr' =
           bodies_of tr @ replicate (length srcs + length pages + 2) None
           @ concat (map (replayed (concat pages)) visited)"
    by (rule recursive_mode_run)
qed

text \<open>Two variables from project 3 to project 7 and from group 10 to group 20, and the
  variables of the projects A and B of group 10 to the projects of these names in group
  20.\<close>

theorem variable_records_replayed_witness:
  "migrateVariablesCmd_Run (lab project_script) project_flags [] = Some (Returned, project_run)
   \<and> bodies_of project_run = [None, Some (var_named ''X''), Some (var_named ''Y'')]
   \<and> (\<exists>tr'. migrateVariablesCmd_Run (lab project_script) group_flags [] = Some (Returned, tr')
        \<and> bodies_of tr' = [None, Some (var_named ''X''), Some (var_named ''Y'')])
   \<and> migrateVariablesCmd_Run (lab recursive_script) example_flags [] =
       Some (Returned, recursive_run)
   \<and> bodies_of recursive_run =
       [None, None, None, None, None, Some (var_named ''X''), Some (var_named ''Y'')]"
proof -
  have "\<exists>tr'. migrateVariablesCmd_Run (lab project_script) project_flags [] = Some (Returned, tr')
       \<and> bodies_of tr' = bodies_of [] @ None # map Some [var_named ''X'', var_named ''Y'']
       \<and> map (map_option field_names) (bodies_of tr') =
           map (map_option field_names) (bodies_of [])
           @ None # map (\<lambda>v. Some (field_names v)) [var_named ''X'', var_named ''Y'']"
    using variable_records_replayed_verbatim [where env = "lab project_script"
        and g = project_flags and config = example_config and tr = "[]"
        and records = "[var_named ''X'', var_named ''Y'']"]
    by (simp add: project_flags_def lab_def any_url_def any_file_def scripted_def
        project_script_def var_named_def)
  with project_run_eval
  have 1: "bodies_of project_run = [None, Some (var_named ''X''), Some (var_named ''Y'')]"
    by auto
  have "\<exists>tr'. migrateVariablesCmd_Run (lab project_script) group_flags [] = Some (Returned, tr')
       \<and> bodies_of tr' = bodies_of [] @ None # map Some [var_named ''X'', var_named ''Y'']
       \<and> map (map_option field_names) (bodies_of tr') =
           map (map_option field_names) (bodies_of [])
           @ None # map (\<lambda>v. Some (field_names v)) [var_named ''X'', var_named ''Y'']"
    using variable_records_replayed_verbatim [where env = "lab project_script"
        and g = group_flags and config = example_config and tr = "[]"
        and records = "[var_named ''X'', var_named ''Y'']"]
    by (simp add: group_flags_def lab_def any_url_def any_file_def scripted_def
        project_script_def var_named_def)
  then have 2: "\<exists>tr'. migrateVariablesCmd_Run (lab project_script) group_flags [] =
        Some (Returned, tr')
       \<and> bodies_of tr' = [None, Some (var_named ''X''), Some (var_named ''Y'')]"
    by auto
  let ?srcs = "[(project_named ''A'' 1, [var_named ''X'']),
                (project_named ''B'' 2, [var_named ''Y''])]"
  let ?pages = "[[project_named ''A'' 11, project_named ''B'' 12]]"
  have keys: "source_key (project_named ''A'' 1) = ''1''"
    "source_key (project_named ''B'' 2) = ''2''"
    by (simp_all add: source_key_def project_named_def int64_of_float64_numeral FormatInt_def
        decimal.simps digit_def)
  have listed: "project_records (map fst ?srcs)" "project_records (concat ?pages)"
    "\<forall>p\<in>set ?pages. p \<noteq> [] \<and> list_all is_map p"
    by (simp_all add: project_records_def project_named_def)
  have records: "\<forall>s\<in>set ?srcs. list_all is_map (snd s) \<and> list_all encodable (snd s)"
    by (simp add: var_named_def)
  have fetches: "\<forall>k<length ?srcs.
       url_parses (lab recursive_script)
         (source_variables_url Project example_config example_flags
            (source_key (fst (?srcs ! k))))
       \<and> respond (lab recursive_script) (nsent [] + 1 + k) skip_verify_client
           (get_request (source_variables_url Project example_config example_flags
                           (source_key (fst (?srcs ! k))))
              (token_of example_config (\<not> isDestination example_flags)))
           = ok_page (snd (?srcs ! k))"
    by (simp add: lab_def any_url_def scripted_def recursive_script_def less_Suc_eq)
  have answers: "\<forall>i\<le>length ?pages.
       respond (lab recursive_script) (nsent [] + 1 + length ?srcs + i) skip_verify_client
         (get_request (projects_page_url (base_of example_config (isSource example_flags))
                         (destinationGroupID example_flags) (1 + i))
            (token_of example_config (isSource example_flags)))
       = ok_page ((?pages @ [[]]) ! i)"
    by (simp add: lab_def scripted_def recursive_script_def le_Suc_eq)
  have surroundings: "loadConfig (lab recursive_script) = Some example_config"
    "EnsureDataDir (lab recursive_script)"
    "file_writable (lab recursive_script) f" "url_parses (lab recursive_script) u"
    "range_order (lab recursive_script) m = m" for f u m
    by (simp_all add: lab_def any_file_def any_url_def as_listed_def)
  have flags: "flag_groupID example_flags = ''10''" "recursive example_flags"
    "destinationGroupID example_flags = ''20''"
    by (simp_all add: example_flags_def)
  have first: "respond (lab recursive_script) (nsent []) skip_verify_client
      (get_request (group_projects_url example_config example_flags
                      (flag_groupID example_flags))
         (token_of example_config (\<not> isDestination example_flags)))
      = ok_page (map fst ?srcs)"
    by (simp add: lab_def scripted_def recursive_script_def)
  have replayed: "concat (map (replayed (concat ?pages)) ?srcs) =
      [Some (var_named ''X''), Some (var_named ''Y'')]"
    by (simp add: replayed_def source_name_def project_named_def int64_of_float64_numeral)
  have "\<exists>tr'. migrateVariablesCmd_Run (lab recursive_script) example_flags [] =
        Some (Returned, tr')
       \<and> bodies_of tr' =
           bodies_of [] @ replicate (length ?srcs + length ?pages + 2) None
           @ concat (map (replayed (concat ?pages)) ?srcs)"
    using variable_records_replayed_verbatim [where env = "lab recursive_script"
        and g = example_flags and config = example_config and tr = "[]"
        and srcs = ?srcs and pages = ?pages and visited = ?srcs]
      fetches answers listed records first
    by (simp add: surroundings flags keys)
  with recursive_run_eval replayed
  have 3: "bodies_of recursive_run =
       [None, None, None, None, None, Some (var_named ''X''), Some (var_named ''Y'')]"
    by (auto simp add: numeral_eq_Suc)
  from project_run_eval recursive_run_eval 1 2 3 show ?thesis by simp
qed

section \<open>Properties of the source listing\<close>

text \<open>
  C8 (the code departs from it). \<^verbatim>\<open>getProjectsForGroup\<close>, which lists the projects of
  the source group in the recursive mode, sends a single request, to the URL of the group's
  projects with no \<^verbatim>\<open>per_page\<close> and no \<^verbatim>\<open>page\<close> parameter, and its result is the
  records of that one answer: it does not go on to further pages.
\<close>

theorem getProjectsForGroup_single_request:
  "sent_of (snd (getProjectsForGroup env config g groupID tr)) =
     sent_of tr @
     (if url_parses env (group_projects_url config g groupID)
      then [(skip_verify_client,
             get_request (group_projects_url config g groupID)
               (token_of config (\<not> isDestination g)))]
      else [])
   \<and> (url_parses env (group_projects_url config g groupID) \<longrightarrow>
        respond env (nsent tr) skip_verify_client
          (get_request (group_projects_url config g groupID)
             (token_of config (\<not> isDestination g))) = ok_page xs \<longrightarrow>
        list_all is_map xs \<longrightarrow>
        fst (getProjectsForGroup env config g groupID tr) = JArray xs)"
proof -
  have u: "(if isDestination g
            then DestinationBaseURL config @ ''/api/v4/groups/'' @ groupID @ ''/projects''
            else SourceBaseURL config @ ''/api/v4/groups/'' @ groupID @ ''/projects'') =
      group_projects_url config g groupID"
    by (simp add: group_projects_url_def base_of_def)
  have t: "(if isDestination g then DestinationAccessToken config else SourceAccessToken config) =
      token_of config (\<not> isDestination g)"
    by (simp add: token_of_def)
  show ?thesis
    unfolding getProjectsForGroup_def Let_def u t
    by (simp add: get_listing_sent) (simp add: get_listing_eq ok_page_def)
qed

text \<open>A group whose listing has the pages of 100, 100 and 37 projects of the example for
  \<^verbatim>\<open>fetchAllProjects\<close>: the listing holds the first 100 only.\<close>

theorem getProjectsForGroup_first_page_only_witness:
  "getProjectsForGroup (lab four_answers) example_config example_flags ''10'' [] =
     (JArray (replicate 100 a_project),
      [Sent skip_verify_client
         (get_request ''https://src.example/api/v4/groups/10/projects'' ''s-token'')])
   \<and> length (replicate 100 a_project) < length (concat three_pages)"
proof -
  have g: "group_projects_url example_config example_flags ''10'' =
      ''https://src.example/api/v4/groups/10/projects''"
    by (simp add: group_projects_url_def base_of_def example_config_def example_flags_def)
  have t: "token_of example_config (\<not> isDestination example_flags) = ''s-token''"
    by (simp add: token_of_def example_config_def example_flags_def)
  have r: "respond (lab four_answers) (nsent []) skip_verify_client
      (get_request ''https://src.example/api/v4/groups/10/projects'' ''s-token'') =
      ok_page (replicate 100 a_project)"
    by (simp add: lab_def scripted_def four_answers_def three_pages_def)
  have m: "list_all is_map (replicate 100 a_project)"
    by (simp add: list_all_iff a_project_def)
  have p: "url_parses (lab four_answers) ''https://src.example/api/v4/groups/10/projects''"
    by (simp add: lab_def any_url_def)
  from getProjectsForGroup_single_request [of "lab four_answers" example_config example_flags
      "''10''" "[]" "replicate 100 a_project"] p r m
  have "fst (getProjectsForGroup (lab four_answers) example_config example_flags ''10'' []) =
      JArray (replicate 100 a_project)"
    and "sent_of (snd (getProjectsForGroup (lab four_answers) example_config example_flags
      ''10'' [])) = [(skip_verify_client,
        get_request ''https://src.example/api/v4/groups/10/projects'' ''s-token'')]"
    unfolding g t by simp_all
  moreover have "snd (getProjectsForGroup (lab four_answers) example_config example_flags
      ''10'' []) = [Sent skip_verify_client
         (get_request ''https://src.example/api/v4/groups/10/projects'' ''s-token'')]"
    using p r m g t
    by (simp add: getProjectsForGroup_def get_listing_eq ok_page_def group_projects_url_def
        base_of_def token_of_def example_config_def example_flags_def)
  moreover have "length (replicate 100 a_project) < length (concat three_pages)"
    by (simp add: three_pages_def)
  ultimately show ?thesis
    by (simp add: prod_eq_iff)
qed

section \<open>Properties of the clients\<close>

lemma skip_verify_client_insecure: "InsecureSkipVerify skip_verify_client"
  by (simp add: skip_verify_client_def CreateHTTPClient_def NewDefaultConfig_def)

lemma verified_calls_reads:
  "calls_of tr' = calls_of tr @ reads k \<Longrightarrow> verified_calls tr' = verified_calls tr"
  by (simp add: verified_calls_def reads_def skip_verify_client_insecure)

lemma verified_calls_writes:
  "calls_of tr' = calls_of tr @ writes k \<Longrightarrow> verified_calls tr' = verified_calls tr"
  by (simp add: verified_calls_def writes_def skip_verify_client_insecure)

lemma verified_calls_reads_writes:
  "calls_of tr' = calls_of tr @ reads k @ writes m \<Longrightarrow> verified_calls tr' = verified_calls tr"
  by (simp add: verified_calls_def reads_def writes_def skip_verify_client_insecure)

lemma makeGitLabAPIRequest_verified:
  "verified_calls (snd (makeGitLabAPIRequest env method url token payload tr)) = verified_calls tr"
  by (simp add: makeGitLabAPIRequest_eq verified_calls_def skip_verify_client_insecure)

lemma calls_of_retry_notice [simp]: "calls_of (retry_notice retry) = []"
  by (simp add: retry_notice_def)

lemma executeGitLabAPIRequest_loop_plain:
  "\<exists>k. calls_of (snd (executeGitLabAPIRequest_loop env baseURL token resource retry tr)) =
          calls_of tr @ plain_reads 30 k
        \<and> (retry < maxRetries \<longrightarrow> url_parses env (resource_url baseURL resource) \<longrightarrow> 0 < k)"
proof (induction "maxRetries - retry" arbitrary: retry tr)
  case 0
  then have "\<not> retry < maxRetries" by simp
  then have "calls_of (snd (executeGitLabAPIRequest_loop env baseURL token resource retry tr)) =
      calls_of tr @ plain_reads 30 0"
    by (subst executeGitLabAPIRequest_loop_unfold) (simp add: plain_reads_def)
  with \<open>\<not> retry < maxRetries\<close> show ?case by blast
next
  case (Suc n)
  then have lt: "retry < maxRetries" and n: "n = maxRetries - (retry + 1)"
    by simp_all
  let ?get = "Sent (http_Client 30) (get_request (resource_url baseURL resource) token)"
  have sent: "calls_of (t @ retry_notice retry @ [?get, Printed m]) =
      calls_of t @ plain_reads 30 1" for t m
    by (simp add: plain_reads_def get_request_def)
  have sent': "calls_of (t @ retry_notice retry @ [?get]) = calls_of t @ plain_reads 30 1" for t
    by (simp add: plain_reads_def get_request_def)
  have again: "\<exists>k. calls_of (snd (executeGitLabAPIRequest_loop env baseURL token resource
                                    (retry + 1) (tr @ retry_notice retry @ [?get, Printed m]))) =
          calls_of tr @ plain_reads 30 k \<and> 0 < k" for m
  proof -
    from Suc.hyps(1) [OF n, of "tr @ retry_notice retry @ [?get, Printed m]"]
    obtain k where "calls_of (snd (executeGitLabAPIRequest_loop env baseURL token resource
        (retry + 1) (tr @ retry_notice retry @ [?get, Printed m]))) =
        calls_of (tr @ retry_notice retry @ [?get, Printed m]) @ plain_reads 30 k"
      by blast
    then have "calls_of (snd (executeGitLabAPIRequest_loop env baseURL token resource
        (retry + 1) (tr @ retry_notice retry @ [?get, Printed m]))) =
        calls_of tr @ plain_reads 30 (Suc k)"
      unfolding sent by (simp add: plain_reads_def)
    then show ?thesis by blast
  qed
  show ?case
  proof (cases "url_parses env (resource_url baseURL resource)")
    case False
    from Suc.hyps(1) [OF n, of "tr @ retry_notice retry @ [Printed ErrorCreatingRequest]"]
    obtain k where "calls_of (snd (executeGitLabAPIRequest_loop env baseURL token resource
        (retry + 1) (tr @ retry_notice retry @ [Printed ErrorCreatingRequest]))) =
        calls_of tr @ plain_reads 30 k"
      by auto
    with False lt show ?thesis
      by (subst executeGitLabAPIRequest_loop_unfold) auto
  next
    case True
    show ?thesis
    proof (cases "respond env (nsent (tr @ retry_notice retry)) (http_Client 30)
                   (get_request (resource_url baseURL resource) token)")
      case TransportError
      with True lt again [of ErrorMakingRequest] show ?thesis
        by (subst executeGitLabAPIRequest_loop_unfold) auto
    next
      case (Response code b)
      show ?thesis
      proof (cases "code \<noteq> 200")
        case True
        from sent [of tr "APIRequestFailed code"]
        have "\<exists>k. calls_of (tr @ retry_notice retry @ [?get, Printed (APIRequestFailed code)]) =
            calls_of tr @ plain_reads 30 k \<and> 0 < k"
          by blast
        with True \<open>url_parses env (resource_url baseURL resource)\<close> lt Response
          again [of "APIRequestFailed code"]
        show ?thesis
          by (subst executeGitLabAPIRequest_loop_unfold) auto
      next
        case False
        from sent' [of tr]
        have "\<exists>k. calls_of (tr @ retry_notice retry @ [?get]) =
            calls_of tr @ plain_reads 30 k \<and> 0 < k"
          by blast
        with False \<open>url_parses env (resource_url baseURL resource)\<close> lt Response
          again [of ErrorDecodingResponse]
        show ?thesis
          by (subst executeGitLabAPIRequest_loop_unfold) (cases b; auto)
      qed
    qed
  qed
qed


lemma plain_reads_add: "plain_reads t j @ plain_reads t k = plain_reads t (j + k)"
  by (simp add: plain_reads_def replicate_add)

lemma plain_client_verifies: "\<not> InsecureSkipVerify (http_Client t)"
  by (simp add: http_Client_def)

lemma verified_calls_plain:
  "calls_of tr' = calls_of tr @ plain_reads t k \<Longrightarrow>
   verified_calls tr' = verified_calls tr @ plain_reads t k"
  by (simp add: verified_calls_def plain_reads_def plain_client_verifies)

lemma fetchGroupProjects_page_calls:
  "calls_of (snd (fetchGroupProjects_page env baseURL grp tok page tr)) =
     calls_of tr
     @ plain_reads 0 (if url_parses env (subgroups_page_url baseURL grp page) then 1 else 0)"
  by (simp add: fetchGroupProjects_page_def subgroups_page_url_def http_NewRequest_def
      header_Set_def client_Do_def plain_reads_def Let_def
      split: response.splits body.splits option.splits)

lemma page_loop_plain_aux:
  assumes run: "page_loop fetch page acc tr = Some y"
  shows "(\<forall>page tr. \<exists>k. calls_of (snd (fetch page tr)) = calls_of tr @ plain_reads t k) \<longrightarrow>
   (\<exists>k. calls_of (snd y) = calls_of tr @ plain_reads t k)"
proof (rule page_loop.raw_induct [where P = "\<lambda>fetch page acc tr y.
    (\<forall>page tr. \<exists>k. calls_of (snd (fetch page tr)) = calls_of tr @ plain_reads t k) \<longrightarrow>
    (\<exists>k. calls_of (snd y) = calls_of tr @ plain_reads t k)", OF _ run], goal_cases)
  case (1 loop fetch page acc tr y)
  show ?case
  proof
    assume fetch: "\<forall>page tr. \<exists>k. calls_of (snd (fetch page tr)) = calls_of tr @ plain_reads t k"
    obtain r tr' where f: "fetch page tr = (r, tr')"
      by (cases "fetch page tr")
    from fetch f obtain j where j: "calls_of tr' = calls_of tr @ plain_reads t j"
      by (metis snd_conv)
    show "\<exists>k. calls_of (snd y) = calls_of tr @ plain_reads t k"
    proof (cases r)
      case (Inl err)
      with 1(2) f have "y = (Inl err, tr')" by simp
      with j show ?thesis by auto
    next
      case (Inr projects)
      show ?thesis
      proof (cases "length projects = 0")
        case True
        with 1(2) f Inr have "y = (Inr acc, tr')" by simp
        with j show ?thesis by auto
      next
        case False
        with 1(2) f Inr have "loop fetch (page + 1) (acc @ projects) tr' = Some y" by simp
        from mp [OF 1(1) [OF this] fetch]
        obtain k where "calls_of (snd y) = calls_of tr' @ plain_reads t k" ..
        with j have "calls_of (snd y) = calls_of tr @ plain_reads t (j + k)"
          by (simp add: plain_reads_add)
        then show ?thesis ..
      qed
    qed
  qed
qed

lemma fetchGroupProjects_plain:
  assumes run: "fetchGroupProjects env config groupID fromSource tr = Some y"
  shows "\<exists>k. calls_of (snd y) = calls_of tr @ plain_reads 0 k
     \<and> (url_parses env (subgroups_page_url (base_of config fromSource) groupID 1) \<longrightarrow> 0 < k)"
proof -
  let ?fetch = "fetchGroupProjects_page env (base_of config fromSource) groupID
      (token_of config fromSource)"
  let ?j = "if url_parses env (subgroups_page_url (base_of config fromSource) groupID 1)
      then 1 else 0 :: nat"
  have pages: "\<forall>page tr. \<exists>k. calls_of (snd (?fetch page tr)) = calls_of tr @ plain_reads 0 k"
    using fetchGroupProjects_page_calls by blast
  from run have loop: "page_loop ?fetch 1 [] tr = Some y"
    by (simp add: fetchGroupProjects_def base_of_def token_of_def)
  obtain r tr' where f: "?fetch 1 tr = (r, tr')"
    by (cases "?fetch 1 tr")
  then have j: "calls_of tr' = calls_of tr @ plain_reads 0 ?j"
    using fetchGroupProjects_page_calls [of env "base_of config fromSource" groupID
        "token_of config fromSource" 1 tr]
    by simp
  have "\<exists>k. calls_of (snd y) = calls_of tr' @ plain_reads 0 k"
  proof (cases r)
    case (Inl err)
    with loop f have "y = (Inl err, tr')"
      by (subst (asm) page_loop.simps) simp
    then have "calls_of (snd y) = calls_of tr' @ plain_reads 0 0"
      by (simp add: plain_reads_def)
    then show ?thesis ..
  next
    case (Inr projects)
    show ?thesis
    proof (cases "length projects = 0")
      case True
      with loop f Inr have "y = (Inr [], tr')"
        by (subst (asm) page_loop.simps) simp
      then have "calls_of (snd y) = calls_of tr' @ plain_reads 0 0"
        by (simp add: plain_reads_def)
      then show ?thesis ..
    next
      case False
      with loop f Inr have "page_loop ?fetch (1 + 1) ([] @ projects) tr' = Some y"
        by (subst (asm) page_loop.simps) simp
      from mp [OF page_loop_plain_aux [OF this] pages] show ?thesis .
    qed
  qed
  then obtain k where "calls_of (snd y) = calls_of tr' @ plain_reads 0 k" ..
  with j have "calls_of (snd y) = calls_of tr @ plain_reads 0 (?j + k)"
    by (simp add: plain_reads_add)
  moreover have "url_parses env (subgroups_page_url (base_of config fromSource) groupID 1) \<longrightarrow>
      0 < ?j + k"
    by simp
  ultimately show ?thesis by blast
qed

lemma getProjectsCmd_Run_calls:
  "loadConfig env = Some config \<Longrightarrow>
   calls_of (getProjectsCmd_Run env g tr) =
     calls_of (snd (if flag_groupID g \<noteq> []
                    then getProjectsForGroup env config g (flag_groupID g) tr
                    else executeGitLabAPIRequest env (SourceBaseURL config)
                           (SourceAccessToken config) ''projects'' tr))"
  by (simp add: getProjectsCmd_Run_def saveOutputToFile_def Let_def split: prod.splits)

lemma getProjectsCmd_Run_calls_none:
  "loadConfig env = None \<Longrightarrow> calls_of (getProjectsCmd_Run env g tr) = calls_of tr"
  by (simp add: getProjectsCmd_Run_def)

lemma projects_file_name:
  "GenerateOutputFileName ''projects'' [] [] False False = ''data/s-gitlab_get_projects.json''"
  by (simp add: GenerateOutputFileName_def filepath_Join_def filepath_Clean_def)

lemma all_projects_eval:
  "getProjectsCmd_Run (lab [ok_page [a_project]]) all_projects_flags [] =
     [Sent (http_Client 30)
        (get_request ''https://src.example/api/v4/projects?per_page=100'' ''s-token''),
      Saved ''data/s-gitlab_get_projects.json'' (JArray [a_project]),
      Printed (SuccessfullySaved ''data/s-gitlab_get_projects.json'')]"
proof -
  have "executeGitLabAPIRequest (lab [ok_page [a_project]]) ''https://src.example''
      ''s-token'' ''projects'' [] =
      (JArray [a_project],
       [Sent (http_Client 30)
          (get_request ''https://src.example/api/v4/projects?per_page=100'' ''s-token'')])"
    unfolding executeGitLabAPIRequest_def
    by (subst executeGitLabAPIRequest_loop_unfold)
      (simp add: lab_def any_url_def scripted_def ok_page_def retry_notice_def maxRetries_def
        resource_url_def)
  then show ?thesis
    by (simp add: getProjectsCmd_Run_def all_projects_flags_def lab_def example_config_def
        projects_file_name saveOutputToFile_def any_file_def a_project_def Let_def)
qed

lemma mirror_listing_eval:
  "fetchGroupProjects (lab [ok_page []]) example_config ''10'' True [] =
     Some (Inr [],
       [Sent (http_Client 0) (get_request
          ''https://src.example/api/v4/groups/10/projects?per_page=100&page=1&include_subgroups=true''
          ''s-token'')])"
  unfolding fetchGroupProjects_def Let_def
  by (subst page_loop.simps)
    (simp add: fetchGroupProjects_page_def http_NewRequest_def lab_def any_url_def
      scripted_def client_Do_def header_Set_def ok_page_def get_request_def
      example_config_def decimal.simps digit_def)

text \<open>
  C10 (as amended). The default configuration keeps certificate verification on, and the
  client built from it with \<open>SkipTLSVerification\<close> set has verification off. None of the
  operations that build their client this way (the three single-request listings, the
  recursive listing of variables, the paginated listing of destination projects, a
  creation request and the two executors), and no run of the variables migration, sends a
  request through a client that verifies the certificate. The retried request of
  \<^verbatim>\<open>executeGitLabAPIRequest\<close> and the paginated listing of the mirror workflow,
  \<^verbatim>\<open>fetchGroupProjects\<close>, build a plain \<^verbatim>\<open>http.Client\<close> instead, which verifies the
  certificate: every request they send goes through it, and they send at least one when
  the URL parses. So the command that lists projects sends no verified request when a
  group is given, and sends verified requests only when none is.
\<close>

theorem only_configured_clients_skip_verification:
  "\<not> SkipTLSVerification NewDefaultConfig
   \<and> InsecureSkipVerify
       (CreateHTTPClient (Some (NewDefaultConfig\<lparr>SkipTLSVerification := True\<rparr>)))
   \<and> verified_calls (snd (getProjectsForGroup env config g ident tr)) = verified_calls tr
   \<and> verified_calls (snd (getVariablesForGroup env config g ident tr)) = verified_calls tr
   \<and> verified_calls (snd (getVariablesForProject env config g ident tr)) = verified_calls tr
   \<and> verified_calls (snd (getAllVariablesForGroupProjects env config g ident tr)) =
       verified_calls tr
   \<and> verified_calls (snd (makeGitLabAPIRequest env method url token payload tr)) =
       verified_calls tr
   \<and> verified_calls (createVariablesForProject env config g ident vars tr) = verified_calls tr
   \<and> verified_calls (createVariablesForGroup env config g ident vars tr) = verified_calls tr
   \<and> (fetchAllProjects env config g tr = Some y \<longrightarrow>
        verified_calls (snd y) = verified_calls tr)
   \<and> (migrateVariablesCmd_Run env g tr = Some z \<longrightarrow>
        verified_calls (snd z) = verified_calls tr)
   \<and> \<not> InsecureSkipVerify (http_Client t)
   \<and> (\<exists>k. calls_of (snd (executeGitLabAPIRequest env baseURL token resource tr)) =
             calls_of tr @ plain_reads 30 k
          \<and> verified_calls (snd (executeGitLabAPIRequest env baseURL token resource tr)) =
             verified_calls tr @ plain_reads 30 k
          \<and> (url_parses env (resource_url baseURL resource) \<longrightarrow> 0 < k))
   \<and> (fetchGroupProjects env config ident fromSource tr = Some w \<longrightarrow>
        (\<exists>k. calls_of (snd w) = calls_of tr @ plain_reads 0 k
           \<and> verified_calls (snd w) = verified_calls tr @ plain_reads 0 k
           \<and> (url_parses env (subgroups_page_url (base_of config fromSource) ident 1) \<longrightarrow>
                0 < k)))
   \<and> (flag_groupID g \<noteq> [] \<longrightarrow>
        verified_calls (getProjectsCmd_Run env g tr) = verified_calls tr)
   \<and> (flag_groupID g = [] \<longrightarrow> loadConfig env = Some config \<longrightarrow>
        url_parses env (resource_url (SourceBaseURL config) ''projects'') \<longrightarrow>
        (\<exists>k. 0 < k
           \<and> verified_calls (getProjectsCmd_Run env g tr) =
               verified_calls tr @ plain_reads 30 k))"
proof (intro conjI impI)
  show "\<not> SkipTLSVerification NewDefaultConfig"
    by (simp add: NewDefaultConfig_def)
  show "InsecureSkipVerify
       (CreateHTTPClient (Some (NewDefaultConfig\<lparr>SkipTLSVerification := True\<rparr>)))"
    using skip_verify_client_insecure by (simp add: skip_verify_client_def)
  show "verified_calls (snd (getProjectsForGroup env config g ident tr)) = verified_calls tr"
    using getProjectsForGroup_calls [of env config g ident tr] verified_calls_reads by blast
  show "verified_calls (snd (getVariablesForGroup env config g ident tr)) = verified_calls tr"
    using getVariablesForGroup_calls [of env config g ident tr] verified_calls_reads by blast
  show "verified_calls (snd (getVariablesForProject env config g ident tr)) = verified_calls tr"
    using getVariablesForProject_calls [of env config g ident tr] verified_calls_reads by blast
  show "verified_calls (snd (getAllVariablesForGroupProjects env config g ident tr)) =
       verified_calls tr"
    using getAllVariablesForGroupProjects_calls [of env config g ident tr] verified_calls_reads
    by blast
  show "verified_calls (snd (makeGitLabAPIRequest env method url token payload tr)) =
       verified_calls tr"
    by (rule makeGitLabAPIRequest_verified)
  show "verified_calls (createVariablesForProject env config g ident vars tr) = verified_calls tr"
    using createVariablesForProject_calls [of env config g ident vars tr] verified_calls_writes
    by blast
  show "verified_calls (createVariablesForGroup env config g ident vars tr) = verified_calls tr"
    using createVariablesForGroup_calls [of env config g ident vars tr] verified_calls_writes
    by blast
  show "\<not> InsecureSkipVerify (http_Client t)"
    by (rule plain_client_verifies)
  show "\<exists>k. calls_of (snd (executeGitLabAPIRequest env baseURL token resource tr)) =
             calls_of tr @ plain_reads 30 k
          \<and> verified_calls (snd (executeGitLabAPIRequest env baseURL token resource tr)) =
             verified_calls tr @ plain_reads 30 k
          \<and> (url_parses env (resource_url baseURL resource) \<longrightarrow> 0 < k)"
    using executeGitLabAPIRequest_loop_plain [of env baseURL token resource 0 tr]
      verified_calls_plain
    unfolding executeGitLabAPIRequest_def
    by (auto simp add: maxRetries_def)
next
  assume "fetchAllProjects env config g tr = Some y"
  from fetchAllProjects_calls [OF this] verified_calls_reads
  show "verified_calls (snd y) = verified_calls tr" by blast
next
  assume "migrateVariablesCmd_Run env g tr = Some z"
  from migrateVariablesCmd_Run_calls [OF this] verified_calls_reads_writes
  show "verified_calls (snd z) = verified_calls tr" by blast
next
  assume "fetchGroupProjects env config ident fromSource tr = Some w"
  from fetchGroupProjects_plain [OF this] verified_calls_plain
  show "\<exists>k. calls_of (snd w) = calls_of tr @ plain_reads 0 k
           \<and> verified_calls (snd w) = verified_calls tr @ plain_reads 0 k
           \<and> (url_parses env (subgroups_page_url (base_of config fromSource) ident 1) \<longrightarrow>
                0 < k)"
    by blast
next
  assume group: "flag_groupID g \<noteq> []"
  show "verified_calls (getProjectsCmd_Run env g tr) = verified_calls tr"
  proof (cases "loadConfig env")
    case None
    then show ?thesis
      by (simp add: verified_calls_def getProjectsCmd_Run_calls_none)
  next
    case (Some c)
    from getProjectsForGroup_calls [of env c g "flag_groupID g" tr]
    obtain k where "calls_of (snd (getProjectsForGroup env c g (flag_groupID g) tr)) =
        calls_of tr @ reads k" ..
    with group have "calls_of (getProjectsCmd_Run env g tr) = calls_of tr @ reads k"
      by (simp add: getProjectsCmd_Run_calls [OF Some])
    then show ?thesis
      by (rule verified_calls_reads)
  qed
next
  assume all: "flag_groupID g = []" and config: "loadConfig env = Some config"
    and url: "url_parses env (resource_url (SourceBaseURL config) ''projects'')"
  from executeGitLabAPIRequest_loop_plain [of env "SourceBaseURL config"
      "SourceAccessToken config" "''projects''" 0 tr] url
  obtain k where k: "0 < k"
    and "calls_of (snd (executeGitLabAPIRequest env (SourceBaseURL config)
      (SourceAccessToken config) ''projects'' tr)) = calls_of tr @ plain_reads 30 k"
    unfolding executeGitLabAPIRequest_def by (auto simp add: maxRetries_def)
  with all have "calls_of (getProjectsCmd_Run env g tr) = calls_of tr @ plain_reads 30 k"
    by (simp add: getProjectsCmd_Run_calls [OF config])
  then have "verified_calls (getProjectsCmd_Run env g tr) = verified_calls tr @ plain_reads 30 k"
    by (rule verified_calls_plain)
  with k show "\<exists>k. 0 < k
           \<and> verified_calls (getProjectsCmd_Run env g tr) =
               verified_calls tr @ plain_reads 30 k"
    by blast
qed

text \<open>The migration from project 3 to project 7, a destination listing of one empty page,
  the request that succeeds at the third attempt, a listing of the mirror workflow, and
  the listing of the projects of group 10 and of all projects.\<close>

theorem only_configured_clients_witness:
  "migrateVariablesCmd_Run (lab project_script) project_flags [] = Some (Returned, project_run)
   \<and> verified_calls project_run = []
   \<and> fetchAllProjects (lab [ok_page []]) example_config example_flags [] =
     Some (Inr [],
       [Sent skip_verify_client (get_request
          ''https://dst.example/api/v4/groups/20/projects?per_page=100&page=1'' ''d-token'')])
   \<and> verified_calls
       [Sent skip_verify_client (get_request
          ''https://dst.example/api/v4/groups/20/projects?per_page=100&page=1'' ''d-token'')] = []
   \<and> (\<exists>k. 0 < k
        \<and> verified_calls (snd (executeGitLabAPIRequest (lab third_time_lucky)
             ''https://src.example'' ''s-token'' ''projects'' [])) = plain_reads 30 k)
   \<and> (\<exists>k. 0 < k
        \<and> verified_calls (snd (the (fetchGroupProjects (lab [ok_page []]) example_config
             ''10'' True []))) = plain_reads 0 k)
   \<and> verified_calls (getProjectsCmd_Run (lab [ok_page [a_project]]) example_flags []) = []
   \<and> (\<exists>k. 0 < k
        \<and> verified_calls (getProjectsCmd_Run (lab [ok_page [a_project]]) all_projects_flags [])
            = plain_reads 30 k)"
proof -
  have 1: "verified_calls project_run = []"
    using only_configured_clients_skip_verification [where env = "lab project_script"
        and g = project_flags and tr = "[]" and z = "(Returned, project_run)"]
      project_run_eval
    by (simp add: verified_calls_def)
  have 2: "verified_calls
       [Sent skip_verify_client (get_request
          ''https://dst.example/api/v4/groups/20/projects?per_page=100&page=1'' ''d-token'')] = []"
    using only_configured_clients_skip_verification [where env = "lab [ok_page []]"
        and config = example_config and g = example_flags and tr = "[]"
        and y = "(Inr [], [Sent skip_verify_client (get_request
          ''https://dst.example/api/v4/groups/20/projects?per_page=100&page=1'' ''d-token'')])"]
      empty_listing_eval
    by (simp add: verified_calls_def)
  have "\<exists>k. calls_of (snd (executeGitLabAPIRequest (lab third_time_lucky)
               ''https://src.example'' ''s-token'' ''projects'' [])) =
             calls_of [] @ plain_reads 30 k
          \<and> verified_calls (snd (executeGitLabAPIRequest (lab third_time_lucky)
               ''https://src.example'' ''s-token'' ''projects'' [])) =
             verified_calls [] @ plain_reads 30 k
          \<and> (url_parses (lab third_time_lucky)
                (resource_url ''https://src.example'' ''projects'') \<longrightarrow> 0 < k)"
    using only_configured_clients_skip_verification [where env = "lab third_time_lucky"
        and baseURL = "''https://src.example''" and token = "''s-token''"
        and resource = "''projects''" and tr = "[]"]
    by blast
  then have 3: "\<exists>k. 0 < k
        \<and> verified_calls (snd (executeGitLabAPIRequest (lab third_time_lucky)
             ''https://src.example'' ''s-token'' ''projects'' [])) = plain_reads 30 k"
    by (auto simp add: lab_def any_url_def verified_calls_def)
  have "fetchGroupProjects (lab [ok_page []]) example_config ''10'' True [] =
      Some (Inr [], [Sent (http_Client 0) (get_request
          ''https://src.example/api/v4/groups/10/projects?per_page=100&page=1&include_subgroups=true''
          ''s-token'')]) \<longrightarrow>
      (\<exists>k. calls_of (snd (Inr [] :: error + json list, [Sent (http_Client 0) (get_request
          ''https://src.example/api/v4/groups/10/projects?per_page=100&page=1&include_subgroups=true''
          ''s-token'')])) = calls_of [] @ plain_reads 0 k
         \<and> verified_calls (snd (Inr [] :: error + json list, [Sent (http_Client 0) (get_request
          ''https://src.example/api/v4/groups/10/projects?per_page=100&page=1&include_subgroups=true''
          ''s-token'')])) = verified_calls [] @ plain_reads 0 k
         \<and> (url_parses (lab [ok_page []])
               (subgroups_page_url (base_of example_config True) ''10'' 1) \<longrightarrow> 0 < k))"
    using only_configured_clients_skip_verification [where env = "lab [ok_page []]"
        and config = example_config and ident = "''10''" and fromSource = True and tr = "[]"
        and w = "(Inr [], [Sent (http_Client 0) (get_request
          ''https://src.example/api/v4/groups/10/projects?per_page=100&page=1&include_subgroups=true''
          ''s-token'')])"]
    by blast
  with mirror_listing_eval
  have 4: "\<exists>k. 0 < k
        \<and> verified_calls (snd (the (fetchGroupProjects (lab [ok_page []]) example_config
             ''10'' True []))) = plain_reads 0 k"
    by (auto simp add: lab_def any_url_def verified_calls_def)
  have "flag_groupID example_flags \<noteq> [] \<longrightarrow>
      verified_calls (getProjectsCmd_Run (lab [ok_page [a_project]]) example_flags []) =
      verified_calls []"
    using only_configured_clients_skip_verification [where env = "lab [ok_page [a_project]]"
        and g = example_flags and tr = "[]"]
    by blast
  then have 5: "verified_calls (getProjectsCmd_Run (lab [ok_page [a_project]]) example_flags [])
      = []"
    by (simp add: example_flags_def verified_calls_def)
  have "flag_groupID all_projects_flags = [] \<longrightarrow>
      loadConfig (lab [ok_page [a_project]]) = Some example_config \<longrightarrow>
      url_parses (lab [ok_page [a_project]])
        (resource_url (SourceBaseURL example_config) ''projects'') \<longrightarrow>
      (\<exists>k. 0 < k
         \<and> verified_calls (getProjectsCmd_Run (lab [ok_page [a_project]]) all_projects_flags [])
             = verified_calls [] @ plain_reads 30 k)"
    using only_configured_clients_skip_verification [where env = "lab [ok_page [a_project]]"
        and g = all_projects_flags and config = example_config and tr = "[]"]
    by blast
  then have 6: "\<exists>k. 0 < k
        \<and> verified_calls (getProjectsCmd_Run (lab [ok_page [a_project]]) all_projects_flags [])
            = plain_reads 30 k"
    by (simp add: all_projects_flags_def lab_def any_url_def verified_calls_def)
  from 1 2 3 4 5 6 project_run_eval empty_listing_eval show ?thesis by simp
qed

text \<open>
  The command that lists all projects sends its request through a client that verifies
  the certificate, and so does the listing of the mirror workflow, where C10 has no request
  of these workflows verify it.
\<close>

theorem plain_clients_verify_counterexample:
  "getProjectsCmd_Run (lab [ok_page [a_project]]) all_projects_flags [] =
     [Sent (http_Client 30)
        (get_request ''https://src.example/api/v4/projects?per_page=100'' ''s-token''),
      Saved ''data/s-gitlab_get_projects.json'' (JArray [a_project]),
      Printed (SuccessfullySaved ''data/s-gitlab_get_projects.json'')]
   \<and> \<not> InsecureSkipVerify (http_Client 30)
   \<and> verified_calls (getProjectsCmd_Run (lab [ok_page [a_project]]) all_projects_flags []) =
       [(http_Client 30, ''GET'')]
   \<and> fetchGroupProjects (lab [ok_page []]) example_config ''10'' True [] =
       Some (Inr [],
         [Sent (http_Client 0) (get_request
            ''https://src.example/api/v4/groups/10/projects?per_page=100&page=1&include_subgroups=true''
            ''s-token'')])
   \<and> \<not> InsecureSkipVerify (http_Client 0)"
  unfolding all_projects_eval mirror_listing_eval
  by (simp add: verified_calls_def plain_client_verifies get_request_def)

end
